theory Spec2Isabelle
  imports Complex_Main "HOL-Library.Word"
begin

section \<open>Numbers of the source\<close>

text \<open>
  The decoder of \<^verbatim>\<open>velodyne_pointcloud/src/lib/rawdata.cc\<close> computes with C++
  \<^verbatim>\<open>float\<close> and \<^verbatim>\<open>double\<close> values. With one exception they are read here as real
  numbers: every arithmetic operation is exact, there is no rounding, no overflow and
  no NaN. The exception is the interpolation of the azimuth in \<^verbatim>\<open>unpack_vlp\<close> (lines
  385 to 387), whose result is rounded to an integer and used as an index: there every
  operation rounds its result to single precision, see \<open>to_float\<close> below. The
  integer operations of the source keep their C++ meaning: division and remainder
  truncate towards zero, \<^verbatim>\<open>round\<close> rounds a half away from zero, and the conversion
  of a floating value to \<^verbatim>\<open>int\<close> drops the fraction.
\<close>

definition c_trunc :: "real \<Rightarrow> int" where
  "c_trunc v = (if 0 \<le> v then \<lfloor>v\<rfloor> else \<lceil>v\<rceil>)"

definition c_round :: "real \<Rightarrow> int" where
  "c_round v = (if 0 \<le> v then \<lfloor>v + 1 / 2\<rfloor> else \<lceil>v - 1 / 2\<rceil>)"

definition c_div :: "int \<Rightarrow> int \<Rightarrow> int" where
  "c_div a b = sgn a * sgn b * (\<bar>a\<bar> div \<bar>b\<bar>)"

definition c_rem :: "int \<Rightarrow> int \<Rightarrow> int" where
  "c_rem a b = sgn a * (\<bar>a\<bar> mod \<bar>b\<bar>)"

definition fmod :: "real \<Rightarrow> real \<Rightarrow> real" where
  "fmod v w = v - w * of_int (c_trunc (v / w))"

definition fits_int :: "int \<Rightarrow> bool" where
  "fits_int n = (- (2 ^ 31) \<le> n \<and> n < 2 ^ 31)"

text \<open>
  Single precision. A \<^verbatim>\<open>float\<close> has a significand of 24 bits, and an operation on
  floats yields the float nearest to its exact result, the one with the even
  significand when two are equally near. \<open>round_float\<close> scales its argument by powers
  of two until the magnitude lies in \<open>[2^23, 2^24)\<close>, where the floats are the
  integers, rounds there and scales back. Its first argument bounds the number of
  scalings: with 300 of them every magnitude between \<open>2^-276\<close> and \<open>2^323\<close> is
  rounded, which covers the range of a \<^verbatim>\<open>float\<close>; a magnitude outside is returned as
  it is. Overflow to infinity and the coarser spacing of the subnormal numbers below
  \<open>2^-126\<close> are not modelled.
\<close>

definition round_half_even :: "real \<Rightarrow> int" where
  "round_half_even y =
     (let f = \<lfloor>y\<rfloor>; d = y - of_int f
      in if d < 1 / 2 then f else if 1 / 2 < d then f + 1 else if even f then f else f + 1)"

fun round_float :: "nat \<Rightarrow> real \<Rightarrow> real" where
  "round_float 0 x = x"
| "round_float (Suc n) x =
     (if 2 ^ 24 \<le> \<bar>x\<bar> then 2 * round_float n (x / 2)
      else if \<bar>x\<bar> < 2 ^ 23 then round_float n (2 * x) / 2
      else of_int (round_half_even x))"

definition to_float :: "real \<Rightarrow> real" where
  "to_float x = (if x = 0 then 0 else round_float 300 x)"

section \<open>Data model\<close>

text \<open>
  What can go wrong inside one decode call. \<open>OutOfRange\<close> is the exception of the
  bounds-checked \<^verbatim>\<open>laser_corrections.at\<close>, \<open>TimeOutOfRange\<close> the exception of the
  time addition of the ROS client library; the others are the undefined behaviours of
  the source (an unchecked array index, an integer division by zero, a floating value
  converted to \<^verbatim>\<open>int\<close> that does not fit), made visible as results.
\<close>

datatype error =
    OutOfRange
  | TimeOutOfRange
  | DivideByZero
  | FloatToIntOverflow
  | DataIndex
  | RotTableIndex
  | TimingIndex

record LaserCorrection =
  dist_correction :: real
  two_pt_correction_available :: bool
  dist_correction_x :: real
  dist_correction_y :: real
  vert_offset_correction :: real
  horiz_offset_correction :: real
  max_intensity :: real
  min_intensity :: real
  focal_distance :: real
  focal_slope :: real
  cos_rot_correction :: real
  sin_rot_correction :: real
  cos_vert_correction :: real
  sin_vert_correction :: real
  laser_ring :: int

record Calibration =
  laser_corrections :: "nat \<rightharpoonup> LaserCorrection"
  num_lasers :: int
  initialized :: bool

record Config =
  calibrationFile :: string
  deviceModel :: string
  max_range :: real
  min_range :: real
  min_angle :: int
  max_angle :: int
  tmp_min_angle :: real
  tmp_max_angle :: real

record VLPSpec =
  distance_resolution :: real
  firing_duration :: real
  firing_seq_duration :: real
  block_duration :: real
  lasers_per_firing :: int
  lasers_per_firing_seq :: int
  firing_seqs_per_block :: int

text \<open>
  \<^verbatim>\<open>ros::Time\<close> and \<^verbatim>\<open>ros::Duration\<close> belong to the ROS client library: a pair of
  seconds and nanoseconds, the nanoseconds kept in \<open>[0, 10^9)\<close>. A duration is built
  from a number of seconds; a time plus a duration is normalised again and must stay
  in the unsigned 32-bit range of seconds.
\<close>

record Time =
  sec :: nat
  nsec :: nat

record Duration =
  d_sec :: int
  d_nsec :: int

definition Duration_of :: "real \<Rightarrow> Duration" where
  "Duration_of d =
     (let s = \<lfloor>d\<rfloor>;
          ns = round ((d - of_int s) * 10 ^ 9)
      in \<lparr>d_sec = s + ns div 10 ^ 9, d_nsec = ns mod 10 ^ 9\<rparr>)"

definition time_plus :: "Time \<Rightarrow> Duration \<Rightarrow> error + Time" where
  "time_plus t d =
     (let total = (int (sec t) + d_sec d) * 10 ^ 9 + (int (nsec t) + d_nsec d);
          s = total div 10 ^ 9
      in if s < 0 \<or> 2 ^ 32 \<le> s then Inl TimeOutOfRange
         else Inr \<lparr>sec = nat s, nsec = nat (total mod 10 ^ 9)\<rparr>)"

text \<open>
  A raw packet, seen through the \<^verbatim>\<open>raw_packet_t\<close> overlay the decoder casts the packet
  bytes to: twelve blocks, each a 16-bit header, a 16-bit rotation and the block's data
  bytes. The arrays have a fixed size, so they are functions of the index; every read
  is checked against the array's size where the source indexes with a computed value.
\<close>

record raw_block =
  header :: "16 word"
  rotation :: "16 word"
  data :: "nat \<Rightarrow> 8 word"

record VelodynePacket =
  stamp :: Time
  blocks :: "nat \<Rightarrow> raw_block"

record VPoint =
  point_x :: real
  point_y :: real
  point_z :: real
  point_intensity :: real
  time_sec :: nat
  time_nsec :: nat
  laser_id :: int

record VPointCloud =
  points :: "VPoint list"
  width :: "32 word"

record RawData =
  config :: Config
  calibration :: Calibration
  vlp_spec :: VLPSpec
  timing_offsets :: "Duration list list"
  is_vlp :: bool
  cos_rot_table :: "nat \<Rightarrow> real"
  sin_rot_table :: "nat \<Rightarrow> real"

text \<open>
  The constants that \<^verbatim>\<open>rawdata.h\<close> declares and whose values neither the source file
  nor the specification gives are parameters of the model.
\<close>

record header_consts =
  UPPER_BANK :: "16 word"
  LOWER_BANK :: "16 word"
  DISTANCE_RESOLUTION :: real
  VLP_16_SPEC :: VLPSpec
  VLP_32_SPEC :: VLPSpec

text \<open>
  Modelled from the spec: the wire format constants of \<^verbatim>\<open>rawdata.h\<close>. A packet has
  twelve blocks (the timing table of the source has one row for each), a block has 32
  channel entries of three bytes (a 2-byte distance and a 1-byte intensity), and an
  azimuth is counted in hundredths of a degree, 36000 to the circle.
\<close>

definition BLOCKS_PER_PACKET :: nat where
  "BLOCKS_PER_PACKET = 12"

definition SCANS_PER_BLOCK :: nat where
  "SCANS_PER_BLOCK = 32"

definition RAW_SCAN_SIZE :: nat where
  "RAW_SCAN_SIZE = 3"

definition BLOCK_DATA_SIZE :: nat where
  "BLOCK_DATA_SIZE = SCANS_PER_BLOCK * RAW_SCAN_SIZE"

definition ROTATION_MAX_UNITS :: nat where
  "ROTATION_MAX_UNITS = 36000"

definition ROTATION_RESOLUTION :: real where
  "ROTATION_RESOLUTION = 0.01"

text \<open>
  The union \<^verbatim>\<open>two_bytes\<close> of \<^verbatim>\<open>rawdata.h\<close> overlays two bytes with one unsigned
  16-bit value; on the little-endian hosts the driver runs on, byte 0 is the low byte.
\<close>

definition two_bytes_uint :: "8 word \<Rightarrow> 8 word \<Rightarrow> nat" where
  "two_bytes_uint b0 b1 = unat b0 + 256 * unat b1"

text \<open>
  Modelled from the spec: \<^verbatim>\<open>pointInRange\<close> is declared in \<^verbatim>\<open>rawdata.h\<close>; the range
  test keeps a point when \<open>min_range \<le> distance \<le> max_range\<close>, bounds included.
\<close>

definition pointInRange :: "RawData \<Rightarrow> real \<Rightarrow> bool" where
  "pointInRange rd r = (r \<ge> min_range (config rd) \<and> r \<le> max_range (config rd))"

section \<open>setParameters\<close>

definition hardware_angle :: "real \<Rightarrow> int" where
  "hardware_angle tmp_angle = c_trunc (100 * (2 * pi - tmp_angle) * 180 / pi + 0.5)"

definition positive_modulo :: "real \<Rightarrow> real" where
  "positive_modulo angle = fmod (fmod angle (2 * pi) + 2 * pi) (2 * pi)"

definition setParameters :: "real \<Rightarrow> real \<Rightarrow> real \<Rightarrow> real \<Rightarrow> RawData \<Rightarrow> RawData" where
  "setParameters min_range' max_range' view_direction view_width rd =
     (let c1 = (config rd)\<lparr>min_range := min_range', max_range := max_range'\<rparr>;
          c2 = c1\<lparr>tmp_min_angle := view_direction + view_width / 2,
                  tmp_max_angle := view_direction - view_width / 2\<rparr>;
          c3 = c2\<lparr>tmp_min_angle := positive_modulo (tmp_min_angle c2),
                  tmp_max_angle := positive_modulo (tmp_max_angle c2)\<rparr>;
          c4 = c3\<lparr>min_angle := hardware_angle (tmp_min_angle c3),
                  max_angle := hardware_angle (tmp_max_angle c3)\<rparr>
      in rd\<lparr>config :=
              (if min_angle c4 = max_angle c4
               then c4\<lparr>min_angle := 0, max_angle := 36000\<rparr>
               else c4)\<rparr>)"

section \<open>setup and the timing table\<close>

text \<open>
  The value the loop body of \<^verbatim>\<open>getVLP32TimingOffsets\<close> stores at \<open>offsets[i][j]\<close>
  (lines 136 to 150).
\<close>

definition timing_offset :: "header_consts \<Rightarrow> nat \<Rightarrow> nat \<Rightarrow> Duration" where
  "timing_offset hc i j =
     (let full_firing_cycle = firing_seq_duration (VLP_32_SPEC hc) * 0.000001;
          single_firing = firing_duration (VLP_32_SPEC hc) * 0.000001;
          dual_mode = False;
          block_idx = (if dual_mode then real (i div 2) else real i);
          pt_idx = real (j div 2)
      in Duration_of ((full_firing_cycle * block_idx) + (single_firing * pt_idx)))"

function fill_row :: "header_consts \<Rightarrow> nat \<Rightarrow> nat \<Rightarrow> Duration list \<Rightarrow> Duration list" where
  "fill_row hc i j row =
     (if j < length row
      then fill_row hc i (j + 1) (row[j := timing_offset hc i j])
      else row)"
  by pat_completeness auto
termination
  by (relation "measure (\<lambda>(hc, i, j, row). length row - j)") auto

function fill_rows :: "header_consts \<Rightarrow> nat \<Rightarrow> Duration list list \<Rightarrow> Duration list list" where
  "fill_rows hc i offsets =
     (if i < length offsets
      then fill_rows hc (i + 1) (offsets[i := fill_row hc i 0 (offsets ! i)])
      else offsets)"
  by pat_completeness auto
termination
  by (relation "measure (\<lambda>(hc, i, offsets). length offsets - i)") auto

definition getVLP32TimingOffsets :: "header_consts \<Rightarrow> Duration list list" where
  "getVLP32TimingOffsets hc = fill_rows hc 0 (replicate 12 (replicate 32 (Duration_of 0)))"

definition from_degrees :: "real \<Rightarrow> real" where
  "from_degrees degrees = degrees * pi / 180"

function fill_rot_tables ::
  "nat \<Rightarrow> (nat \<Rightarrow> real) \<times> (nat \<Rightarrow> real) \<Rightarrow> (nat \<Rightarrow> real) \<times> (nat \<Rightarrow> real)" where
  "fill_rot_tables rot_index tabs =
     (if rot_index < ROTATION_MAX_UNITS
      then fill_rot_tables (rot_index + 1)
             ((fst tabs)(rot_index := cos (from_degrees (ROTATION_RESOLUTION * real rot_index))),
              (snd tabs)(rot_index := sin (from_degrees (ROTATION_RESOLUTION * real rot_index))))
      else tabs)"
  by pat_completeness auto
termination
  by (relation "measure (\<lambda>(rot_index, tabs). ROTATION_MAX_UNITS - rot_index)") auto

text \<open>
  The node handle gives the two parameters \<^verbatim>\<open>calibration\<close> and \<^verbatim>\<open>device_model\<close>, each
  present or not; reading the calibration file and finding the package path are the
  work of external collaborators, passed in as \<open>read_calibration\<close> and \<open>pkgPath\<close>.
  The result is the return code with the state of the object after the call.
\<close>

record NodeHandle =
  calibration_param :: "string option"
  device_model_param :: "string option"

definition RawData_setup ::
  "header_consts \<Rightarrow> string \<Rightarrow> (string \<Rightarrow> Calibration) \<Rightarrow> NodeHandle \<Rightarrow> RawData \<Rightarrow> int \<times> RawData" where
  "RawData_setup hc pkgPath read_calibration private_nh rd =
     (let file = (case calibration_param private_nh of
                    Some f \<Rightarrow> f
                  | None \<Rightarrow> pkgPath @ ''/params/64e_utexas.yaml'');
          rd1 = rd\<lparr>config := (config rd)\<lparr>calibrationFile := file\<rparr>\<rparr>;
          rd2 = rd1\<lparr>calibration := read_calibration file\<rparr>
      in if \<not> initialized (calibration rd2) then (- 1, rd2)
         else
           (let rd3 = (case device_model_param private_nh of
                         Some m \<Rightarrow> rd2\<lparr>config := (config rd2)\<lparr>deviceModel := m\<rparr>\<rparr>
                       | None \<Rightarrow> rd2);
                rd4 = (if num_lasers (calibration rd3) = 16
                       then rd3\<lparr>vlp_spec := VLP_16_SPEC hc, timing_offsets := [], is_vlp := True\<rparr>
                       else if deviceModel (config rd3) = ''VLP32''
                       then rd3\<lparr>vlp_spec := VLP_32_SPEC hc,
                                timing_offsets := getVLP32TimingOffsets hc, is_vlp := True\<rparr>
                       else rd3\<lparr>timing_offsets := [], is_vlp := False\<rparr>);
                tabs = fill_rot_tables 0 (cos_rot_table rd4, sin_rot_table rd4)
            in (0, rd4\<lparr>cos_rot_table := fst tabs, sin_rot_table := snd tabs\<rparr>)))"

section \<open>The decoder\<close>

subsection \<open>The field-of-view test and the shared arithmetic\<close>

text \<open>
  The azimuth test is written the same way in both decode paths; \<open>a\<close> is the block's
  raw rotation in the legacy path and the corrected azimuth in the VLP path.
\<close>

definition azimuth_in_window :: "Config \<Rightarrow> int \<Rightarrow> bool" where
  "azimuth_in_window c a =
     ((a \<ge> min_angle c \<and> a \<le> max_angle c \<and> min_angle c < max_angle c)
      \<or> (min_angle c > max_angle c \<and> (a \<le> max_angle c \<or> a \<ge> min_angle c)))"

text \<open>
  The position calculation, from the corrected distance and the table's cosine and
  sine at the azimuth to the point in the ROS coordinate system. Both paths carry the
  same statements.
\<close>

definition point_xyz :: "LaserCorrection \<Rightarrow> real \<Rightarrow> real \<Rightarrow> real \<Rightarrow> real \<times> real \<times> real" where
  "point_xyz corrections distance cos_rot_tab sin_rot_tab =
     (let cos_vert_angle = cos_vert_correction corrections;
          sin_vert_angle = sin_vert_correction corrections;
          cos_rot_angle =
            cos_rot_tab * cos_rot_correction corrections +
            sin_rot_tab * sin_rot_correction corrections;
          sin_rot_angle =
            sin_rot_tab * cos_rot_correction corrections -
            cos_rot_tab * sin_rot_correction corrections;
          horiz_offset = horiz_offset_correction corrections;
          vert_offset = vert_offset_correction corrections;
          xy_distance = distance * cos_vert_angle - vert_offset * sin_vert_angle;
          xx = xy_distance * sin_rot_angle - horiz_offset * cos_rot_angle;
          yy = xy_distance * cos_rot_angle + horiz_offset * sin_rot_angle;
          xx = (if xx < 0 then - xx else xx);
          yy = (if yy < 0 then - yy else yy);
          distance_corr_x =
            (if two_pt_correction_available corrections
             then ((dist_correction corrections - dist_correction_x corrections)
                     * (xx - 2.4) / (25.04 - 2.4)
                   + dist_correction_x corrections)
                  - dist_correction corrections
             else 0);
          distance_corr_y =
            (if two_pt_correction_available corrections
             then ((dist_correction corrections - dist_correction_y corrections)
                     * (yy - 1.93) / (25.04 - 1.93)
                   + dist_correction_y corrections)
                  - dist_correction corrections
             else 0);
          distance_x = distance + distance_corr_x;
          xy_distance = distance_x * cos_vert_angle - vert_offset * sin_vert_angle;
          px = xy_distance * sin_rot_angle - horiz_offset * cos_rot_angle;
          distance_y = distance + distance_corr_y;
          xy_distance = distance_y * cos_vert_angle - vert_offset * sin_vert_angle;
          py = xy_distance * cos_rot_angle + horiz_offset * sin_rot_angle;
          pz = distance_y * sin_vert_angle + vert_offset * cos_vert_angle
      in (py, - px, pz))"

text \<open>
  The intensity calculation of the legacy path (lines 292 to 304): the raw distance is
  cast to \<^verbatim>\<open>float\<close> before it is divided by 65535.
\<close>

definition legacy_intensity :: "LaserCorrection \<Rightarrow> nat \<Rightarrow> 8 word \<Rightarrow> real" where
  "legacy_intensity corrections tmp_uint raw_intensity =
     (let min_intensity' = min_intensity corrections;
          max_intensity' = max_intensity corrections;
          intensity = real (unat raw_intensity);
          focal_offset = 256
                         * (1 - focal_distance corrections / 13100)
                         * (1 - focal_distance corrections / 13100);
          focal_slope' = focal_slope corrections;
          intensity = intensity + focal_slope' * \<bar>focal_offset - 256 *
            (1 - real tmp_uint / 65535) * (1 - real tmp_uint / 65535)\<bar>;
          intensity = (if intensity < min_intensity' then min_intensity' else intensity);
          intensity = (if intensity > max_intensity' then max_intensity' else intensity)
      in intensity)"

text \<open>
  The intensity calculation of the VLP path (lines 483 to 495): here
  \<^verbatim>\<open>tmp.uint/65535\<close> divides two integers, and the product with 256 is an integer too.
\<close>

definition vlp_intensity :: "LaserCorrection \<Rightarrow> nat \<Rightarrow> 8 word \<Rightarrow> real" where
  "vlp_intensity corrections tmp_uint raw_intensity =
     (let min_intensity' = min_intensity corrections;
          max_intensity' = max_intensity corrections;
          intensity = real (unat raw_intensity);
          focal_offset = 256
                         * (1 - focal_distance corrections / 13100)
                         * (1 - focal_distance corrections / 13100);
          focal_slope' = focal_slope corrections;
          intensity = intensity + focal_slope' * \<bar>focal_offset - real_of_int (256 *
            (1 - c_div (int tmp_uint) 65535) * (1 - c_div (int tmp_uint) 65535))\<bar>;
          intensity = (if intensity < min_intensity' then min_intensity' else intensity);
          intensity = (if intensity > max_intensity' then max_intensity' else intensity)
      in intensity)"

definition push_back :: "VPoint \<Rightarrow> VPointCloud \<Rightarrow> VPointCloud" where
  "push_back point pc = pc\<lparr>points := points pc @ [point], width := width pc + 1\<rparr>"

subsection \<open>The VLP16/VLP32 path\<close>

text \<open>
  Lines 385 to 387, the interpolation of the azimuth. \<^verbatim>\<open>firing_offset\<close>,
  \<^verbatim>\<open>firing_seq_offset\<close>, \<^verbatim>\<open>azimuth\<close>, \<^verbatim>\<open>azimuth_diff\<close> and \<^verbatim>\<open>azimuth_corrected_f\<close>
  are \<^verbatim>\<open>float\<close> variables. The durations of the device profile are declared in
  \<^verbatim>\<open>rawdata.h\<close>, which is not among the sources; they are taken to be \<^verbatim>\<open>float\<close>
  values as well, so that every operation of the three lines is an operation on
  floats: the conversion of the two integers, two products, the sum, the product with
  the azimuth difference, the quotient and the final sum each round to single
  precision. The azimuth and the azimuth difference themselves are integers of a
  magnitude below \<open>2^24\<close>, which a \<^verbatim>\<open>float\<close> holds exactly.
\<close>

definition vlp_azimuth_corrected_f :: "VLPSpec \<Rightarrow> real \<Rightarrow> real \<Rightarrow> nat \<Rightarrow> nat \<Rightarrow> real" where
  "vlp_azimuth_corrected_f spec azimuth azimuth_diff firing_seq laser =
     (let firing_offset =
            to_float (to_float (real_of_int (c_div (int laser) (lasers_per_firing spec)))
                      * firing_duration spec);
          firing_seq_offset = to_float (to_float (real firing_seq) * firing_seq_duration spec)
      in to_float (azimuth
                   + to_float (to_float (azimuth_diff * to_float (firing_offset + firing_seq_offset))
                               / block_duration spec)))"

definition vlp_point_time :: "RawData \<Rightarrow> VelodynePacket \<Rightarrow> nat \<Rightarrow> nat \<Rightarrow> error + Time" where
  "vlp_point_time rd pkt block firing_seq =
     (if timing_offsets rd \<noteq> [] then
        (if block < length (timing_offsets rd) \<and> firing_seq < length (timing_offsets rd ! block)
         then time_plus (stamp pkt) (timing_offsets rd ! block ! firing_seq)
         else Inl TimingIndex)
      else Inr (stamp pkt))"

text \<open>
  The body of the innermost loop of \<^verbatim>\<open>unpack_vlp\<close> (lines 376 to 519) for one channel
  entry: an error, no point (the entry is filtered out) or the point to append.
\<close>

definition vlp_scan ::
  "header_consts \<Rightarrow> RawData \<Rightarrow> VelodynePacket \<Rightarrow> nat \<Rightarrow> real \<Rightarrow> real \<Rightarrow> nat \<Rightarrow> nat \<Rightarrow> nat
     \<Rightarrow> error + VPoint option" where
  "vlp_scan hc rd pkt block azimuth azimuth_diff firing_seq laser k =
     (case laser_corrections (calibration rd) laser of
        None \<Rightarrow> Inl OutOfRange
      | Some corrections \<Rightarrow>
          if BLOCK_DATA_SIZE \<le> k + 1 then Inl DataIndex
          else if lasers_per_firing (vlp_spec rd) = 0 then Inl DivideByZero
          else
            (let tmp_uint = two_bytes_uint (data (blocks pkt block) k) (data (blocks pkt block) (k + 1));
                 azimuth_corrected_f =
                   vlp_azimuth_corrected_f (vlp_spec rd) azimuth azimuth_diff firing_seq laser
             in if block_duration (vlp_spec rd) = 0 \<or> \<not> fits_int (c_round azimuth_corrected_f)
                then Inl FloatToIntOverflow
                else
                  (let azimuth_corrected = c_rem (c_round azimuth_corrected_f) 36000
                   in if azimuth_in_window (config rd) azimuth_corrected then
                        (let distance = real tmp_uint * distance_resolution (vlp_spec rd)
                                        + dist_correction corrections
                         in if azimuth_corrected < 0 \<or> int ROTATION_MAX_UNITS \<le> azimuth_corrected
                            then Inl RotTableIndex
                            else if BLOCK_DATA_SIZE \<le> k + 2 then Inl DataIndex
                            else
                              (let xyz = point_xyz corrections distance
                                           (cos_rot_table rd (nat azimuth_corrected))
                                           (sin_rot_table rd (nat azimuth_corrected));
                                   intensity = vlp_intensity corrections tmp_uint
                                                 (data (blocks pkt block) (k + 2))
                               in if pointInRange rd distance then
                                    (case vlp_point_time rd pkt block firing_seq of
                                       Inl e \<Rightarrow> Inl e
                                     | Inr pt_time \<Rightarrow>
                                         Inr (Some \<lparr>point_x = fst xyz,
                                                    point_y = fst (snd xyz),
                                                    point_z = snd (snd xyz),
                                                    point_intensity = intensity,
                                                    time_sec = sec pt_time,
                                                    time_nsec = nsec pt_time,
                                                    laser_id = laser_ring corrections\<rparr>))
                                  else Inr None))
                      else Inr None)))"

text \<open>
  The loop over the lasers of one firing sequence; \<open>k\<close> runs on through the block's
  data, so it is returned with the point cloud. A result \<open>Some e\<close> is the error that
  stopped the loop, with the points appended before it.
\<close>

function vlp_lasers ::
  "header_consts \<Rightarrow> RawData \<Rightarrow> VelodynePacket \<Rightarrow> nat \<Rightarrow> real \<Rightarrow> real \<Rightarrow> nat \<Rightarrow> nat \<Rightarrow> nat
     \<Rightarrow> VPointCloud \<Rightarrow> error option \<times> nat \<times> VPointCloud" where
  "vlp_lasers hc rd pkt block azimuth azimuth_diff firing_seq laser k pc =
     (if int laser < lasers_per_firing_seq (vlp_spec rd) then
        (case vlp_scan hc rd pkt block azimuth azimuth_diff firing_seq laser k of
           Inl e \<Rightarrow> (Some e, k, pc)
         | Inr None \<Rightarrow>
             vlp_lasers hc rd pkt block azimuth azimuth_diff firing_seq (laser + 1)
               (k + RAW_SCAN_SIZE) pc
         | Inr (Some point) \<Rightarrow>
             vlp_lasers hc rd pkt block azimuth azimuth_diff firing_seq (laser + 1)
               (k + RAW_SCAN_SIZE) (push_back point pc))
      else (None, k, pc))"
  by pat_completeness auto
termination
  by (relation "measure (\<lambda>(hc, rd, pkt, block, azimuth, azimuth_diff, firing_seq, laser, k, pc).
        nat (lasers_per_firing_seq (vlp_spec rd)) - laser)") auto

function vlp_firing_seqs ::
  "header_consts \<Rightarrow> RawData \<Rightarrow> VelodynePacket \<Rightarrow> nat \<Rightarrow> real \<Rightarrow> real \<Rightarrow> nat \<Rightarrow> nat
     \<Rightarrow> VPointCloud \<Rightarrow> error option \<times> VPointCloud" where
  "vlp_firing_seqs hc rd pkt block azimuth azimuth_diff firing_seq k pc =
     (if int firing_seq < firing_seqs_per_block (vlp_spec rd) then
        (case vlp_lasers hc rd pkt block azimuth azimuth_diff firing_seq 0 k pc of
           (Some e, k', pc') \<Rightarrow> (Some e, pc')
         | (None, k', pc') \<Rightarrow>
             vlp_firing_seqs hc rd pkt block azimuth azimuth_diff (firing_seq + 1) k' pc')
      else (None, pc))"
  by pat_completeness auto
termination
  by (relation "measure (\<lambda>(hc, rd, pkt, block, azimuth, azimuth_diff, firing_seq, k, pc).
        nat (firing_seqs_per_block (vlp_spec rd)) - firing_seq)") auto

text \<open>
  Lines 366 to 372: the azimuth difference of a block, from the next block's rotation
  or, for the last block, the difference kept from the block before.
\<close>

definition block_azimuth_diff :: "VelodynePacket \<Rightarrow> nat \<Rightarrow> real \<Rightarrow> real" where
  "block_azimuth_diff pkt block last_azimuth_diff =
     (if block < BLOCKS_PER_PACKET - 1
      then real_of_int (c_rem (36000 + uint (rotation (blocks pkt (block + 1)))
                                 - uint (rotation (blocks pkt block))) 36000)
      else last_azimuth_diff)"

text \<open>
  The loop over the blocks (lines 348 to 523). The result is what the call returns
  (\<open>Inr\<close>) or the error that ended it (\<open>Inl\<close>), and the point cloud as the call
  leaves it.
\<close>

function vlp_blocks ::
  "header_consts \<Rightarrow> RawData \<Rightarrow> VelodynePacket \<Rightarrow> nat \<Rightarrow> real \<Rightarrow> real \<Rightarrow> VPointCloud
     \<Rightarrow> (error + real) \<times> VPointCloud" where
  "vlp_blocks hc rd pkt block last_azimuth_diff slice_angle pc =
     (if block < BLOCKS_PER_PACKET then
        (if UPPER_BANK hc \<noteq> header (blocks pkt block) then (Inr (- 1), pc)
         else
           (let azimuth = real (unat (rotation (blocks pkt block)));
                azimuth_diff = block_azimuth_diff pkt block last_azimuth_diff;
                slice_angle' = (if block < BLOCKS_PER_PACKET - 1
                                then slice_angle + azimuth_diff else slice_angle);
                last_azimuth_diff' = (if block < BLOCKS_PER_PACKET - 1
                                      then azimuth_diff else last_azimuth_diff)
            in case vlp_firing_seqs hc rd pkt block azimuth azimuth_diff 0 0 pc of
                 (Some e, pc') \<Rightarrow> (Inl e, pc')
               | (None, pc') \<Rightarrow>
                   vlp_blocks hc rd pkt (block + 1) last_azimuth_diff' slice_angle' pc'))
      else (Inr slice_angle, pc))"
  by pat_completeness auto
termination
  by (relation "measure (\<lambda>(hc, rd, pkt, block, last_azimuth_diff, slice_angle, pc).
        BLOCKS_PER_PACKET - block)") auto

definition unpack_vlp ::
  "header_consts \<Rightarrow> RawData \<Rightarrow> VelodynePacket \<Rightarrow> VPointCloud \<Rightarrow> (error + real) \<times> VPointCloud" where
  "unpack_vlp hc rd pkt pc = vlp_blocks hc rd pkt 0 0 0 pc"

subsection \<open>The legacy path\<close>

text \<open>
  The body of the inner loop of \<^verbatim>\<open>unpackAndAdd\<close> (lines 187 to 323) for one channel
  entry. The laser number is an unsigned byte.
\<close>

definition legacy_scan ::
  "header_consts \<Rightarrow> RawData \<Rightarrow> VelodynePacket \<Rightarrow> nat \<Rightarrow> nat \<Rightarrow> nat \<Rightarrow> nat \<Rightarrow> error + VPoint option" where
  "legacy_scan hc rd pkt i bank_origin j k =
     (let laser_number = (j + bank_origin) mod 256
      in case laser_corrections (calibration rd) laser_number of
           None \<Rightarrow> Inl OutOfRange
         | Some corrections \<Rightarrow>
             if BLOCK_DATA_SIZE \<le> k + 1 then Inl DataIndex
             else
               (let tmp_uint = two_bytes_uint (data (blocks pkt i) k) (data (blocks pkt i) (k + 1))
                in if azimuth_in_window (config rd) (uint (rotation (blocks pkt i))) then
                     (let distance = real tmp_uint * DISTANCE_RESOLUTION hc
                                     + dist_correction corrections
                      in if ROTATION_MAX_UNITS \<le> unat (rotation (blocks pkt i))
                         then Inl RotTableIndex
                         else if BLOCK_DATA_SIZE \<le> k + 2 then Inl DataIndex
                         else
                           (let xyz = point_xyz corrections distance
                                        (cos_rot_table rd (unat (rotation (blocks pkt i))))
                                        (sin_rot_table rd (unat (rotation (blocks pkt i))));
                                intensity = legacy_intensity corrections tmp_uint
                                              (data (blocks pkt i) (k + 2))
                            in if pointInRange rd distance then
                                 (let pt_time = stamp pkt
                                  in Inr (Some \<lparr>point_x = fst xyz,
                                                point_y = fst (snd xyz),
                                                point_z = snd (snd xyz),
                                                point_intensity = intensity,
                                                time_sec = sec pt_time,
                                                time_nsec = nsec pt_time,
                                                laser_id = laser_ring corrections\<rparr>))
                               else Inr None))
                   else Inr None))"

function legacy_scans ::
  "header_consts \<Rightarrow> RawData \<Rightarrow> VelodynePacket \<Rightarrow> nat \<Rightarrow> nat \<Rightarrow> nat \<Rightarrow> nat \<Rightarrow> VPointCloud
     \<Rightarrow> error option \<times> VPointCloud" where
  "legacy_scans hc rd pkt i bank_origin j k pc =
     (if j < SCANS_PER_BLOCK then
        (case legacy_scan hc rd pkt i bank_origin j k of
           Inl e \<Rightarrow> (Some e, pc)
         | Inr None \<Rightarrow> legacy_scans hc rd pkt i bank_origin (j + 1) (k + RAW_SCAN_SIZE) pc
         | Inr (Some point) \<Rightarrow>
             legacy_scans hc rd pkt i bank_origin (j + 1) (k + RAW_SCAN_SIZE) (push_back point pc))
      else (None, pc))"
  by pat_completeness auto
termination
  by (relation "measure (\<lambda>(hc, rd, pkt, i, bank_origin, j, k, pc). SCANS_PER_BLOCK - j)") auto

function legacy_blocks ::
  "header_consts \<Rightarrow> RawData \<Rightarrow> VelodynePacket \<Rightarrow> nat \<Rightarrow> VPointCloud
     \<Rightarrow> (error + real) \<times> VPointCloud" where
  "legacy_blocks hc rd pkt i pc =
     (if i < BLOCKS_PER_PACKET then
        (let bank_origin = (if header (blocks pkt i) = LOWER_BANK hc then 32 else 0)
         in case legacy_scans hc rd pkt i bank_origin 0 0 pc of
              (Some e, pc') \<Rightarrow> (Inl e, pc')
            | (None, pc') \<Rightarrow> legacy_blocks hc rd pkt (i + 1) pc')
      else (Inr (- 1), pc))"
  by pat_completeness auto
termination
  by (relation "measure (\<lambda>(hc, rd, pkt, i, pc). BLOCKS_PER_PACKET - i)") auto

definition unpackAndAdd ::
  "header_consts \<Rightarrow> RawData \<Rightarrow> VelodynePacket \<Rightarrow> VPointCloud \<Rightarrow> (error + real) \<times> VPointCloud" where
  "unpackAndAdd hc rd pkt pc =
     (if is_vlp rd then unpack_vlp hc rd pkt pc
      else legacy_blocks hc rd pkt 0 pc)"

section \<open>The decode loops in closed form\<close>

text \<open>
  A decode loop visits the channel entries of a packet in a fixed order and appends
  the point of every entry that yields one, until an entry raises an error.
  \<open>append_scans\<close> is that effect on the point cloud for a list of entry results;
  the lemmas below show that each loop of the source is \<open>append_scans\<close> of the list
  of its entries.
\<close>

fun append_scans :: "(error + VPoint option) list \<Rightarrow> VPointCloud \<Rightarrow> error option \<times> VPointCloud" where
  "append_scans [] pc = (None, pc)"
| "append_scans (Inl e # rs) pc = (Some e, pc)"
| "append_scans (Inr None # rs) pc = append_scans rs pc"
| "append_scans (Inr (Some point) # rs) pc = append_scans rs (push_back point pc)"

text \<open>
  The expression of line 367 for the blocks \<open>b\<close> and \<open>b + 1\<close>, and the azimuth
  difference the loop of \<^verbatim>\<open>unpack_vlp\<close> holds while it decodes block \<open>b\<close>.
\<close>

definition inter_block_delta :: "VelodynePacket \<Rightarrow> nat \<Rightarrow> int" where
  "inter_block_delta pkt b =
     c_rem (36000 + uint (rotation (blocks pkt (b + 1))) - uint (rotation (blocks pkt b))) 36000"

definition azimuth_diff_of :: "VelodynePacket \<Rightarrow> nat \<Rightarrow> real" where
  "azimuth_diff_of pkt b =
     (if b < BLOCKS_PER_PACKET - 1 then real_of_int (inter_block_delta pkt b)
      else real_of_int (inter_block_delta pkt (b - 1)))"

definition azimuth_sweep :: "VelodynePacket \<Rightarrow> nat \<Rightarrow> real" where
  "azimuth_sweep pkt n = (\<Sum>b<min n (BLOCKS_PER_PACKET - 1). real_of_int (inter_block_delta pkt b))"

definition vlp_seq_entries ::
  "header_consts \<Rightarrow> RawData \<Rightarrow> VelodynePacket \<Rightarrow> nat \<Rightarrow> real \<Rightarrow> real \<Rightarrow> nat \<Rightarrow> nat
     \<Rightarrow> (error + VPoint option) list" where
  "vlp_seq_entries hc rd pkt b az ad fs k =
     map (\<lambda>l. vlp_scan hc rd pkt b az ad fs l (k + RAW_SCAN_SIZE * l))
       [0..<nat (lasers_per_firing_seq (vlp_spec rd))]"

definition vlp_block_entries ::
  "header_consts \<Rightarrow> RawData \<Rightarrow> VelodynePacket \<Rightarrow> nat \<Rightarrow> (error + VPoint option) list" where
  "vlp_block_entries hc rd pkt b =
     concat (map (\<lambda>fs. vlp_seq_entries hc rd pkt b
                          (real (unat (rotation (blocks pkt b)))) (azimuth_diff_of pkt b) fs
                          (RAW_SCAN_SIZE * (fs * nat (lasers_per_firing_seq (vlp_spec rd)))))
               [0..<nat (firing_seqs_per_block (vlp_spec rd))])"

definition vlp_entries :: 
  "header_consts \<Rightarrow> RawData \<Rightarrow> VelodynePacket \<Rightarrow> nat \<Rightarrow> (error + VPoint option) list" where
  "vlp_entries hc rd pkt n = concat (map (vlp_block_entries hc rd pkt) [0..<n])"

definition legacy_block_entries ::
  "header_consts \<Rightarrow> RawData \<Rightarrow> VelodynePacket \<Rightarrow> nat \<Rightarrow> (error + VPoint option) list" where
  "legacy_block_entries hc rd pkt i =
     map (\<lambda>j. legacy_scan hc rd pkt i
                 (if header (blocks pkt i) = LOWER_BANK hc then 32 else 0) j (RAW_SCAN_SIZE * j))
       [0..<SCANS_PER_BLOCK]"

definition legacy_entries ::
  "header_consts \<Rightarrow> RawData \<Rightarrow> VelodynePacket \<Rightarrow> (error + VPoint option) list" where
  "legacy_entries hc rd pkt = concat (map (legacy_block_entries hc rd pkt) [0..<BLOCKS_PER_PACKET])"

text \<open>The points a call appended: what the point cloud holds beyond its old length.\<close>

definition appended :: "VPointCloud \<Rightarrow> VPointCloud \<Rightarrow> VPoint list" where
  "appended pc pc' = drop (length (points pc)) (points pc')"

section \<open>Example inputs\<close>

text \<open>
  Concrete inputs for the instances proved below. The device profiles hold the timing
  constants of the VLP-16 and VLP-32 user manuals, 2.304, 55.296 and 110.592
  microseconds, and the distance resolutions 0.002 and 0.004, each as the
  single-precision number nearest to it, which is what a \<^verbatim>\<open>float\<close> constant holds.
  Further there are the bank markers of the wire format, a calibration whose lasers all
  carry the same identity-like correction, and packets whose data bytes are all zero.
\<close>

definition example_vlp16 :: VLPSpec where
  "example_vlp16 =
     \<lparr>distance_resolution = 8589935 / 4294967296, firing_duration = 2415919 / 1048576,
      firing_seq_duration = 14495515 / 262144, block_duration = 14495515 / 131072,
      lasers_per_firing = 1, lasers_per_firing_seq = 16, firing_seqs_per_block = 2\<rparr>"

definition example_vlp32 :: VLPSpec where
  "example_vlp32 =
     \<lparr>distance_resolution = 8589935 / 2147483648, firing_duration = 2415919 / 1048576,
      firing_seq_duration = 14495515 / 262144, block_duration = 14495515 / 262144,
      lasers_per_firing = 2, lasers_per_firing_seq = 32, firing_seqs_per_block = 1\<rparr>"

definition example_consts :: header_consts where
  "example_consts =
     \<lparr>UPPER_BANK = 0xeeff, LOWER_BANK = 0xddff, DISTANCE_RESOLUTION = 8589935 / 4294967296,
      VLP_16_SPEC = example_vlp16, VLP_32_SPEC = example_vlp32\<rparr>"

definition example_config :: "int \<Rightarrow> int \<Rightarrow> Config" where
  "example_config lo hi =
     \<lparr>calibrationFile = [], deviceModel = [], max_range = 130, min_range = 0,
      min_angle = lo, max_angle = hi, tmp_min_angle = 0, tmp_max_angle = 0\<rparr>"

definition example_correction :: LaserCorrection where
  "example_correction =
     \<lparr>dist_correction = 0, two_pt_correction_available = False, dist_correction_x = 0,
      dist_correction_y = 0, vert_offset_correction = 0, horiz_offset_correction = 0,
      max_intensity = 255, min_intensity = 0, focal_distance = 0, focal_slope = 1,
      cos_rot_correction = 1, sin_rot_correction = 0, cos_vert_correction = 1,
      sin_vert_correction = 0, laser_ring = 0\<rparr>"

definition example_calibration :: "nat \<Rightarrow> Calibration" where
  "example_calibration n =
     \<lparr>laser_corrections = (\<lambda>l. if l < n then Some example_correction else None),
      num_lasers = int n, initialized = True\<rparr>"

definition example_rawdata :: "int \<Rightarrow> int \<Rightarrow> nat \<Rightarrow> bool \<Rightarrow> RawData" where
  "example_rawdata lo hi n vlp =
     \<lparr>config = example_config lo hi, calibration = example_calibration n,
      vlp_spec = example_vlp16, timing_offsets = [], is_vlp = vlp,
      cos_rot_table = (\<lambda>i. cos (from_degrees (ROTATION_RESOLUTION * real i))),
      sin_rot_table = (\<lambda>i. sin (from_degrees (ROTATION_RESOLUTION * real i)))\<rparr>"

definition example_block :: "16 word \<Rightarrow> 16 word \<Rightarrow> raw_block" where
  "example_block h r = \<lparr>header = h, rotation = r, data = (\<lambda>k. 0)\<rparr>"

definition example_pc :: VPointCloud where
  "example_pc = \<lparr>points = [], width = 0\<rparr>"

definition example_packet :: "16 word \<Rightarrow> VelodynePacket" where
  "example_packet r =
     \<lparr>stamp = \<lparr>sec = 1, nsec = 0\<rparr>, blocks = (\<lambda>b. example_block 0xeeff r)\<rparr>"

definition example_point :: VPoint where
  "example_point =
     \<lparr>point_x = 0, point_y = 0, point_z = 0, point_intensity = 0, time_sec = 1,
      time_nsec = 0, laser_id = 0\<rparr>"

text \<open>
  More packets: one whose second block carries a wrong header, one whose blocks all do,
  one whose rotation advances by one degree from block to block and one whose rotation
  advances by a given step, one whose rotation falls from 65535 to 0 between the last
  two blocks, and one whose first channel entry reports the raw distance \<open>0x8000\<close>.
\<close>

definition tampered_packet :: VelodynePacket where
  "tampered_packet =
     \<lparr>stamp = \<lparr>sec = 1, nsec = 0\<rparr>,
      blocks = (\<lambda>b. if b = 1 then example_block 0 0 else example_block 0xeeff 0)\<rparr>"

definition rejected_packet :: VelodynePacket where
  "rejected_packet = \<lparr>stamp = \<lparr>sec = 1, nsec = 0\<rparr>, blocks = (\<lambda>b. example_block 0 0)\<rparr>"

definition sweep_packet :: VelodynePacket where
  "sweep_packet =
     \<lparr>stamp = \<lparr>sec = 1, nsec = 0\<rparr>,
      blocks = (\<lambda>b. example_block 0xeeff (word_of_nat (100 * b)))\<rparr>"

definition stepped_packet :: "nat \<Rightarrow> VelodynePacket" where
  "stepped_packet d =
     \<lparr>stamp = \<lparr>sec = 1, nsec = 0\<rparr>,
      blocks = (\<lambda>b. example_block 0xeeff (word_of_nat (d * b)))\<rparr>"

definition wrapped_packet :: VelodynePacket where
  "wrapped_packet =
     \<lparr>stamp = \<lparr>sec = 1, nsec = 0\<rparr>,
      blocks = (\<lambda>b. example_block 0xeeff (if b = 10 then 65535 else 0))\<rparr>"

definition far_packet :: VelodynePacket where
  "far_packet =
     \<lparr>stamp = \<lparr>sec = 1, nsec = 0\<rparr>,
      blocks = (\<lambda>b. \<lparr>header = 0xeeff, rotation = 0, data = (\<lambda>k. if k = 1 then 128 else 0)\<rparr>)\<rparr>"

text \<open>
  The VLP-16 profile with the constants of the manual as exact decimal numbers. No
  \<^verbatim>\<open>float\<close> holds them; the profile serves to evaluate the formulas of the
  specification at the nominal constants.
\<close>

definition nominal_vlp16 :: VLPSpec where
  "nominal_vlp16 =
     \<lparr>distance_resolution = 0.002, firing_duration = 2.304, firing_seq_duration = 55.296,
      block_duration = 110.592, lasers_per_firing = 1, lasers_per_firing_seq = 16,
      firing_seqs_per_block = 2\<rparr>"

text \<open>
  The decoder state that \<open>RawData_setup\<close> builds for a 32-laser calibration with the
  device-model hint \<open>VLP32\<close>, the parameter server that hands out that hint, and the
  point that the first entry of block 5 yields in that state.
\<close>

definition example_rawdata32 :: RawData where
  "example_rawdata32 =
     (example_rawdata 0 36000 32 True)
       \<lparr>config := (example_config 0 36000)\<lparr>deviceModel := ''VLP32''\<rparr>,
        vlp_spec := example_vlp32,
        timing_offsets := getVLP32TimingOffsets example_consts\<rparr>"

definition example_nh :: "string option \<Rightarrow> NodeHandle" where
  "example_nh model = \<lparr>calibration_param = Some [], device_model_param = model\<rparr>"

definition late_point :: VPoint where
  "late_point = example_point\<lparr>time_nsec := 276480\<rparr>"

section \<open>The decoded blocks and the points of their entries\<close>

text \<open>
  The points of a list of entry results, up to the first error; the number of blocks
  before the first block with an invalid header, which are the blocks \<^verbatim>\<open>unpack_vlp\<close>
  decodes; and the corrected azimuth of line 388 for the entry of laser \<open>l\<close> in firing
  sequence \<open>s\<close> of block \<open>b\<close>, computed from the azimuth and the azimuth difference
  that the block loop holds for that block.
\<close>

fun entry_points :: "(error + VPoint option) list \<Rightarrow> VPoint list" where
  "entry_points [] = []"
| "entry_points (Inl e # rs) = []"
| "entry_points (Inr None # rs) = entry_points rs"
| "entry_points (Inr (Some point) # rs) = point # entry_points rs"

definition decoded_blocks :: "header_consts \<Rightarrow> VelodynePacket \<Rightarrow> nat" where
  "decoded_blocks hc pkt =
     length (takeWhile (\<lambda>b. header (blocks pkt b) = UPPER_BANK hc) [0..<BLOCKS_PER_PACKET])"

definition entry_azimuth_corrected :: "RawData \<Rightarrow> VelodynePacket \<Rightarrow> nat \<Rightarrow> nat \<Rightarrow> nat \<Rightarrow> int" where
  "entry_azimuth_corrected rd pkt b s l =
     c_rem (c_round (vlp_azimuth_corrected_f (vlp_spec rd) (real (unat (rotation (blocks pkt b))))
                       (azimuth_diff_of pkt b) s l)) 36000"

section \<open>Preconditions of a decode\<close>

text \<open>
  A device profile is plausible when its counts and durations are those of a firing
  cycle: a positive number of lasers per firing, durations that are not negative, a
  positive block duration that the last firing of the last firing sequence does not
  exceed, and a block payload that holds every channel entry. The two profiles of the
  header are of this kind.
\<close>

definition vlp_spec_plausible :: "VLPSpec \<Rightarrow> bool" where
  "vlp_spec_plausible spec =
     (0 < lasers_per_firing spec \<and> 0 \<le> firing_duration spec \<and> 0 \<le> firing_seq_duration spec
      \<and> 0 < block_duration spec
      \<and> real_of_int ((lasers_per_firing_seq spec - 1) div lasers_per_firing spec) * firing_duration spec
          + real_of_int (firing_seqs_per_block spec - 1) * firing_seq_duration spec
          \<le> block_duration spec
      \<and> RAW_SCAN_SIZE * (nat (firing_seqs_per_block spec) * nat (lasers_per_firing_seq spec))
          \<le> BLOCK_DATA_SIZE)"

text \<open>
  A packet is decodable on the VLP path when no entry can raise an error: the profile
  is plausible, every laser of a firing sequence is calibrated, the rotation does not
  run backwards between the last two blocks, and the time of every firing sequence is
  representable. On the legacy path: all 64 lasers are calibrated and every block that
  passes the field-of-view test has a rotation below \<open>ROTATION_MAX_UNITS\<close>.
\<close>

definition vlp_decodable :: "RawData \<Rightarrow> VelodynePacket \<Rightarrow> bool" where
  "vlp_decodable rd pkt =
     (vlp_spec_plausible (vlp_spec rd)
      \<and> (\<forall>l. int l < lasers_per_firing_seq (vlp_spec rd) \<longrightarrow>
             laser_corrections (calibration rd) l \<noteq> None)
      \<and> 0 \<le> inter_block_delta pkt (BLOCKS_PER_PACKET - 2)
      \<and> (\<forall>b<BLOCKS_PER_PACKET. \<forall>fs. int fs < firing_seqs_per_block (vlp_spec rd) \<longrightarrow>
             (\<exists>t. vlp_point_time rd pkt b fs = Inr t)))"


section \<open>The formulas of the specification\<close>

text \<open>
  The azimuth difference, the interpolated azimuth before and after rounding, and the
  intensity as the specification words them, with the mathematical \<open>mod\<close>, \<open>round\<close>
  and exact real arithmetic. They are compared below with what the decoder computes.
\<close>

definition claimed_azimuth_diff :: "VelodynePacket \<Rightarrow> nat \<Rightarrow> int" where
  "claimed_azimuth_diff pkt b =
     (if b < BLOCKS_PER_PACKET - 1
      then (36000 + uint (rotation (blocks pkt (b + 1))) - uint (rotation (blocks pkt b))) mod 36000
      else (36000 + uint (rotation (blocks pkt b)) - uint (rotation (blocks pkt (b - 1)))) mod 36000)"

definition claimed_azimuth_corrected_f :: "VLPSpec \<Rightarrow> real \<Rightarrow> real \<Rightarrow> nat \<Rightarrow> nat \<Rightarrow> real" where
  "claimed_azimuth_corrected_f spec azimuth azimuth_diff s l =
     azimuth
     + azimuth_diff
       * (real_of_int (int l div lasers_per_firing spec) * firing_duration spec
          + real s * firing_seq_duration spec)
       / block_duration spec"

definition claimed_azimuth_corrected :: "VLPSpec \<Rightarrow> VelodynePacket \<Rightarrow> nat \<Rightarrow> nat \<Rightarrow> nat \<Rightarrow> int" where
  "claimed_azimuth_corrected spec pkt b s l =
     round (real_of_int (uint (rotation (blocks pkt b)))
            + real_of_int (claimed_azimuth_diff pkt b)
              * (real_of_int (int l div lasers_per_firing spec) * firing_duration spec
                 + real s * firing_seq_duration spec)
              / block_duration spec)
     mod 36000"

definition claimed_intensity :: "LaserCorrection \<Rightarrow> nat \<Rightarrow> 8 word \<Rightarrow> real" where
  "claimed_intensity c d raw_intensity =
     (let focal_offset = 256 * (1 - focal_distance c / 13100)\<^sup>2;
          v = real (unat raw_intensity)
              + focal_slope c * \<bar>focal_offset - 256 * (1 - real d / 65535)\<^sup>2\<bar>
      in min (max_intensity c) (max (min_intensity c) v))"

section \<open>Calibrations with and without two-point correction\<close>

text \<open>
  Two ways to rewrite a laser's correction: clear the flag
  \<open>two_pt_correction_available\<close>, or set it and make both two-point distances equal to
  \<open>dist_correction\<close>; and the decoder state whose lasers are all rewritten.
\<close>

definition without_two_pt :: "LaserCorrection \<Rightarrow> LaserCorrection" where
  "without_two_pt c = c\<lparr>two_pt_correction_available := False\<rparr>"

definition with_zero_deltas :: "LaserCorrection \<Rightarrow> LaserCorrection" where
  "with_zero_deltas c =
     c\<lparr>two_pt_correction_available := True,
       dist_correction_x := dist_correction c,
       dist_correction_y := dist_correction c\<rparr>"

definition map_corrections :: "(LaserCorrection \<Rightarrow> LaserCorrection) \<Rightarrow> RawData \<Rightarrow> RawData" where
  "map_corrections f rd =
     rd\<lparr>calibration := (calibration rd)
            \<lparr>laser_corrections := map_option f \<circ> laser_corrections (calibration rd)\<rparr>\<rparr>"

declare fill_row.simps [simp del]
declare fill_rows.simps [simp del]
declare fill_rot_tables.simps [simp del]
declare vlp_lasers.simps [simp del]
declare vlp_firing_seqs.simps [simp del]
declare vlp_blocks.simps [simp del]
declare legacy_scans.simps [simp del]
declare legacy_blocks.simps [simp del]

section \<open>Lemmas: single precision\<close>

text \<open>
  Rounding to single precision changes a number by at most the fraction \<open>2^-24\<close> of
  its magnitude, and leaves the integers below \<open>2^24\<close> as they are.
\<close>

lemma round_float_numeral:
  "round_float (numeral k) x =
     (if 2 ^ 24 \<le> \<bar>x\<bar> then 2 * round_float (pred_numeral k) (x / 2)
      else if \<bar>x\<bar> < 2 ^ 23 then round_float (pred_numeral k) (2 * x) / 2
      else of_int (round_half_even x))"
  by (simp add: numeral_eq_Suc)

lemma round_half_even_error: "\<bar>of_int (round_half_even y) - y\<bar> \<le> 1 / 2"
  unfolding round_half_even_def Let_def by (auto; linarith)

lemma round_float_error: "\<bar>round_float n x - x\<bar> \<le> \<bar>x\<bar> / 2 ^ 24"
proof (induction n arbitrary: x)
  case 0
  show ?case by simp
next
  case (Suc n)
  consider "2 ^ 24 \<le> \<bar>x\<bar>" | "\<bar>x\<bar> < 2 ^ 23" | "2 ^ 23 \<le> \<bar>x\<bar>" "\<bar>x\<bar> < 2 ^ 24"
    by linarith
  then show ?case
  proof cases
    case 1
    from Suc.IH [of "x / 2"] have "\<bar>2 * round_float n (x / 2) - x\<bar> \<le> \<bar>x\<bar> / 2 ^ 24"
      by (simp add: abs_if field_simps split: if_splits)
    with 1 show ?thesis by simp
  next
    case 2
    from Suc.IH [of "2 * x"] have "\<bar>round_float n (2 * x) / 2 - x\<bar> \<le> \<bar>x\<bar> / 2 ^ 24"
      by (simp add: abs_if field_simps split: if_splits)
    with 2 show ?thesis by simp
  next
    case 3
    have "\<bar>of_int (round_half_even x) - x\<bar> \<le> 1 / 2" by (rule round_half_even_error)
    also have "\<dots> \<le> \<bar>x\<bar> / 2 ^ 24" using 3 by simp
    finally show ?thesis using 3 by simp
  qed
qed

lemma to_float_error: "\<bar>to_float x - x\<bar> \<le> \<bar>x\<bar> / 2 ^ 24"
  using round_float_error [of 300 x] by (simp add: to_float_def)

lemma to_float_0: "to_float 0 = 0"
  by (simp add: to_float_def)

lemma round_half_even_of_int: "round_half_even (of_int n) = n"
  by (simp add: round_half_even_def)

lemma round_float_of_int: "\<bar>n\<bar> < 2 ^ 24 \<Longrightarrow> round_float k (of_int n) = of_int n"
proof (induction k arbitrary: n)
  case 0
  show ?case by simp
next
  case (Suc k)
  have r: "\<bar>real_of_int n\<bar> < 2 ^ 24"
    using Suc.prems by (metis of_int_abs of_int_less_numeral_power_cancel_iff)
  show ?case
  proof (cases "\<bar>real_of_int n\<bar> < 2 ^ 23")
    case True
    then have "\<bar>2 * n\<bar> < 2 ^ 24" by (simp add: abs_mult)
    from Suc.IH [OF this] True r show ?thesis by simp
  next
    case False
    with r show ?thesis by (simp add: round_half_even_of_int)
  qed
qed

lemma to_float_of_int: "\<bar>n\<bar> < 2 ^ 24 \<Longrightarrow> to_float (of_int n) = of_int n"
  by (simp add: to_float_def round_float_of_int)

lemma to_float_of_nat: "n < 2 ^ 24 \<Longrightarrow> to_float (real n) = real n"
  using to_float_of_int [of "int n"] by simp

lemma to_float_nonneg: "0 \<le> x \<Longrightarrow> 0 \<le> to_float x"
  using to_float_error [of x] by (simp add: abs_if field_simps split: if_splits)

lemma to_float_abs: "\<bar>to_float x\<bar> \<le> 2 * \<bar>x\<bar>"
  using to_float_error [of x] by (simp add: abs_if field_simps split: if_splits)

text \<open>One rounding step: an approximation of \<open>t\<close> with relative error \<open>e\<close>.\<close>

lemma to_float_step:
  assumes "\<bar>x - t\<bar> \<le> e * M" and "\<bar>t\<bar> \<le> M" and "0 \<le> e" and "e \<le> 1"
  shows "\<bar>to_float x - t\<bar> \<le> (e + 2 / 2 ^ 24) * M"
proof -
  have M: "0 \<le> M" using assms(2) by linarith
  have "e * M \<le> 1 * M" using assms(4) M by (intro mult_right_mono)
  then have "e * M \<le> M" by simp
  with assms(1,2) have "\<bar>x\<bar> \<le> 2 * M" by linarith
  with to_float_error [of x] have "\<bar>to_float x - x\<bar> \<le> 2 * M / 2 ^ 24"
    by (simp add: field_simps)
  with assms(1) have "\<bar>to_float x - t\<bar> \<le> e * M + 2 * M / 2 ^ 24" by linarith
  then show ?thesis by (simp add: algebra_simps)
qed

section \<open>Lemmas: the loops\<close>

lemma upt_Suc_shift: "[0..<Suc m] = 0 # map Suc [0..<m]"
  by (simp add: upt_conv_Cons map_Suc_upt del: upt_Suc)

subsection \<open>The timing table\<close>

lemma fill_row_length: "length (fill_row hc i j row) = length row"
proof (induction hc i j row rule: fill_row.induct)
  case (1 hc i j row)
  show ?case
  proof (cases "j < length row")
    case True
    with 1 show ?thesis by (subst fill_row.simps) simp
  next
    case False
    then show ?thesis by (subst fill_row.simps) simp
  qed
qed

lemma fill_row_nth:
  "n < length row \<Longrightarrow> fill_row hc i j row ! n = (if j \<le> n then timing_offset hc i n else row ! n)"
proof (induction hc i j row rule: fill_row.induct)
  case (1 hc i j row)
  show ?case
  proof (cases "j < length row")
    case True
    with 1 show ?thesis
      by (subst fill_row.simps) (auto simp: nth_list_update dest: le_antisym)
  next
    case False
    with 1 show ?thesis by (subst fill_row.simps) simp
  qed
qed

lemma fill_rows_length: "length (fill_rows hc i offsets) = length offsets"
proof (induction hc i offsets rule: fill_rows.induct)
  case (1 hc i offsets)
  show ?case
  proof (cases "i < length offsets")
    case True
    with 1 show ?thesis by (subst fill_rows.simps) simp
  next
    case False
    then show ?thesis by (subst fill_rows.simps) simp
  qed
qed

lemma fill_rows_nth:
  "n < length offsets \<Longrightarrow>
   fill_rows hc i offsets ! n = (if i \<le> n then fill_row hc n 0 (offsets ! n) else offsets ! n)"
proof (induction hc i offsets rule: fill_rows.induct)
  case (1 hc i offsets)
  show ?case
  proof (cases "i < length offsets")
    case True
    show ?thesis
    proof (cases "n = i")
      case True
      with 1 \<open>i < length offsets\<close> show ?thesis by (subst fill_rows.simps) simp
    next
      case False
      with 1 \<open>i < length offsets\<close> show ?thesis by (subst fill_rows.simps) auto
    qed
  next
    case False
    with 1 show ?thesis by (subst fill_rows.simps) simp
  qed
qed

lemma timing_offsets_length: "length (getVLP32TimingOffsets hc) = 12"
  by (simp add: getVLP32TimingOffsets_def fill_rows_length)

lemma timing_offsets_nth:
  "i < 12 \<Longrightarrow> getVLP32TimingOffsets hc ! i = map (timing_offset hc i) [0..<32]"
  by (rule nth_equalityI)
     (simp_all add: getVLP32TimingOffsets_def fill_rows_nth fill_row_length fill_row_nth)

subsection \<open>Appending the points of a list of entries\<close>

lemma append_scans_append:
  "append_scans (rs @ rs') pc =
     (case append_scans rs pc of
        (Some e, pc') \<Rightarrow> (Some e, pc')
      | (None, pc') \<Rightarrow> append_scans rs' pc')"
  by (induction rs pc rule: append_scans.induct) auto

lemma append_scans_points:
  "\<exists>new. points (snd (append_scans rs pc)) = points pc @ new
         \<and> set new \<subseteq> {p. Inr (Some p) \<in> set rs}"
proof (induction rs pc rule: append_scans.induct)
  case (4 point rs pc)
  then obtain new where
    "points (snd (append_scans rs (push_back point pc))) = points (push_back point pc) @ new"
    "set new \<subseteq> {p. Inr (Some p) \<in> set rs}" by blast
  then have "points (snd (append_scans (Inr (Some point) # rs) pc)) = points pc @ (point # new)
      \<and> set (point # new) \<subseteq> {p. Inr (Some p) \<in> set (Inr (Some point) # rs)}"
    by (auto simp: push_back_def)
  then show ?case by blast
qed auto

lemma appended_append_scans:
  "set (appended pc (snd (append_scans rs pc))) \<subseteq> {p. Inr (Some p) \<in> set rs}"
  using append_scans_points [of rs pc] by (auto simp: appended_def)

lemma append_scans_error:
  "fst (append_scans rs pc) = Some e \<Longrightarrow> Inl e \<in> set rs"
  by (induction rs pc rule: append_scans.induct) auto

lemma append_scans_no_error:
  "(\<And>e. Inl e \<notin> set rs) \<Longrightarrow> fst (append_scans rs pc) = None"
  by (induction rs pc rule: append_scans.induct) auto

lemma append_scans_first_error:
  "(\<And>e. Inl e \<notin> set rs) \<Longrightarrow> append_scans (rs @ Inl e # rs') pc = (Some e, snd (append_scans rs pc))"
  by (induction rs pc rule: append_scans.induct) auto

subsection \<open>The loops of the VLP path\<close>

lemma vlp_lasers_step:
  "int laser < lasers_per_firing_seq (vlp_spec rd) \<Longrightarrow>
   vlp_lasers hc rd pkt b az ad fs laser k pc =
     (case vlp_scan hc rd pkt b az ad fs laser k of
        Inl e \<Rightarrow> (Some e, k, pc)
      | Inr None \<Rightarrow> vlp_lasers hc rd pkt b az ad fs (laser + 1) (k + RAW_SCAN_SIZE) pc
      | Inr (Some point) \<Rightarrow>
          vlp_lasers hc rd pkt b az ad fs (laser + 1) (k + RAW_SCAN_SIZE) (push_back point pc))"
  by (subst vlp_lasers.simps) simp

lemma vlp_lasers_stop:
  "\<not> int laser < lasers_per_firing_seq (vlp_spec rd) \<Longrightarrow>
   vlp_lasers hc rd pkt b az ad fs laser k pc = (None, k, pc)"
  by (subst vlp_lasers.simps) simp

lemma vlp_lasers_append_scans:
  "nat (lasers_per_firing_seq (vlp_spec rd)) - laser = m \<Longrightarrow>
   (case vlp_lasers hc rd pkt b az ad fs laser k pc of (eo, k', pc') \<Rightarrow> (eo, pc')) =
     append_scans (map (\<lambda>i. vlp_scan hc rd pkt b az ad fs (laser + i) (k + RAW_SCAN_SIZE * i))
                      [0..<m]) pc"
proof (induction m arbitrary: laser k pc)
  case 0
  then have "\<not> int laser < lasers_per_firing_seq (vlp_spec rd)" by simp
  then show ?case by (simp add: vlp_lasers_stop)
next
  case (Suc m)
  then have lt: "int laser < lasers_per_firing_seq (vlp_spec rd)"
    and m: "nat (lasers_per_firing_seq (vlp_spec rd)) - (laser + 1) = m" by auto
  note IH = Suc.IH [OF m, of "k + RAW_SCAN_SIZE"]
  show ?case
  proof (cases "vlp_scan hc rd pkt b az ad fs laser k")
    case (Inl e)
    then show ?thesis
      by (simp add: vlp_lasers_step [OF lt] upt_Suc_shift del: upt_Suc)
  next
    case (Inr r)
    then show ?thesis
      using IH
      by (cases r) (simp_all add: vlp_lasers_step [OF lt] upt_Suc_shift comp_def add.assoc del: upt_Suc)
  qed
qed

lemma vlp_lasers_k:
  "nat (lasers_per_firing_seq (vlp_spec rd)) - laser = m \<Longrightarrow>
   fst (vlp_lasers hc rd pkt b az ad fs laser k pc) = None \<Longrightarrow>
   fst (snd (vlp_lasers hc rd pkt b az ad fs laser k pc)) = k + RAW_SCAN_SIZE * m"
proof (induction m arbitrary: laser k pc)
  case 0
  then have "\<not> int laser < lasers_per_firing_seq (vlp_spec rd)" by simp
  then show ?case by (simp add: vlp_lasers_stop)
next
  case (Suc m)
  then have lt: "int laser < lasers_per_firing_seq (vlp_spec rd)"
    and m: "nat (lasers_per_firing_seq (vlp_spec rd)) - (laser + 1) = m" by auto
  note IH = Suc.IH [OF m, of "k + RAW_SCAN_SIZE"]
  show ?case
  proof (cases "vlp_scan hc rd pkt b az ad fs laser k")
    case (Inl e)
    with Suc.prems(2) show ?thesis
      by (simp add: vlp_lasers_step [OF lt])
  next
    case (Inr r)
    with Suc.prems(2) show ?thesis
      using IH
      by (cases r) (simp_all add: vlp_lasers_step [OF lt] add.assoc)
  qed
qed

lemma vlp_firing_seqs_step:
  "int firing_seq < firing_seqs_per_block (vlp_spec rd) \<Longrightarrow>
   vlp_firing_seqs hc rd pkt b az ad firing_seq k pc =
     (case vlp_lasers hc rd pkt b az ad firing_seq 0 k pc of
        (Some e, k', pc') \<Rightarrow> (Some e, pc')
      | (None, k', pc') \<Rightarrow> vlp_firing_seqs hc rd pkt b az ad (firing_seq + 1) k' pc')"
  by (subst vlp_firing_seqs.simps) simp

lemma vlp_firing_seqs_stop:
  "\<not> int firing_seq < firing_seqs_per_block (vlp_spec rd) \<Longrightarrow>
   vlp_firing_seqs hc rd pkt b az ad firing_seq k pc = (None, pc)"
  by (subst vlp_firing_seqs.simps) simp

lemma vlp_firing_seqs_append_scans:
  "nat (firing_seqs_per_block (vlp_spec rd)) - firing_seq = m \<Longrightarrow>
   vlp_firing_seqs hc rd pkt b az ad firing_seq k pc =
     append_scans
       (concat (map (\<lambda>i. vlp_seq_entries hc rd pkt b az ad (firing_seq + i)
                            (k + RAW_SCAN_SIZE * (i * nat (lasers_per_firing_seq (vlp_spec rd)))))
                  [0..<m])) pc"
proof (induction m arbitrary: firing_seq k pc)
  case 0
  then have "\<not> int firing_seq < firing_seqs_per_block (vlp_spec rd)" by simp
  then show ?case by (simp add: vlp_firing_seqs_stop)
next
  case (Suc m)
  then have lt: "int firing_seq < firing_seqs_per_block (vlp_spec rd)"
    and m: "nat (firing_seqs_per_block (vlp_spec rd)) - (firing_seq + 1) = m" by auto
  let ?n = "nat (lasers_per_firing_seq (vlp_spec rd))"
  have las: "append_scans (vlp_seq_entries hc rd pkt b az ad firing_seq k) pc =
     (case vlp_lasers hc rd pkt b az ad firing_seq 0 k pc of (eo, k', pc') \<Rightarrow> (eo, pc'))"
    using vlp_lasers_append_scans [of rd 0 ?n hc pkt b az ad firing_seq k pc]
    by (simp add: vlp_seq_entries_def)
  obtain eo k' pc' where r: "vlp_lasers hc rd pkt b az ad firing_seq 0 k pc = (eo, k', pc')"
    by (cases "vlp_lasers hc rd pkt b az ad firing_seq 0 k pc") auto
  show ?case
  proof (cases eo)
    case (Some e)
    with r las show ?thesis
      by (simp add: vlp_firing_seqs_step [OF lt] upt_Suc_shift append_scans_append del: upt_Suc)
  next
    case None
    with r have k': "k' = k + RAW_SCAN_SIZE * ?n"
      using vlp_lasers_k [of rd 0 ?n hc pkt b az ad firing_seq k pc] by simp
    from None r las k' Suc.IH [OF m, of k' pc'] show ?thesis
      by (simp add: vlp_firing_seqs_step [OF lt] upt_Suc_shift append_scans_append comp_def
          add.assoc distrib_left del: upt_Suc)
  qed
qed

lemma vlp_block_append_scans:
  "vlp_firing_seqs hc rd pkt b (real (unat (rotation (blocks pkt b)))) (azimuth_diff_of pkt b) 0 0 pc
     = append_scans (vlp_block_entries hc rd pkt b) pc"
  using vlp_firing_seqs_append_scans
    [of rd 0 "nat (firing_seqs_per_block (vlp_spec rd))" hc pkt b _ _ 0 pc]
  by (simp add: vlp_block_entries_def)

lemma vlp_blocks_stop:
  "\<not> block < BLOCKS_PER_PACKET \<Longrightarrow> vlp_blocks hc rd pkt block l s pc = (Inr s, pc)"
  by (subst vlp_blocks.simps) simp

lemma vlp_blocks_bad_header:
  "block < BLOCKS_PER_PACKET \<Longrightarrow> UPPER_BANK hc \<noteq> header (blocks pkt block) \<Longrightarrow>
   vlp_blocks hc rd pkt block l s pc = (Inr (- 1), pc)"
  by (subst vlp_blocks.simps) simp

lemma vlp_blocks_step:
  "block < BLOCKS_PER_PACKET \<Longrightarrow> UPPER_BANK hc = header (blocks pkt block) \<Longrightarrow>
   vlp_blocks hc rd pkt block l s pc =
     (case vlp_firing_seqs hc rd pkt block (real (unat (rotation (blocks pkt block))))
             (block_azimuth_diff pkt block l) 0 0 pc of
        (Some e, pc') \<Rightarrow> (Inl e, pc')
      | (None, pc') \<Rightarrow>
          vlp_blocks hc rd pkt (block + 1)
            (if block < BLOCKS_PER_PACKET - 1 then block_azimuth_diff pkt block l else l)
            (if block < BLOCKS_PER_PACKET - 1 then s + block_azimuth_diff pkt block l else s) pc')"
  by (subst vlp_blocks.simps) (simp add: Let_def)

lemma block_azimuth_diff_of:
  "block < BLOCKS_PER_PACKET \<Longrightarrow>
   block_azimuth_diff pkt block (if block = 0 then 0 else azimuth_diff_of pkt (block - 1))
     = azimuth_diff_of pkt block"
  by (auto simp: block_azimuth_diff_def azimuth_diff_of_def inter_block_delta_def
      BLOCKS_PER_PACKET_def)

lemma azimuth_sweep_Suc:
  "azimuth_sweep pkt (Suc n) =
     (if n < BLOCKS_PER_PACKET - 1 then azimuth_sweep pkt n + real_of_int (inter_block_delta pkt n)
      else azimuth_sweep pkt n)"
  by (auto simp: azimuth_sweep_def min_def BLOCKS_PER_PACKET_def)

lemma vlp_entries_Suc:
  "vlp_entries hc rd pkt (Suc n) = vlp_entries hc rd pkt n @ vlp_block_entries hc rd pkt n"
  by (simp add: vlp_entries_def)

text \<open>
  The first \<open>n\<close> iterations of the block loop, when the headers of these blocks are
  valid: the entries of the blocks \<open>0\<close> to \<open>n - 1\<close> are appended, each block decoded
  with its own rotation and \<open>azimuth_diff_of\<close>, and the loop goes on at block \<open>n\<close>
  with the difference of block \<open>n - 1\<close> and the sweep so far.
\<close>

lemma unpack_vlp_prefix:
  "n \<le> BLOCKS_PER_PACKET \<Longrightarrow> (\<forall>b<n. header (blocks pkt b) = UPPER_BANK hc) \<Longrightarrow>
   unpack_vlp hc rd pkt pc =
     (case append_scans (vlp_entries hc rd pkt n) pc of
        (Some e, pc') \<Rightarrow> (Inl e, pc')
      | (None, pc') \<Rightarrow>
          vlp_blocks hc rd pkt n (if n = 0 then 0 else azimuth_diff_of pkt (n - 1))
            (azimuth_sweep pkt n) pc')"
proof (induction n)
  case 0
  then show ?case by (simp add: unpack_vlp_def azimuth_sweep_def vlp_entries_def)
next
  case (Suc n)
  then have n: "n < BLOCKS_PER_PACKET" and hn: "UPPER_BANK hc = header (blocks pkt n)"
    and IH: "unpack_vlp hc rd pkt pc =
     (case append_scans (vlp_entries hc rd pkt n) pc of
        (Some e, pc') \<Rightarrow> (Inl e, pc')
      | (None, pc') \<Rightarrow>
          vlp_blocks hc rd pkt n (if n = 0 then 0 else azimuth_diff_of pkt (n - 1))
            (azimuth_sweep pkt n) pc')"
    by auto
  define l where "l = (if n = 0 then 0 else azimuth_diff_of pkt (n - 1))"
  have bd: "block_azimuth_diff pkt n l = azimuth_diff_of pkt n"
    unfolding l_def by (rule block_azimuth_diff_of [OF n])
  have last: "(if n < BLOCKS_PER_PACKET - 1 then azimuth_diff_of pkt n else l)
              = azimuth_diff_of pkt n"
    using n by (auto simp: l_def azimuth_diff_of_def BLOCKS_PER_PACKET_def)
  have sw: "(if n < BLOCKS_PER_PACKET - 1 then azimuth_sweep pkt n + azimuth_diff_of pkt n
             else azimuth_sweep pkt n) = azimuth_sweep pkt (Suc n)"
    by (auto simp: azimuth_sweep_Suc azimuth_diff_of_def)
  have step: "vlp_blocks hc rd pkt n l (azimuth_sweep pkt n) pc1 =
     (case append_scans (vlp_block_entries hc rd pkt n) pc1 of
        (Some e, pc') \<Rightarrow> (Inl e, pc')
      | (None, pc') \<Rightarrow>
          vlp_blocks hc rd pkt (Suc n) (azimuth_diff_of pkt n) (azimuth_sweep pkt (Suc n)) pc')" for pc1
    using vlp_blocks_step [OF n hn, of rd l "azimuth_sweep pkt n" pc1]
    by (simp only: bd last sw Suc_eq_plus1 vlp_block_append_scans)
  obtain eo pc1 where d: "append_scans (vlp_entries hc rd pkt n) pc = (eo, pc1)"
    by (cases "append_scans (vlp_entries hc rd pkt n) pc")
  show ?case
  proof (cases eo)
    case None
    with d IH step [of pc1] show ?thesis
      by (simp add: l_def vlp_entries_Suc append_scans_append split: prod.splits option.splits)
  next
    case (Some e)
    with d IH show ?thesis by (simp add: vlp_entries_Suc append_scans_append)
  qed
qed

lemma unpack_vlp_all_valid:
  assumes "\<forall>b<BLOCKS_PER_PACKET. header (blocks pkt b) = UPPER_BANK hc"
  shows "unpack_vlp hc rd pkt pc =
     (case append_scans (vlp_entries hc rd pkt BLOCKS_PER_PACKET) pc of
        (Some e, pc') \<Rightarrow> (Inl e, pc')
      | (None, pc') \<Rightarrow> (Inr (azimuth_sweep pkt BLOCKS_PER_PACKET), pc'))"
  using unpack_vlp_prefix [OF le_refl assms, of rd pc]
  by (simp add: vlp_blocks_stop split: prod.splits option.splits)

lemma unpack_vlp_first_bad:
  assumes "n < BLOCKS_PER_PACKET" and "\<forall>b<n. header (blocks pkt b) = UPPER_BANK hc"
    and "header (blocks pkt n) \<noteq> UPPER_BANK hc"
  shows "unpack_vlp hc rd pkt pc =
     (case append_scans (vlp_entries hc rd pkt n) pc of
        (Some e, pc') \<Rightarrow> (Inl e, pc')
      | (None, pc') \<Rightarrow> (Inr (- 1), pc'))"
proof -
  have ne: "UPPER_BANK hc \<noteq> header (blocks pkt n)" using assms(3) by auto
  have bad: "vlp_blocks hc rd pkt n l s pc' = (Inr (- 1), pc')" for l s pc'
    by (rule vlp_blocks_bad_header [OF assms(1) ne])
  show ?thesis
    unfolding unpack_vlp_prefix [OF less_imp_le [OF assms(1)] assms(2), of rd pc] bad ..
qed

subsection \<open>The loops of the legacy path\<close>

lemma legacy_scans_step:
  "j < SCANS_PER_BLOCK \<Longrightarrow>
   legacy_scans hc rd pkt i bo j k pc =
     (case legacy_scan hc rd pkt i bo j k of
        Inl e \<Rightarrow> (Some e, pc)
      | Inr None \<Rightarrow> legacy_scans hc rd pkt i bo (j + 1) (k + RAW_SCAN_SIZE) pc
      | Inr (Some point) \<Rightarrow>
          legacy_scans hc rd pkt i bo (j + 1) (k + RAW_SCAN_SIZE) (push_back point pc))"
  by (subst legacy_scans.simps) simp

lemma legacy_scans_stop:
  "\<not> j < SCANS_PER_BLOCK \<Longrightarrow> legacy_scans hc rd pkt i bo j k pc = (None, pc)"
  by (subst legacy_scans.simps) simp

lemma legacy_scans_append_scans:
  "SCANS_PER_BLOCK - j = m \<Longrightarrow>
   legacy_scans hc rd pkt i bo j k pc =
     append_scans (map (\<lambda>n. legacy_scan hc rd pkt i bo (j + n) (k + RAW_SCAN_SIZE * n)) [0..<m]) pc"
proof (induction m arbitrary: j k pc)
  case 0
  then have "\<not> j < SCANS_PER_BLOCK" by simp
  then show ?case by (simp add: legacy_scans_stop)
next
  case (Suc m)
  then have lt: "j < SCANS_PER_BLOCK" and m: "SCANS_PER_BLOCK - (j + 1) = m" by auto
  note IH = Suc.IH [OF m, of "k + RAW_SCAN_SIZE"]
  show ?case
  proof (cases "legacy_scan hc rd pkt i bo j k")
    case (Inl e)
    then show ?thesis
      by (simp add: legacy_scans_step [OF lt] upt_Suc_shift del: upt_Suc)
  next
    case (Inr r)
    then show ?thesis
      using IH
      by (cases r) (simp_all add: legacy_scans_step [OF lt] upt_Suc_shift comp_def add.assoc del: upt_Suc)
  qed
qed

lemma legacy_block_append_scans:
  "legacy_scans hc rd pkt i (if header (blocks pkt i) = LOWER_BANK hc then 32 else 0) 0 0 pc
     = append_scans (legacy_block_entries hc rd pkt i) pc"
  using legacy_scans_append_scans [of 0 SCANS_PER_BLOCK hc rd pkt i _ 0 pc]
  by (simp add: legacy_block_entries_def)

lemma legacy_blocks_step:
  "i < BLOCKS_PER_PACKET \<Longrightarrow>
   legacy_blocks hc rd pkt i pc =
     (case append_scans (legacy_block_entries hc rd pkt i) pc of
        (Some e, pc') \<Rightarrow> (Inl e, pc')
      | (None, pc') \<Rightarrow> legacy_blocks hc rd pkt (i + 1) pc')"
  by (subst legacy_blocks.simps) (simp add: Let_def legacy_block_append_scans)

lemma legacy_blocks_stop:
  "\<not> i < BLOCKS_PER_PACKET \<Longrightarrow> legacy_blocks hc rd pkt i pc = (Inr (- 1), pc)"
  by (subst legacy_blocks.simps) simp

lemma legacy_blocks_append_scans:
  "BLOCKS_PER_PACKET - i = m \<Longrightarrow>
   legacy_blocks hc rd pkt i pc =
     (case append_scans (concat (map (\<lambda>n. legacy_block_entries hc rd pkt (i + n)) [0..<m])) pc of
        (Some e, pc') \<Rightarrow> (Inl e, pc')
      | (None, pc') \<Rightarrow> (Inr (- 1), pc'))"
proof (induction m arbitrary: i pc)
  case 0
  then have "\<not> i < BLOCKS_PER_PACKET" by simp
  then show ?case by (simp add: legacy_blocks_stop)
next
  case (Suc m)
  then have lt: "i < BLOCKS_PER_PACKET" and m: "BLOCKS_PER_PACKET - (i + 1) = m" by auto
  obtain eo pc1 where d: "append_scans (legacy_block_entries hc rd pkt i) pc = (eo, pc1)"
    by (cases "append_scans (legacy_block_entries hc rd pkt i) pc")
  show ?case
    using d Suc.IH [OF m, of pc1]
    by (cases eo)
       (simp_all add: legacy_blocks_step [OF lt] upt_Suc_shift append_scans_append comp_def
          del: upt_Suc)
qed

lemma legacy_blocks_entries:
  "legacy_blocks hc rd pkt 0 pc =
     (case append_scans (legacy_entries hc rd pkt) pc of
        (Some e, pc') \<Rightarrow> (Inl e, pc')
      | (None, pc') \<Rightarrow> (Inr (- 1), pc'))"
  using legacy_blocks_append_scans [of 0 BLOCKS_PER_PACKET hc rd pkt pc]
  by (simp add: legacy_entries_def)

section \<open>Lemmas: the two-point correction\<close>

lemma unpack_vlp_cases:
  "(\<forall>b<BLOCKS_PER_PACKET. header (blocks pkt b) = UPPER_BANK hc)
   \<or> (\<exists>n<BLOCKS_PER_PACKET. (\<forall>b<n. header (blocks pkt b) = UPPER_BANK hc)
         \<and> header (blocks pkt n) \<noteq> UPPER_BANK hc)"
proof (cases "\<forall>b<BLOCKS_PER_PACKET. header (blocks pkt b) = UPPER_BANK hc")
  case True
  then show ?thesis by blast
next
  case False
  define Q where "Q b \<longleftrightarrow> header (blocks pkt b) \<noteq> UPPER_BANK hc" for b
  from False obtain b where b: "b < BLOCKS_PER_PACKET" "Q b" by (auto simp: Q_def)
  define n where "n = (LEAST b. Q b)"
  have "Q n" unfolding n_def using b(2) by (rule LeastI)
  moreover have "n \<le> b" unfolding n_def using b(2) by (rule Least_le)
  moreover have "\<And>m. m < n \<Longrightarrow> \<not> Q m" unfolding n_def by (rule not_less_Least)
  ultimately show ?thesis using b(1) by (auto simp: Q_def intro!: exI [of _ n])
qed

lemma unpack_vlp_cong:
  assumes "\<And>n. vlp_entries hc rd pkt n = vlp_entries hc rd' pkt n"
  shows "unpack_vlp hc rd pkt pc = unpack_vlp hc rd' pkt pc"
  using unpack_vlp_cases [of pkt hc]
proof
  assume v: "\<forall>b<BLOCKS_PER_PACKET. header (blocks pkt b) = UPPER_BANK hc"
  show ?thesis
    by (simp only: unpack_vlp_all_valid [OF v] assms)
next
  assume "\<exists>n<BLOCKS_PER_PACKET. (\<forall>b<n. header (blocks pkt b) = UPPER_BANK hc)
         \<and> header (blocks pkt n) \<noteq> UPPER_BANK hc"
  then obtain n where n: "n < BLOCKS_PER_PACKET" "\<forall>b<n. header (blocks pkt b) = UPPER_BANK hc"
    "header (blocks pkt n) \<noteq> UPPER_BANK hc" by blast
  show ?thesis
    by (simp only: unpack_vlp_first_bad [OF n] assms)
qed

lemma unpackAndAdd_cong:
  assumes "is_vlp rd = is_vlp rd'"
    and "\<And>n. vlp_entries hc rd pkt n = vlp_entries hc rd' pkt n"
    and "legacy_entries hc rd pkt = legacy_entries hc rd' pkt"
  shows "unpackAndAdd hc rd pkt pc = unpackAndAdd hc rd' pkt pc"
  using assms(1) unpack_vlp_cong [of hc rd pkt rd' pc, OF assms(2)] assms(3)
  by (simp add: unpackAndAdd_def legacy_blocks_entries)

lemma point_xyz_two_pt:
  "point_xyz (without_two_pt c) d ct st = point_xyz (with_zero_deltas c) d ct st"
  by (simp add: point_xyz_def without_two_pt_def with_zero_deltas_def Let_def)

lemma vlp_intensity_two_pt:
  "vlp_intensity (without_two_pt c) u r = vlp_intensity (with_zero_deltas c) u r"
  by (simp add: vlp_intensity_def without_two_pt_def with_zero_deltas_def)

lemma legacy_intensity_two_pt:
  "legacy_intensity (without_two_pt c) u r = legacy_intensity (with_zero_deltas c) u r"
  by (simp add: legacy_intensity_def without_two_pt_def with_zero_deltas_def)

lemma two_pt_fields:
  "dist_correction (without_two_pt c) = dist_correction (with_zero_deltas c)"
  "laser_ring (without_two_pt c) = laser_ring (with_zero_deltas c)"
  by (simp_all add: without_two_pt_def with_zero_deltas_def)

lemma map_corrections_simps:
  "config (map_corrections f rd) = config rd"
  "vlp_spec (map_corrections f rd) = vlp_spec rd"
  "timing_offsets (map_corrections f rd) = timing_offsets rd"
  "is_vlp (map_corrections f rd) = is_vlp rd"
  "cos_rot_table (map_corrections f rd) = cos_rot_table rd"
  "sin_rot_table (map_corrections f rd) = sin_rot_table rd"
  "laser_corrections (calibration (map_corrections f rd)) l
     = map_option f (laser_corrections (calibration rd) l)"
  by (simp_all add: map_corrections_def)

lemma vlp_scan_two_pt:
  "vlp_scan hc (map_corrections without_two_pt rd) pkt b az ad fs l k
     = vlp_scan hc (map_corrections with_zero_deltas rd) pkt b az ad fs l k"
  by (cases "laser_corrections (calibration rd) l")
     (simp_all add: vlp_scan_def map_corrections_simps point_xyz_two_pt vlp_intensity_two_pt
        two_pt_fields pointInRange_def vlp_point_time_def Let_def cong: if_cong sum.case_cong)

lemma legacy_scan_two_pt:
  "legacy_scan hc (map_corrections without_two_pt rd) pkt i bo j k
     = legacy_scan hc (map_corrections with_zero_deltas rd) pkt i bo j k"
  by (cases "laser_corrections (calibration rd) ((j + bo) mod 256)")
     (simp_all add: legacy_scan_def map_corrections_simps point_xyz_two_pt legacy_intensity_two_pt
        two_pt_fields pointInRange_def Let_def cong: if_cong)

lemma vlp_block_entries_two_pt:
  "vlp_block_entries hc (map_corrections without_two_pt rd) pkt
     = vlp_block_entries hc (map_corrections with_zero_deltas rd) pkt"
  by (rule ext)
     (simp add: vlp_block_entries_def vlp_seq_entries_def map_corrections_simps vlp_scan_two_pt)

lemma legacy_block_entries_two_pt:
  "legacy_block_entries hc (map_corrections without_two_pt rd) pkt
     = legacy_block_entries hc (map_corrections with_zero_deltas rd) pkt"
  by (rule ext) (simp add: legacy_block_entries_def legacy_scan_two_pt)

section \<open>Lemmas: the points of a decode and their entries\<close>

lemma fill_rot_tables_eq:
  "fill_rot_tables r tabs =
     ((\<lambda>i. if r \<le> i \<and> i < ROTATION_MAX_UNITS
            then cos (from_degrees (ROTATION_RESOLUTION * real i)) else fst tabs i),
      (\<lambda>i. if r \<le> i \<and> i < ROTATION_MAX_UNITS
            then sin (from_degrees (ROTATION_RESOLUTION * real i)) else snd tabs i))"
proof (induction r tabs rule: fill_rot_tables.induct)
  case (1 rot_index tabs)
  show ?case
  proof (cases "rot_index < ROTATION_MAX_UNITS")
    case True
    let ?tabs' = "((fst tabs)(rot_index := cos (from_degrees (ROTATION_RESOLUTION * real rot_index))),
                   (snd tabs)(rot_index := sin (from_degrees (ROTATION_RESOLUTION * real rot_index))))"
    have "fill_rot_tables rot_index tabs = fill_rot_tables (rot_index + 1) ?tabs'"
      by (subst fill_rot_tables.simps) (simp only: True if_True)
    also note 1 [OF True]
    finally show ?thesis using True by (auto simp: fun_eq_iff)
  next
    case False
    then show ?thesis
      by (subst fill_rot_tables.simps) (auto simp: fun_eq_iff prod_eq_iff)
  qed
qed

lemma vlp_block_entries_mem:
  assumes "r \<in> set (vlp_block_entries hc rd pkt b)"
  shows "\<exists>fs l k. int fs < firing_seqs_per_block (vlp_spec rd)
     \<and> int l < lasers_per_firing_seq (vlp_spec rd)
     \<and> k = RAW_SCAN_SIZE * (fs * nat (lasers_per_firing_seq (vlp_spec rd)) + l)
     \<and> r = vlp_scan hc rd pkt b (real (unat (rotation (blocks pkt b)))) (azimuth_diff_of pkt b) fs l k"
proof -
  from assms obtain fs l where "fs < nat (firing_seqs_per_block (vlp_spec rd))"
    "l < nat (lasers_per_firing_seq (vlp_spec rd))"
    "r = vlp_scan hc rd pkt b (real (unat (rotation (blocks pkt b)))) (azimuth_diff_of pkt b) fs l
           (RAW_SCAN_SIZE * (fs * nat (lasers_per_firing_seq (vlp_spec rd))) + RAW_SCAN_SIZE * l)"
    by (auto simp: vlp_block_entries_def vlp_seq_entries_def)
  then show ?thesis
    by - (rule exI [of _ fs], rule exI [of _ l],
          rule exI [of _ "RAW_SCAN_SIZE * (fs * nat (lasers_per_firing_seq (vlp_spec rd)) + l)"],
          auto simp: distrib_left)
qed

lemma vlp_entries_mem:
  "r \<in> set (vlp_entries hc rd pkt n) \<Longrightarrow> \<exists>b<n. r \<in> set (vlp_block_entries hc rd pkt b)"
  by (auto simp: vlp_entries_def)

lemma legacy_entries_mem:
  "r \<in> set (legacy_entries hc rd pkt) \<Longrightarrow>
   \<exists>i<BLOCKS_PER_PACKET. \<exists>j<SCANS_PER_BLOCK.
     r = legacy_scan hc rd pkt i (if header (blocks pkt i) = LOWER_BANK hc then 32 else 0) j
           (RAW_SCAN_SIZE * j)"
  by (force simp: legacy_entries_def legacy_block_entries_def split del: if_split)

lemma unpack_vlp_entries:
  "\<exists>n\<le>BLOCKS_PER_PACKET.
     (\<forall>b<n. header (blocks pkt b) = UPPER_BANK hc)
     \<and> unpack_vlp hc rd pkt pc =
         (case append_scans (vlp_entries hc rd pkt n) pc of
            (Some e, pc') \<Rightarrow> (Inl e, pc')
          | (None, pc') \<Rightarrow>
              (Inr (if n = BLOCKS_PER_PACKET then azimuth_sweep pkt BLOCKS_PER_PACKET else - 1), pc'))"
  using unpack_vlp_cases [of pkt hc]
proof
  assume v: "\<forall>b<BLOCKS_PER_PACKET. header (blocks pkt b) = UPPER_BANK hc"
  show ?thesis
    by (rule exI [of _ BLOCKS_PER_PACKET]) (simp add: unpack_vlp_all_valid [OF v] v)
next
  assume "\<exists>n<BLOCKS_PER_PACKET. (\<forall>b<n. header (blocks pkt b) = UPPER_BANK hc)
         \<and> header (blocks pkt n) \<noteq> UPPER_BANK hc"
  then obtain n where n: "n < BLOCKS_PER_PACKET" "\<forall>b<n. header (blocks pkt b) = UPPER_BANK hc"
    "header (blocks pkt n) \<noteq> UPPER_BANK hc" by blast
  show ?thesis
    using n(1,2) by (intro exI [of _ n]) (simp add: unpack_vlp_first_bad [OF n])
qed

lemma unpack_vlp_appended:
  assumes "p \<in> set (appended pc (snd (unpack_vlp hc rd pkt pc)))"
  shows "\<exists>b<BLOCKS_PER_PACKET. \<exists>fs l k. int fs < firing_seqs_per_block (vlp_spec rd)
     \<and> int l < lasers_per_firing_seq (vlp_spec rd)
     \<and> vlp_scan hc rd pkt b (real (unat (rotation (blocks pkt b)))) (azimuth_diff_of pkt b) fs l k
         = Inr (Some p)"
proof -
  from unpack_vlp_entries [of pkt hc rd pc] obtain n where n: "n \<le> BLOCKS_PER_PACKET"
    and E: "unpack_vlp hc rd pkt pc =
         (case append_scans (vlp_entries hc rd pkt n) pc of
            (Some e, pc') \<Rightarrow> (Inl e, pc')
          | (None, pc') \<Rightarrow>
              (Inr (if n = BLOCKS_PER_PACKET then azimuth_sweep pkt BLOCKS_PER_PACKET else - 1), pc'))"
    by blast
  have eq: "snd (unpack_vlp hc rd pkt pc) = snd (append_scans (vlp_entries hc rd pkt n) pc)"
    unfolding E by (simp split: prod.splits option.splits)
  from assms eq have "Inr (Some p) \<in> set (vlp_entries hc rd pkt n)"
    using appended_append_scans [of pc "vlp_entries hc rd pkt n"] by auto
  then obtain b where b: "b < n" "Inr (Some p) \<in> set (vlp_block_entries hc rd pkt b)"
    using vlp_entries_mem by blast
  from vlp_block_entries_mem [OF b(2)] b(1) n show ?thesis
    by (metis less_le_trans)
qed

lemma legacy_appended:
  assumes "p \<in> set (appended pc (snd (legacy_blocks hc rd pkt 0 pc)))"
  shows "\<exists>i<BLOCKS_PER_PACKET. \<exists>bo j k. legacy_scan hc rd pkt i bo j k = Inr (Some p)"
proof -
  have eq: "snd (legacy_blocks hc rd pkt 0 pc) = snd (append_scans (legacy_entries hc rd pkt) pc)"
    by (simp add: legacy_blocks_entries split: prod.splits option.splits)
  from assms eq have "Inr (Some p) \<in> set (legacy_entries hc rd pkt)"
    using appended_append_scans [of pc "legacy_entries hc rd pkt"] by auto
  from legacy_entries_mem [OF this] show ?thesis by metis
qed

lemma vlp_scan_time:
  "vlp_scan hc rd pkt b az ad fs l k = Inr (Some p) \<Longrightarrow>
   vlp_point_time rd pkt b fs = Inr \<lparr>sec = time_sec p, nsec = time_nsec p\<rparr>"
  by (auto simp: vlp_scan_def Let_def split: option.splits if_splits sum.splits)

lemma legacy_scan_time:
  "legacy_scan hc rd pkt i bo j k = Inr (Some p) \<Longrightarrow>
   time_sec p = sec (stamp pkt) \<and> time_nsec p = nsec (stamp pkt)"
  by (auto simp: legacy_scan_def Let_def split: option.splits if_splits)

lemma append_scans_entry_points:
  "points (snd (append_scans rs pc)) = points pc @ entry_points rs"
  by (induction rs pc rule: append_scans.induct) (simp_all add: push_back_def)

lemma appended_entry_points: "appended pc (snd (append_scans rs pc)) = entry_points rs"
  by (simp add: appended_def append_scans_entry_points)

lemma append_scans_unchanged: "snd (append_scans rs pc) = pc \<longleftrightarrow> entry_points rs = []"
proof
  assume "snd (append_scans rs pc) = pc"
  then have "points (snd (append_scans rs pc)) = points pc" by simp
  then show "entry_points rs = []" by (simp add: append_scans_entry_points)
next
  show "entry_points rs = [] \<Longrightarrow> snd (append_scans rs pc) = pc"
    by (induction rs pc rule: append_scans.induct) simp_all
qed

lemma entry_points_mem:
  "(\<And>e. Inl e \<notin> set rs) \<Longrightarrow> Inr (Some p) \<in> set rs \<Longrightarrow> p \<in> set (entry_points rs)"
  by (induction rs rule: entry_points.induct) auto

lemma vlp_entries_member:
  assumes "b < n" "int fs < firing_seqs_per_block (vlp_spec rd)"
    "int l < lasers_per_firing_seq (vlp_spec rd)"
  shows "vlp_scan hc rd pkt b (real (unat (rotation (blocks pkt b)))) (azimuth_diff_of pkt b) fs l
           (RAW_SCAN_SIZE * (fs * nat (lasers_per_firing_seq (vlp_spec rd)) + l))
         \<in> set (vlp_entries hc rd pkt n)"
proof -
  let ?az = "real (unat (rotation (blocks pkt b)))" and ?ad = "azimuth_diff_of pkt b"
  let ?k = "RAW_SCAN_SIZE * (fs * nat (lasers_per_firing_seq (vlp_spec rd)))"
  have fs: "fs \<in> set [0..<nat (firing_seqs_per_block (vlp_spec rd))]"
    and l: "l \<in> set [0..<nat (lasers_per_firing_seq (vlp_spec rd))]"
    using assms(2,3) by simp_all
  have "vlp_scan hc rd pkt b ?az ?ad fs l (?k + RAW_SCAN_SIZE * l)
          \<in> set (vlp_seq_entries hc rd pkt b ?az ?ad fs ?k)"
    unfolding vlp_seq_entries_def set_map using l by (rule imageI)
  moreover have "vlp_seq_entries hc rd pkt b ?az ?ad fs ?k
          \<in> set (map (\<lambda>fs. vlp_seq_entries hc rd pkt b ?az ?ad fs
                          (RAW_SCAN_SIZE * (fs * nat (lasers_per_firing_seq (vlp_spec rd)))))
                    [0..<nat (firing_seqs_per_block (vlp_spec rd))])"
    unfolding set_map using fs by (rule imageI)
  ultimately have "vlp_scan hc rd pkt b ?az ?ad fs l (?k + RAW_SCAN_SIZE * l)
          \<in> set (vlp_block_entries hc rd pkt b)"
    unfolding vlp_block_entries_def set_concat by (rule UN_I [rotated])
  moreover have "vlp_block_entries hc rd pkt b \<in> set (map (vlp_block_entries hc rd pkt) [0..<n])"
    using assms(1) by simp
  ultimately have "vlp_scan hc rd pkt b ?az ?ad fs l (?k + RAW_SCAN_SIZE * l)
          \<in> set (vlp_entries hc rd pkt n)"
    unfolding vlp_entries_def set_concat by (rule UN_I [rotated])
  then show ?thesis by (simp only: distrib_left)
qed

lemma decoded_blocks_le: "decoded_blocks hc pkt \<le> BLOCKS_PER_PACKET"
  unfolding decoded_blocks_def using length_takeWhile_le [of _ "[0..<BLOCKS_PER_PACKET]"] by simp

lemma decoded_blocks_valid:
  assumes "b < decoded_blocks hc pkt"
  shows "header (blocks pkt b) = UPPER_BANK hc"
proof -
  let ?P = "\<lambda>b. header (blocks pkt b) = UPPER_BANK hc"
  from assms have b: "b < length (takeWhile ?P [0..<BLOCKS_PER_PACKET])"
    by (simp add: decoded_blocks_def)
  then have "takeWhile ?P [0..<BLOCKS_PER_PACKET] ! b = [0..<BLOCKS_PER_PACKET] ! b"
    by (rule takeWhile_nth)
  moreover have "b < BLOCKS_PER_PACKET" using assms decoded_blocks_le [of hc pkt] by simp
  ultimately have "takeWhile ?P [0..<BLOCKS_PER_PACKET] ! b = b" by simp
  moreover have "takeWhile ?P [0..<BLOCKS_PER_PACKET] ! b \<in> set (takeWhile ?P [0..<BLOCKS_PER_PACKET])"
    using b by (rule nth_mem)
  ultimately show ?thesis using set_takeWhileD by fastforce
qed

lemma decoded_blocks_invalid:
  assumes "decoded_blocks hc pkt < BLOCKS_PER_PACKET"
  shows "header (blocks pkt (decoded_blocks hc pkt)) \<noteq> UPPER_BANK hc"
proof -
  let ?P = "\<lambda>b. header (blocks pkt b) = UPPER_BANK hc"
  from assms have "length (takeWhile ?P [0..<BLOCKS_PER_PACKET]) < length [0..<BLOCKS_PER_PACKET]"
    by (simp add: decoded_blocks_def)
  from nth_length_takeWhile [OF this] assms show ?thesis
    by (simp add: decoded_blocks_def)
qed

lemma decoded_blocks_eq:
  assumes "n \<le> BLOCKS_PER_PACKET" "\<forall>b<n. header (blocks pkt b) = UPPER_BANK hc"
    "n < BLOCKS_PER_PACKET \<longrightarrow> header (blocks pkt n) \<noteq> UPPER_BANK hc"
  shows "decoded_blocks hc pkt = n"
proof (rule antisym)
  show "decoded_blocks hc pkt \<le> n"
  proof (rule ccontr)
    assume "\<not> decoded_blocks hc pkt \<le> n"
    then have "n < decoded_blocks hc pkt" by simp
    from decoded_blocks_valid [OF this] this decoded_blocks_le [of hc pkt] assms(3)
    show False by simp
  qed
  show "n \<le> decoded_blocks hc pkt"
  proof (rule ccontr)
    assume "\<not> n \<le> decoded_blocks hc pkt"
    then have d: "decoded_blocks hc pkt < n" by simp
    with assms(1) have "decoded_blocks hc pkt < BLOCKS_PER_PACKET" by simp
    from decoded_blocks_invalid [OF this] assms(2) d show False by simp
  qed
qed

text \<open>
  \<^verbatim>\<open>unpack_vlp\<close> in closed form: the entries of the blocks before the first block with
  an invalid header are decoded, in their order, up to the first error.
\<close>

lemma unpack_vlp_closed:
  "unpack_vlp hc rd pkt pc =
     (case append_scans (vlp_entries hc rd pkt (decoded_blocks hc pkt)) pc of
        (Some e, pc') \<Rightarrow> (Inl e, pc')
      | (None, pc') \<Rightarrow>
          (Inr (if decoded_blocks hc pkt = BLOCKS_PER_PACKET
                then azimuth_sweep pkt BLOCKS_PER_PACKET else - 1), pc'))"
proof (cases "decoded_blocks hc pkt = BLOCKS_PER_PACKET")
  case True
  then have "\<forall>b<BLOCKS_PER_PACKET. header (blocks pkt b) = UPPER_BANK hc"
    using decoded_blocks_valid [of _ hc pkt] by simp
  from unpack_vlp_all_valid [OF this] True show ?thesis by simp
next
  case False
  then have n: "decoded_blocks hc pkt < BLOCKS_PER_PACKET"
    using decoded_blocks_le [of hc pkt] by simp
  have "\<forall>b<decoded_blocks hc pkt. header (blocks pkt b) = UPPER_BANK hc"
    using decoded_blocks_valid by blast
  from unpack_vlp_first_bad [OF n this decoded_blocks_invalid [OF n]] False show ?thesis by simp
qed

lemma unpack_vlp_appended_eq:
  "appended pc (snd (unpack_vlp hc rd pkt pc))
     = entry_points (vlp_entries hc rd pkt (decoded_blocks hc pkt))"
proof -
  have "snd (unpack_vlp hc rd pkt pc)
          = snd (append_scans (vlp_entries hc rd pkt (decoded_blocks hc pkt)) pc)"
    unfolding unpack_vlp_closed [of hc rd pkt pc] by (simp split: prod.splits option.splits)
  then show ?thesis by (simp add: appended_entry_points)
qed

lemma time_plus_total:
  assumes "time_plus t d = Inr t'"
  shows "int (sec t') * 10 ^ 9 + int (nsec t')
           = (int (sec t) + d_sec d) * 10 ^ 9 + (int (nsec t) + d_nsec d)"
    and "nsec t' < 10 ^ 9"
proof -
  define total where "total = (int (sec t) + d_sec d) * 10 ^ 9 + (int (nsec t) + d_nsec d)"
  from assms have s: "0 \<le> total div 10 ^ 9"
    and t': "t' = \<lparr>sec = nat (total div 10 ^ 9), nsec = nat (total mod 10 ^ 9)\<rparr>"
    by (auto simp: time_plus_def Let_def total_def split: if_splits)
  have m: "0 \<le> total mod 10 ^ 9" "total mod 10 ^ 9 < 10 ^ 9" by simp_all
  have "int (sec t') * 10 ^ 9 + int (nsec t') = total div 10 ^ 9 * 10 ^ 9 + total mod 10 ^ 9"
    using s m(1) by (simp add: t')
  also have "\<dots> = total" by (rule div_mult_mod_eq)
  finally show "int (sec t') * 10 ^ 9 + int (nsec t')
           = (int (sec t) + d_sec d) * 10 ^ 9 + (int (nsec t) + d_nsec d)"
    by (simp only: total_def)
  from m show "nsec t' < 10 ^ 9" by (simp add: t' nat_less_iff)
qed

section \<open>Lemmas: the arithmetic of the corrected azimuth\<close>

lemma c_div_nonneg: "0 \<le> a \<Longrightarrow> 0 < b \<Longrightarrow> c_div a b = a div b"
  by (simp add: c_div_def sgn_if)

lemma c_rem_nonneg: "0 \<le> a \<Longrightarrow> c_rem a 36000 = a mod 36000"
  by (simp add: c_rem_def sgn_if)

lemma c_rem_range: "- 36000 < c_rem a 36000 \<and> c_rem a 36000 < 36000"
proof -
  have "0 \<le> \<bar>a\<bar> mod 36000" "\<bar>a\<bar> mod 36000 < 36000" by simp_all
  then show ?thesis by (auto simp: c_rem_def sgn_if)
qed

lemma c_round_nonneg: "0 \<le> v \<Longrightarrow> 0 \<le> c_round v"
  by (simp add: c_round_def)

lemma c_round_eq_round: "0 \<le> v \<Longrightarrow> c_round v = round v"
  by (simp add: c_round_def round_def)

lemma c_round_bounds: "- real_of_int n \<le> v \<Longrightarrow> v \<le> real_of_int n \<Longrightarrow> - n - 1 \<le> c_round v \<and> c_round v \<le> n + 1"
  unfolding c_round_def by (auto; linarith)

lemma firing_offset_bounds:
  assumes "vlp_spec_plausible spec" "int l < lasers_per_firing_seq spec"
    "int fs < firing_seqs_per_block spec"
  shows "0 \<le> real_of_int (c_div (int l) (lasers_per_firing spec)) * firing_duration spec
              + real fs * firing_seq_duration spec"
    and "real_of_int (c_div (int l) (lasers_per_firing spec)) * firing_duration spec
              + real fs * firing_seq_duration spec \<le> block_duration spec"
proof -
  let ?lpf = "lasers_per_firing spec"
  from assms(1) have p: "0 < ?lpf" "0 \<le> firing_duration spec" "0 \<le> firing_seq_duration spec"
    and bound: "real_of_int ((lasers_per_firing_seq spec - 1) div ?lpf) * firing_duration spec
          + real_of_int (firing_seqs_per_block spec - 1) * firing_seq_duration spec
          \<le> block_duration spec"
    by (simp_all add: vlp_spec_plausible_def)
  have d: "c_div (int l) ?lpf = int l div ?lpf" using p(1) by (simp add: c_div_nonneg)
  have d0: "0 \<le> int l div ?lpf" using p(1) by (simp add: pos_imp_zdiv_nonneg_iff)
  have d1: "int l div ?lpf \<le> (lasers_per_firing_seq spec - 1) div ?lpf"
    using assms(2) p(1) by (intro zdiv_mono1) auto
  have s1: "real fs \<le> real_of_int (firing_seqs_per_block spec - 1)"
  proof -
    have "int fs \<le> firing_seqs_per_block spec - 1" using assms(3) by simp
    then have "real_of_int (int fs) \<le> real_of_int (firing_seqs_per_block spec - 1)"
      by (simp only: of_int_le_iff)
    then show ?thesis by simp
  qed
  show "0 \<le> real_of_int (c_div (int l) ?lpf) * firing_duration spec + real fs * firing_seq_duration spec"
    unfolding d using d0 p by simp
  have "real_of_int (int l div ?lpf) * firing_duration spec
          \<le> real_of_int ((lasers_per_firing_seq spec - 1) div ?lpf) * firing_duration spec"
    using d1 p(2) by (intro mult_right_mono) auto
  moreover have "real fs * firing_seq_duration spec
          \<le> real_of_int (firing_seqs_per_block spec - 1) * firing_seq_duration spec"
    using s1 p(3) by (intro mult_right_mono) auto
  ultimately show "real_of_int (c_div (int l) ?lpf) * firing_duration spec
              + real fs * firing_seq_duration spec \<le> block_duration spec"
    unfolding d using bound by linarith
qed

lemma plausible_counts:
  assumes "vlp_spec_plausible spec" "int l < lasers_per_firing_seq spec"
    "int fs < firing_seqs_per_block spec"
  shows "l < 32" and "fs < 32"
proof -
  let ?m = "nat (firing_seqs_per_block spec)" and ?n = "nat (lasers_per_firing_seq spec)"
  from assms(1) have "RAW_SCAN_SIZE * (?m * ?n) \<le> BLOCK_DATA_SIZE"
    by (simp add: vlp_spec_plausible_def)
  then have b: "3 * (?m * ?n) \<le> 96"
    by (simp only: RAW_SCAN_SIZE_def BLOCK_DATA_SIZE_def SCANS_PER_BLOCK_def)
  have l: "l < ?n" and f: "fs < ?m"
    using assms(2,3) by simp_all
  from f have "1 * ?n \<le> ?m * ?n" by (intro mult_right_mono) simp_all
  then have "?n \<le> ?m * ?n" by simp
  with b l show "l < 32" by linarith
  from l have "?m * 1 \<le> ?m * ?n" by (intro mult_left_mono) simp_all
  then have "?m \<le> ?m * ?n" by simp
  with b f show "fs < 32" by linarith
qed

lemma claimed_azimuth_corrected_f_between:
  assumes "vlp_spec_plausible spec" "int l < lasers_per_firing_seq spec"
    "int fs < firing_seqs_per_block spec"
  shows "min az (az + ad) \<le> claimed_azimuth_corrected_f spec az ad fs l"
    and "claimed_azimuth_corrected_f spec az ad fs l \<le> max az (az + ad)"
proof -
  define t where "t = (real_of_int (c_div (int l) (lasers_per_firing spec)) * firing_duration spec
              + real fs * firing_seq_duration spec) / block_duration spec"
  have bd: "0 < block_duration spec" and lpf: "0 < lasers_per_firing spec"
    using assms(1) by (simp_all add: vlp_spec_plausible_def)
  have t: "0 \<le> t" "t \<le> 1"
    using firing_offset_bounds [OF assms] bd by (simp_all add: t_def)
  have f: "claimed_azimuth_corrected_f spec az ad fs l = az + ad * t"
    using lpf by (simp add: claimed_azimuth_corrected_f_def t_def c_div_nonneg)
  show "min az (az + ad) \<le> claimed_azimuth_corrected_f spec az ad fs l"
  proof (cases "0 \<le> ad")
    case True
    then have "0 \<le> ad * t" using t(1) by simp
    then show ?thesis unfolding f by simp
  next
    case False
    then have "ad * 1 \<le> ad * t" using t(2) by (intro mult_left_mono_neg) auto
    then show ?thesis unfolding f by simp
  qed
  show "claimed_azimuth_corrected_f spec az ad fs l \<le> max az (az + ad)"
  proof (cases "0 \<le> ad")
    case True
    then have "ad * t \<le> ad * 1" using t(2) by (intro mult_left_mono) auto
    then show ?thesis unfolding f by simp
  next
    case False
    then have "ad * t \<le> 0" using t(1) by (simp add: mult_nonpos_nonneg)
    then show ?thesis unfolding f by simp
  qed
qed

text \<open>
  The interpolation in single precision stays within \<open>1/32\<close> of the interpolation in
  exact arithmetic: six roundings, each of a relative error of at most \<open>2^-24\<close>, of
  numbers of a magnitude of at most \<open>65535 + 36000\<close>.
\<close>

lemma azimuth_corrected_f_close:
  assumes "vlp_spec_plausible spec" "int l < lasers_per_firing_seq spec"
    "int fs < firing_seqs_per_block spec"
    and az: "0 \<le> az" "az \<le> 65535" and ad: "\<bar>ad\<bar> \<le> 36000"
  shows "\<bar>vlp_azimuth_corrected_f spec az ad fs l - claimed_azimuth_corrected_f spec az ad fs l\<bar>
           \<le> 1 / 32"
proof -
  let ?n = "c_div (int l) (lasers_per_firing spec)"
  define A where "A = real_of_int ?n * firing_duration spec"
  define B where "B = real fs * firing_seq_duration spec"
  define T where "T = A + B"
  define bd where "bd = block_duration spec"
  define fo where "fo = to_float A"
  define fso where "fso = to_float B"
  define s where "s = to_float (fo + fso)"
  define p where "p = to_float (ad * s)"
  define q where "q = to_float (p / bd)"
  have bd: "0 < bd" and lpf: "0 < lasers_per_firing spec"
    and fd: "0 \<le> firing_duration spec" and fsd: "0 \<le> firing_seq_duration spec"
    using assms(1) by (simp_all add: vlp_spec_plausible_def bd_def)
  have n: "?n = int l div lasers_per_firing spec" using lpf by (simp add: c_div_nonneg)
  have n0: "0 \<le> ?n" unfolding n using lpf by (simp add: pos_imp_zdiv_nonneg_iff)
  have "int l div lasers_per_firing spec \<le> int l"
    using zdiv_mono2 [of "int l" 1 "lasers_per_firing spec"] lpf by simp
  with plausible_counts(1) [OF assms(1-3)] n0 have "\<bar>?n\<bar> < 2 ^ 24" unfolding n by simp
  then have cn: "to_float (real_of_int ?n) = real_of_int ?n" by (rule to_float_of_int)
  have cf: "to_float (real fs) = real fs"
    using plausible_counts(2) [OF assms(1-3)] by (intro to_float_of_nat) simp
  have A0: "0 \<le> A" using n0 fd by (simp add: A_def)
  have B0: "0 \<le> B" using fsd by (simp add: B_def)
  have T0: "0 \<le> T" using A0 B0 by (simp add: T_def)
  have Tbd: "T \<le> bd"
    using firing_offset_bounds(2) [OF assms(1-3)] by (simp add: T_def A_def B_def bd_def)
  have f: "vlp_azimuth_corrected_f spec az ad fs l = to_float (az + q)"
    by (simp add: vlp_azimuth_corrected_f_def Let_def cn cf q_def p_def s_def fo_def fso_def
        A_def B_def bd_def)
  have c: "claimed_azimuth_corrected_f spec az ad fs l = az + ad * T / bd"
    by (simp add: claimed_azimuth_corrected_f_def T_def A_def B_def bd_def n [symmetric])
  have e1: "\<bar>fo - A\<bar> \<le> (1 / 8388608) * A"
    using to_float_step [of A A 0 A] A0 by (simp add: fo_def)
  have e2: "\<bar>fso - B\<bar> \<le> (1 / 8388608) * B"
    using to_float_step [of B B 0 B] B0 by (simp add: fso_def)
  have "(1 / 8388608) * A + (1 / 8388608) * B = (1 / 8388608) * T"
    by (simp add: T_def)
  with e1 e2 have "\<bar>(fo + fso) - T\<bar> \<le> (1 / 8388608) * T"
    unfolding T_def by linarith
  with to_float_step [of "fo + fso" T "1 / 8388608" T] T0
  have e3: "\<bar>s - T\<bar> \<le> (1 / 4194304) * T" by (simp add: s_def)
  have "\<bar>ad * s - ad * T\<bar> = \<bar>ad\<bar> * \<bar>s - T\<bar>"
    by (simp add: abs_mult right_diff_distrib [symmetric])
  also have "\<dots> \<le> \<bar>ad\<bar> * ((1 / 4194304) * T)"
    using e3 by (intro mult_left_mono) simp_all
  finally have "\<bar>ad * s - ad * T\<bar> \<le> (1 / 4194304) * (\<bar>ad\<bar> * T)" by (simp add: algebra_simps)
  moreover have "\<bar>ad * T\<bar> \<le> \<bar>ad\<bar> * T" using T0 by (simp add: abs_mult)
  ultimately have e4: "\<bar>p - ad * T\<bar> \<le> (3 / 8388608) * (\<bar>ad\<bar> * T)"
    using to_float_step [of "ad * s" "ad * T" "1 / 4194304" "\<bar>ad\<bar> * T"] by (simp add: p_def)
  have "\<bar>p / bd - ad * T / bd\<bar> = \<bar>p - ad * T\<bar> / bd"
    using bd by (simp add: diff_divide_distrib [symmetric])
  also have "\<dots> \<le> (3 / 8388608) * (\<bar>ad\<bar> * T) / bd"
    using e4 bd by (intro divide_right_mono) simp_all
  finally have "\<bar>p / bd - ad * T / bd\<bar> \<le> (3 / 8388608) * (\<bar>ad\<bar> * T / bd)" by simp
  moreover have "\<bar>ad * T / bd\<bar> \<le> \<bar>ad\<bar> * T / bd" using T0 bd by (simp add: abs_mult)
  ultimately have e5: "\<bar>q - ad * T / bd\<bar> \<le> (1 / 2097152) * (\<bar>ad\<bar> * T / bd)"
    using to_float_step [of "p / bd" "ad * T / bd" "3 / 8388608" "\<bar>ad\<bar> * T / bd"]
    by (simp add: q_def)
  have "T / bd \<le> 1" using Tbd bd by simp
  moreover have "0 \<le> T / bd" using T0 bd by simp
  ultimately have "\<bar>ad\<bar> * (T / bd) \<le> 36000 * 1"
    using ad by (intro mult_mono) simp_all
  then have m: "\<bar>ad\<bar> * T / bd \<le> 36000" by simp
  have m0: "0 \<le> \<bar>ad\<bar> * T / bd" using T0 bd by simp
  have "(1 / 2097152) * (\<bar>ad\<bar> * T / bd) \<le> (1 / 2097152) * 36000"
    using m by (intro mult_left_mono) simp_all
  with e5 have "\<bar>q - ad * T / bd\<bar> \<le> (1 / 2097152) * 36000" by (rule order_trans)
  then have e6: "\<bar>q - ad * T / bd\<bar> \<le> 36000 / 2097152" by simp
  have t: "\<bar>ad * T / bd\<bar> \<le> 36000" using m T0 bd by (simp add: abs_mult)
  from e6 t az have "\<bar>az + q\<bar> \<le> 101536" by linarith
  then have "\<bar>az + q\<bar> / 2 ^ 24 \<le> 101536 / 2 ^ 24" by (intro divide_right_mono) simp_all
  with to_float_error [of "az + q"]
  have e7: "\<bar>to_float (az + q) - (az + q)\<bar> \<le> 101536 / 2 ^ 24" by linarith
  have "101536 / 2 ^ 24 + 36000 / 2097152 \<le> (1 / 32 :: real)" by simp
  with e6 e7 show ?thesis unfolding f c by linarith
qed

lemma inter_block_delta_range:
  "- 36000 < inter_block_delta pkt b \<and> inter_block_delta pkt b < 36000"
  unfolding inter_block_delta_def by (rule c_rem_range)

lemma c_rem_small_neg: "- 36000 < a \<Longrightarrow> a < 0 \<Longrightarrow> c_rem a 36000 = a"
  by (simp add: c_rem_def sgn_if)

lemma uint16_range: "0 \<le> uint (w :: 16 word) \<and> uint w \<le> 65535"
  using uint_lt2p [of w] by simp

lemma delta_plus_nonneg:
  fixes r r' :: int
  assumes "0 \<le> r" "r \<le> 65535" "0 \<le> r'"
  shows "0 \<le> r + c_rem (36000 + r' - r) 36000"
proof (cases "0 \<le> 36000 + r' - r")
  case True
  then have "0 \<le> c_rem (36000 + r' - r) 36000" by (simp add: c_rem_nonneg)
  with assms(1) show ?thesis by linarith
next
  case False
  moreover have "- 36000 < 36000 + r' - r" using assms by linarith
  ultimately have "c_rem (36000 + r' - r) 36000 = 36000 + r' - r"
    by (simp add: c_rem_small_neg)
  with assms(3) show ?thesis by linarith
qed

lemma rotation_plus_delta_nonneg:
  "0 \<le> uint (rotation (blocks pkt b)) + inter_block_delta pkt b"
  unfolding inter_block_delta_def
  using uint16_range [of "rotation (blocks pkt b)"] uint16_range [of "rotation (blocks pkt (b + 1))"]
  by (intro delta_plus_nonneg) simp_all

lemma real_unat_uint: "real (unat (w :: 16 word)) = real_of_int (uint w)"
  by simp

text \<open>
  With plausible timing constants the exactly interpolated azimuth of a block other
  than the last lies between the block's rotation and the rotation plus the difference
  to the next block, so it is not negative, whatever the rotations are.
\<close>

lemma claimed_azimuth_corrected_f_nonneg:
  assumes "vlp_spec_plausible spec" "int l < lasers_per_firing_seq spec"
    "int fs < firing_seqs_per_block spec" "b < BLOCKS_PER_PACKET"
    "b = BLOCKS_PER_PACKET - 1 \<longrightarrow> 0 \<le> inter_block_delta pkt (BLOCKS_PER_PACKET - 2)"
  shows "0 \<le> claimed_azimuth_corrected_f spec (real (unat (rotation (blocks pkt b))))
                (azimuth_diff_of pkt b) fs l"
proof -
  let ?az = "real (unat (rotation (blocks pkt b)))"
  let ?ad = "azimuth_diff_of pkt b"
  have az: "0 \<le> ?az" by (simp only: of_nat_0_le_iff)
  have "0 \<le> ?az + ?ad"
  proof (cases "b < BLOCKS_PER_PACKET - 1")
    case True
    then have "?ad = real_of_int (inter_block_delta pkt b)" by (simp add: azimuth_diff_of_def)
    moreover have "0 \<le> real_of_int (uint (rotation (blocks pkt b)) + inter_block_delta pkt b)"
      using rotation_plus_delta_nonneg [of pkt b] by (simp only: of_int_0_le_iff)
    ultimately show ?thesis by (simp only: real_unat_uint of_int_add)
  next
    case False
    with assms(4) have b: "b = BLOCKS_PER_PACKET - 1" by simp
    with assms(5) have "0 \<le> inter_block_delta pkt (BLOCKS_PER_PACKET - 2)" by simp
    moreover have "?ad = real_of_int (inter_block_delta pkt (BLOCKS_PER_PACKET - 2))"
      using b by (simp add: azimuth_diff_of_def BLOCKS_PER_PACKET_def)
    ultimately show ?thesis using az by (simp del: of_nat_unat)
  qed
  with az have "0 \<le> min ?az (?az + ?ad)" by simp
  with claimed_azimuth_corrected_f_between(1) [OF assms(1-3), of ?az ?ad] show ?thesis by linarith
qed

lemma rotation_real_range:
  "0 \<le> real (unat (rotation (blocks pkt b)))" "real (unat (rotation (blocks pkt b))) \<le> 65535"
proof -
  let ?w = "rotation (blocks pkt b)"
  have "real_of_int 0 \<le> real_of_int (uint ?w)" "real_of_int (uint ?w) \<le> real_of_int 65535"
    using uint16_range [of ?w] by (simp_all only: of_int_le_iff)
  then show "0 \<le> real (unat ?w)" "real (unat ?w) \<le> 65535"
    by (simp_all only: real_unat_uint of_int_0 of_int_numeral)
qed

lemma azimuth_diff_of_range: "\<bar>azimuth_diff_of pkt b\<bar> \<le> 36000"
  using inter_block_delta_range [of pkt b] inter_block_delta_range [of pkt "b - 1"]
  by (auto simp: azimuth_diff_of_def)

text \<open>
  The azimuth the decoder interpolates for an entry of a packet is within \<open>1/32\<close> of
  the exactly interpolated one.
\<close>

lemma entry_azimuth_close:
  assumes "vlp_spec_plausible spec" "int l < lasers_per_firing_seq spec"
    "int fs < firing_seqs_per_block spec"
  shows "\<bar>vlp_azimuth_corrected_f spec (real (unat (rotation (blocks pkt b))))
              (azimuth_diff_of pkt b) fs l
          - claimed_azimuth_corrected_f spec (real (unat (rotation (blocks pkt b))))
              (azimuth_diff_of pkt b) fs l\<bar> \<le> 1 / 32"
  by (rule azimuth_corrected_f_close [OF assms rotation_real_range azimuth_diff_of_range])

lemma c_round_nonneg_half: "- (1 / 2) < v \<Longrightarrow> 0 \<le> c_round v"
  unfolding c_round_def by (auto; linarith)

lemma azimuth_corrected_round_nonneg:
  assumes "vlp_spec_plausible spec" "int l < lasers_per_firing_seq spec"
    "int fs < firing_seqs_per_block spec" "b < BLOCKS_PER_PACKET"
    "b = BLOCKS_PER_PACKET - 1 \<longrightarrow> 0 \<le> inter_block_delta pkt (BLOCKS_PER_PACKET - 2)"
  shows "0 \<le> c_round (vlp_azimuth_corrected_f spec (real (unat (rotation (blocks pkt b))))
                (azimuth_diff_of pkt b) fs l)"
  using claimed_azimuth_corrected_f_nonneg [OF assms] entry_azimuth_close [OF assms(1-3), of pkt b]
  by (intro c_round_nonneg_half) linarith

lemma azimuth_corrected_f_fits:
  assumes "vlp_spec_plausible spec" "int l < lasers_per_firing_seq spec"
    "int fs < firing_seqs_per_block spec"
  shows "fits_int (c_round (vlp_azimuth_corrected_f spec (real (unat (rotation (blocks pkt b))))
                (azimuth_diff_of pkt b) fs l))"
proof -
  let ?az = "real (unat (rotation (blocks pkt b)))"
  let ?ad = "azimuth_diff_of pkt b"
  let ?f = "vlp_azimuth_corrected_f spec ?az ?ad fs l"
  let ?c = "claimed_azimuth_corrected_f spec ?az ?ad fs l"
  note az = rotation_real_range [of pkt b]
  have ad: "- 36000 \<le> ?ad" "?ad \<le> 36000"
    using azimuth_diff_of_range [of pkt b] by linarith+
  from az ad have "- 36000 \<le> min ?az (?az + ?ad)" "max ?az (?az + ?ad) \<le> 101535"
    by (auto simp: min_def max_def)
  with claimed_azimuth_corrected_f_between [OF assms, of ?az ?ad]
  have "- 101535 \<le> ?c" "?c \<le> 101535" by linarith+
  with entry_azimuth_close [OF assms, of pkt b]
  have "- real_of_int 101536 \<le> ?f" "?f \<le> real_of_int 101536" by linarith+
  from c_round_bounds [OF this] show ?thesis by (simp add: fits_int_def)
qed

lemma vlp_scan_rot_index:
  "vlp_scan hc rd pkt b az ad fs l k = Inl RotTableIndex \<Longrightarrow>
   c_round (vlp_azimuth_corrected_f (vlp_spec rd) az ad fs l) < 0"
proof -
  assume a: "vlp_scan hc rd pkt b az ad fs l k = Inl RotTableIndex"
  let ?f = "vlp_azimuth_corrected_f (vlp_spec rd) az ad fs l"
  have "vlp_point_time rd pkt b fs \<noteq> Inl RotTableIndex"
    by (auto simp: vlp_point_time_def time_plus_def Let_def)
  with a have "c_rem (c_round ?f) 36000 < 0 \<or> 36000 \<le> c_rem (c_round ?f) 36000"
    by (auto simp: vlp_scan_def Let_def ROTATION_MAX_UNITS_def split: option.splits if_splits sum.splits)
  with c_rem_range [of "c_round ?f"] have "c_rem (c_round ?f) 36000 < 0" by linarith
  then have "\<not> 0 \<le> c_round ?f" using c_rem_nonneg [of "c_round ?f"] by auto
  then show ?thesis by simp
qed

section \<open>Lemmas: decodable packets\<close>

lemma entry_index_fits:
  assumes "vlp_spec_plausible spec" "int l < lasers_per_firing_seq spec"
    "int fs < firing_seqs_per_block spec"
  shows "RAW_SCAN_SIZE * (fs * nat (lasers_per_firing_seq spec) + l) + 2 < BLOCK_DATA_SIZE"
proof -
  let ?n = "nat (lasers_per_firing_seq spec)"
  let ?m = "nat (firing_seqs_per_block spec)"
  have l: "l < ?n" and fs: "fs < ?m" using assms(2,3) by auto
  have "fs * ?n + l < Suc fs * ?n" using l by simp
  also have "\<dots> \<le> ?m * ?n" using fs by (intro mult_le_mono1) simp
  finally have "Suc (fs * ?n + l) \<le> ?m * ?n" by simp
  then have "RAW_SCAN_SIZE * Suc (fs * ?n + l) \<le> RAW_SCAN_SIZE * (?m * ?n)"
    by (rule mult_le_mono2)
  also have "\<dots> \<le> BLOCK_DATA_SIZE" using assms(1) by (simp add: vlp_spec_plausible_def)
  finally show ?thesis by (simp add: RAW_SCAN_SIZE_def)
qed

lemma vlp_scan_no_error:
  assumes plausible: "vlp_spec_plausible (vlp_spec rd)"
    and cal: "laser_corrections (calibration rd) l \<noteq> None"
    and l: "int l < lasers_per_firing_seq (vlp_spec rd)"
    and fs: "int fs < firing_seqs_per_block (vlp_spec rd)"
    and k: "k = RAW_SCAN_SIZE * (fs * nat (lasers_per_firing_seq (vlp_spec rd)) + l)"
    and f: "0 \<le> c_round (vlp_azimuth_corrected_f (vlp_spec rd) az ad fs l)"
    and fit: "fits_int (c_round (vlp_azimuth_corrected_f (vlp_spec rd) az ad fs l))"
    and time: "\<exists>t. vlp_point_time rd pkt b fs = Inr t"
  shows "\<exists>r. vlp_scan hc rd pkt b az ad fs l k = Inr r"
proof -
  let ?f = "vlp_azimuth_corrected_f (vlp_spec rd) az ad fs l"
  from cal obtain c where c: "laser_corrections (calibration rd) l = Some c" by auto
  from time obtain t where t: "vlp_point_time rd pkt b fs = Inr t" by auto
  have k2: "k + 2 < BLOCK_DATA_SIZE" unfolding k by (rule entry_index_fits [OF plausible l fs])
  have g: "lasers_per_firing (vlp_spec rd) \<noteq> 0" "block_duration (vlp_spec rd) \<noteq> 0"
    using plausible by (auto simp: vlp_spec_plausible_def)
  have idx: "0 \<le> c_rem (c_round ?f) 36000" "c_rem (c_round ?f) 36000 < 36000"
    using f c_rem_range [of "c_round ?f"] by (simp_all add: c_rem_nonneg)
  show ?thesis
    using c t k2 g idx fit
    by (simp add: vlp_scan_def Let_def ROTATION_MAX_UNITS_def)
qed

lemma vlp_block_entries_no_error':
  assumes p: "vlp_spec_plausible (vlp_spec rd)"
    and cal: "\<forall>l. int l < lasers_per_firing_seq (vlp_spec rd) \<longrightarrow>
               laser_corrections (calibration rd) l \<noteq> None"
    and time: "\<forall>fs. int fs < firing_seqs_per_block (vlp_spec rd) \<longrightarrow>
               (\<exists>t. vlp_point_time rd pkt b fs = Inr t)"
    and b: "b < BLOCKS_PER_PACKET"
    and last: "b = BLOCKS_PER_PACKET - 1 \<longrightarrow> 0 \<le> inter_block_delta pkt (BLOCKS_PER_PACKET - 2)"
  shows "Inl e \<notin> set (vlp_block_entries hc rd pkt b)"
proof
  assume "Inl e \<in> set (vlp_block_entries hc rd pkt b)"
  from vlp_block_entries_mem [OF this] obtain fs l k where
    fs: "int fs < firing_seqs_per_block (vlp_spec rd)"
    and l: "int l < lasers_per_firing_seq (vlp_spec rd)"
    and k: "k = RAW_SCAN_SIZE * (fs * nat (lasers_per_firing_seq (vlp_spec rd)) + l)"
    and e: "Inl e = vlp_scan hc rd pkt b (real (unat (rotation (blocks pkt b)))) (azimuth_diff_of pkt b) fs l k"
    by blast
  have c: "laser_corrections (calibration rd) l \<noteq> None" using cal l by simp
  have t: "\<exists>t. vlp_point_time rd pkt b fs = Inr t" using time fs by simp
  have "\<exists>r. vlp_scan hc rd pkt b (real (unat (rotation (blocks pkt b)))) (azimuth_diff_of pkt b) fs l k = Inr r"
    using p c l fs k _ _ t
  proof (rule vlp_scan_no_error)
    show "0 \<le> c_round (vlp_azimuth_corrected_f (vlp_spec rd)
                (real (unat (rotation (blocks pkt b)))) (azimuth_diff_of pkt b) fs l)"
      by (rule azimuth_corrected_round_nonneg [OF p l fs b last])
    show "fits_int (c_round (vlp_azimuth_corrected_f (vlp_spec rd) (real (unat (rotation (blocks pkt b))))
                (azimuth_diff_of pkt b) fs l))"
      by (rule azimuth_corrected_f_fits [OF p l fs])
  qed
  with e show False by auto
qed

lemma vlp_block_entries_no_error:
  assumes "vlp_decodable rd pkt" "b < BLOCKS_PER_PACKET"
  shows "Inl e \<notin> set (vlp_block_entries hc rd pkt b)"
  using assms by (intro vlp_block_entries_no_error') (simp_all add: vlp_decodable_def)

lemma vlp_entries_no_error:
  assumes "vlp_decodable rd pkt" "n \<le> BLOCKS_PER_PACKET"
  shows "Inl e \<notin> set (vlp_entries hc rd pkt n)"
  using vlp_block_entries_no_error [OF assms(1)] assms(2)
  by (auto simp: vlp_entries_def)

lemma legacy_scan_Inl:
  "legacy_scan hc rd pkt i bo j k = Inl e \<Longrightarrow>
   (e = OutOfRange \<and> laser_corrections (calibration rd) ((j + bo) mod 256) = None)
   \<or> (e = DataIndex \<and> BLOCK_DATA_SIZE \<le> k + 2)
   \<or> (e = RotTableIndex \<and> azimuth_in_window (config rd) (uint (rotation (blocks pkt i)))
        \<and> ROTATION_MAX_UNITS \<le> unat (rotation (blocks pkt i)))"
  by (auto simp: legacy_scan_def Let_def split: option.splits if_splits)

lemma legacy_scan_rot_index:
  assumes "laser_corrections (calibration rd) ((j + bo) mod 256) \<noteq> None" "k + 2 < BLOCK_DATA_SIZE"
    "azimuth_in_window (config rd) (uint (rotation (blocks pkt i)))"
    "ROTATION_MAX_UNITS \<le> unat (rotation (blocks pkt i))"
  shows "legacy_scan hc rd pkt i bo j k = Inl RotTableIndex"
  using assms by (auto simp: legacy_scan_def Let_def split: option.splits)

lemma legacy_entry_facts:
  assumes "i < BLOCKS_PER_PACKET" "j < SCANS_PER_BLOCK" "\<forall>l<64. laser_corrections (calibration rd) l \<noteq> None"
  shows "laser_corrections (calibration rd)
           ((j + (if header (blocks pkt i) = LOWER_BANK hc then 32 else 0)) mod 256) \<noteq> None"
    and "RAW_SCAN_SIZE * j + 2 < BLOCK_DATA_SIZE"
  using assms by (auto simp: SCANS_PER_BLOCK_def BLOCK_DATA_SIZE_def RAW_SCAN_SIZE_def)

lemma legacy_entries_Inl:
  assumes "\<forall>l<64. laser_corrections (calibration rd) l \<noteq> None"
    and "Inl e \<in> set (legacy_entries hc rd pkt)"
  shows "e = RotTableIndex \<and> (\<exists>i<BLOCKS_PER_PACKET.
           azimuth_in_window (config rd) (uint (rotation (blocks pkt i)))
           \<and> ROTATION_MAX_UNITS \<le> unat (rotation (blocks pkt i)))"
proof -
  from legacy_entries_mem [OF assms(2)] obtain i j where i: "i < BLOCKS_PER_PACKET"
    and j: "j < SCANS_PER_BLOCK"
    and e: "legacy_scan hc rd pkt i (if header (blocks pkt i) = LOWER_BANK hc then 32 else 0) j
              (RAW_SCAN_SIZE * j) = Inl e" by metis
  from legacy_scan_Inl [OF e] legacy_entry_facts(1) [OF i j assms(1), where pkt = pkt and hc = hc]
    legacy_entry_facts(2) [OF i j assms(1)] i
  show ?thesis by auto
qed


lemma append_scans_some_error:
  "Inl e \<in> set rs \<Longrightarrow> \<exists>e'. fst (append_scans rs pc) = Some e'"
  by (induction rs pc rule: append_scans.induct) auto

lemma legacy_entries_rot_index:
  assumes "\<forall>l<64. laser_corrections (calibration rd) l \<noteq> None" "i < BLOCKS_PER_PACKET"
    "azimuth_in_window (config rd) (uint (rotation (blocks pkt i)))"
    "ROTATION_MAX_UNITS \<le> unat (rotation (blocks pkt i))"
  shows "Inl RotTableIndex \<in> set (legacy_entries hc rd pkt)"
proof -
  have j: "0 < SCANS_PER_BLOCK" by (simp add: SCANS_PER_BLOCK_def)
  have "legacy_scan hc rd pkt i (if header (blocks pkt i) = LOWER_BANK hc then 32 else 0) 0
          (RAW_SCAN_SIZE * 0) = Inl RotTableIndex"
    using legacy_entry_facts(1) [OF assms(2) j assms(1), where pkt = pkt and hc = hc]
      legacy_entry_facts(2) [OF assms(2) j assms(1)] assms(3,4)
    by (intro legacy_scan_rot_index) simp_all
  then have "Inl RotTableIndex \<in> set (legacy_block_entries hc rd pkt i)"
    using j by (force simp: legacy_block_entries_def split del: if_split)
  with assms(2) show ?thesis by (auto simp: legacy_entries_def)
qed

lemma legacy_rot_index_iff:
  assumes "\<forall>l<64. laser_corrections (calibration rd) l \<noteq> None"
  shows "fst (legacy_blocks hc rd pkt 0 pc) = Inl RotTableIndex \<longleftrightarrow>
         (\<exists>i<BLOCKS_PER_PACKET. azimuth_in_window (config rd) (uint (rotation (blocks pkt i)))
            \<and> ROTATION_MAX_UNITS \<le> unat (rotation (blocks pkt i)))"
proof
  assume "fst (legacy_blocks hc rd pkt 0 pc) = Inl RotTableIndex"
  then have "fst (append_scans (legacy_entries hc rd pkt) pc) = Some RotTableIndex"
    by (auto simp: legacy_blocks_entries split: prod.splits option.splits)
  from append_scans_error [OF this] legacy_entries_Inl [OF assms]
  show "\<exists>i<BLOCKS_PER_PACKET. azimuth_in_window (config rd) (uint (rotation (blocks pkt i)))
            \<and> ROTATION_MAX_UNITS \<le> unat (rotation (blocks pkt i))" by blast
next
  assume "\<exists>i<BLOCKS_PER_PACKET. azimuth_in_window (config rd) (uint (rotation (blocks pkt i)))
            \<and> ROTATION_MAX_UNITS \<le> unat (rotation (blocks pkt i))"
  then have "Inl RotTableIndex \<in> set (legacy_entries hc rd pkt)"
    using legacy_entries_rot_index [OF assms] by blast
  from append_scans_some_error [OF this] obtain e' where
    e': "fst (append_scans (legacy_entries hc rd pkt) pc) = Some e'" by blast
  from append_scans_error [OF e'] legacy_entries_Inl [OF assms] have "e' = RotTableIndex" by blast
  with e' show "fst (legacy_blocks hc rd pkt 0 pc) = Inl RotTableIndex"
    by (auto simp: legacy_blocks_entries split: prod.splits option.splits)
qed

lemma unpack_vlp_no_rot_index:
  assumes "vlp_spec_plausible (vlp_spec rd)" "0 \<le> inter_block_delta pkt (BLOCKS_PER_PACKET - 2)"
  shows "fst (unpack_vlp hc rd pkt pc) \<noteq> Inl RotTableIndex"
proof
  assume a: "fst (unpack_vlp hc rd pkt pc) = Inl RotTableIndex"
  from unpack_vlp_entries [of pkt hc rd pc] obtain n where n: "n \<le> BLOCKS_PER_PACKET"
    and E: "unpack_vlp hc rd pkt pc =
         (case append_scans (vlp_entries hc rd pkt n) pc of
            (Some e, pc') \<Rightarrow> (Inl e, pc')
          | (None, pc') \<Rightarrow>
              (Inr (if n = BLOCKS_PER_PACKET then azimuth_sweep pkt BLOCKS_PER_PACKET else - 1), pc'))"
    by blast
  from a have "fst (append_scans (vlp_entries hc rd pkt n) pc) = Some RotTableIndex"
    unfolding E by (auto split: prod.splits option.splits)
  from append_scans_error [OF this] vlp_entries_mem obtain b where b: "b < n"
    and "Inl RotTableIndex \<in> set (vlp_block_entries hc rd pkt b)" by blast
  from vlp_block_entries_mem [OF this(2)] obtain fs l k where
    fs: "int fs < firing_seqs_per_block (vlp_spec rd)"
    and l: "int l < lasers_per_firing_seq (vlp_spec rd)"
    and e: "vlp_scan hc rd pkt b (real (unat (rotation (blocks pkt b)))) (azimuth_diff_of pkt b) fs l k
              = Inl RotTableIndex"
    by metis
  have "b < BLOCKS_PER_PACKET" using b n by simp
  from azimuth_corrected_round_nonneg [OF assms(1) l fs this, where pkt = pkt] assms(2)
    vlp_scan_rot_index [OF e]
  show False by simp
qed

section \<open>Lemmas: the formulas of the specification\<close>

lemma inter_block_delta_in_range:
  assumes "uint (rotation (blocks pkt b)) < 36000"
  shows "inter_block_delta pkt b
           = (36000 + uint (rotation (blocks pkt (b + 1))) - uint (rotation (blocks pkt b))) mod 36000"
proof -
  have "0 \<le> 36000 + uint (rotation (blocks pkt (b + 1))) - uint (rotation (blocks pkt b))"
    using assms uint16_range [of "rotation (blocks pkt (b + 1))"] by linarith
  then show ?thesis unfolding inter_block_delta_def by (rule c_rem_nonneg)
qed

lemma azimuth_diff_of_claimed:
  assumes "b < BLOCKS_PER_PACKET" "\<forall>b'<BLOCKS_PER_PACKET. uint (rotation (blocks pkt b')) < 36000"
  shows "azimuth_diff_of pkt b = real_of_int (claimed_azimuth_diff pkt b)"
proof (cases "b < BLOCKS_PER_PACKET - 1")
  case True
  with assms show ?thesis
    by (simp add: azimuth_diff_of_def claimed_azimuth_diff_def inter_block_delta_in_range
        del: of_int_uint)
next
  case False
  with assms(1) have b: "b = 11" by (simp add: BLOCKS_PER_PACKET_def)
  have "uint (rotation (blocks pkt 10)) < 36000" using assms(2) by (simp add: BLOCKS_PER_PACKET_def)
  from inter_block_delta_in_range [OF this] show ?thesis
    by (simp add: b azimuth_diff_of_def claimed_azimuth_diff_def BLOCKS_PER_PACKET_def
        del: of_int_uint)
qed

lemma claimed_azimuth_corrected_round:
  assumes "b < BLOCKS_PER_PACKET" "\<forall>b'<BLOCKS_PER_PACKET. uint (rotation (blocks pkt b')) < 36000"
  shows "claimed_azimuth_corrected spec pkt b s l
           = round (claimed_azimuth_corrected_f spec (real (unat (rotation (blocks pkt b))))
                      (azimuth_diff_of pkt b) s l) mod 36000"
  unfolding claimed_azimuth_corrected_def claimed_azimuth_corrected_f_def
    azimuth_diff_of_claimed [OF assms] real_unat_uint ..

lemma c_round_half:
  assumes "- (1 / 2) < v"
  shows "c_round v = \<lfloor>v + 1 / 2\<rfloor>"
proof (cases "0 \<le> v")
  case True
  then show ?thesis by (simp add: c_round_def)
next
  case False
  with assms have "\<lceil>v - 1 / 2\<rceil> = 0" "\<lfloor>v + 1 / 2\<rfloor> = 0"
    by (simp_all add: ceiling_eq_iff floor_eq_iff)
  with False show ?thesis by (simp add: c_round_def)
qed

text \<open>
  Two numbers that differ by less than the distance of one of them to the nearest
  half-integer round to the same integer.
\<close>

lemma round_stable:
  fixes f c :: real
  assumes "\<bar>f - c\<bar> \<le> e" "e < \<bar>c - of_int \<lfloor>c\<rfloor> - 1 / 2\<bar>"
  shows "\<lfloor>f + 1 / 2\<rfloor> = \<lfloor>c + 1 / 2\<rfloor>"
proof -
  define m where "m = \<lfloor>c\<rfloor>"
  have m: "of_int m \<le> c" "c < of_int m + 1" unfolding m_def by linarith+
  show ?thesis
  proof (cases "c - of_int m < 1 / 2")
    case True
    with assms m_def have "of_int m \<le> c + 1 / 2" "c + 1 / 2 < of_int m + 1"
      "of_int m \<le> f + 1 / 2" "f + 1 / 2 < of_int m + 1" using m by linarith+
    then have "\<lfloor>c + 1 / 2\<rfloor> = m" "\<lfloor>f + 1 / 2\<rfloor> = m" by (simp_all add: floor_eq_iff)
    then show ?thesis by simp
  next
    case False
    with assms m_def have "of_int (m + 1) \<le> c + 1 / 2" "c + 1 / 2 < of_int (m + 1) + 1"
      "of_int (m + 1) \<le> f + 1 / 2" "f + 1 / 2 < of_int (m + 1) + 1" using m by simp_all linarith+
    then have "\<lfloor>c + 1 / 2\<rfloor> = m + 1" "\<lfloor>f + 1 / 2\<rfloor> = m + 1" by (simp_all only: floor_eq_iff)
    then show ?thesis by simp
  qed
qed

lemma in_range_last_delta:
  assumes "\<forall>b'<BLOCKS_PER_PACKET. uint (rotation (blocks pkt b')) < 36000"
  shows "0 \<le> inter_block_delta pkt (BLOCKS_PER_PACKET - 2)"
proof -
  have "uint (rotation (blocks pkt 10)) < 36000" using assms by (simp add: BLOCKS_PER_PACKET_def)
  from inter_block_delta_in_range [OF this] show ?thesis by (simp add: BLOCKS_PER_PACKET_def)
qed

text \<open>
  Where the exactly interpolated azimuth is farther than \<open>1/32\<close> from a half-integer,
  the decoder's corrected azimuth is the one of the specification's formula.
\<close>

lemma azimuth_corrected_agrees:
  assumes "b < BLOCKS_PER_PACKET" "vlp_spec_plausible spec" "int l < lasers_per_firing_seq spec"
    "int s < firing_seqs_per_block spec"
    "\<forall>b'<BLOCKS_PER_PACKET. uint (rotation (blocks pkt b')) < 36000"
    and margin: "1 / 32 < \<bar>claimed_azimuth_corrected_f spec (real (unat (rotation (blocks pkt b))))
                             (azimuth_diff_of pkt b) s l
                          - of_int \<lfloor>claimed_azimuth_corrected_f spec
                               (real (unat (rotation (blocks pkt b)))) (azimuth_diff_of pkt b) s l\<rfloor>
                          - 1 / 2\<bar>"
  shows "c_rem (c_round (vlp_azimuth_corrected_f spec (real (unat (rotation (blocks pkt b))))
                  (azimuth_diff_of pkt b) s l)) 36000
         = claimed_azimuth_corrected spec pkt b s l"
proof -
  let ?f = "vlp_azimuth_corrected_f spec (real (unat (rotation (blocks pkt b)))) (azimuth_diff_of pkt b) s l"
  let ?c = "claimed_azimuth_corrected_f spec (real (unat (rotation (blocks pkt b)))) (azimuth_diff_of pkt b) s l"
  have last: "b = BLOCKS_PER_PACKET - 1 \<longrightarrow> 0 \<le> inter_block_delta pkt (BLOCKS_PER_PACKET - 2)"
    using in_range_last_delta [OF assms(5)] by simp
  have c0: "0 \<le> ?c" by (rule claimed_azimuth_corrected_f_nonneg [OF assms(2,3,4,1) last])
  have close: "\<bar>?f - ?c\<bar> \<le> 1 / 32" by (rule entry_azimuth_close [OF assms(2,3,4)])
  from c0 close have "- (1 / 2) < ?f" by linarith
  then have "c_round ?f = \<lfloor>?f + 1 / 2\<rfloor>" by (rule c_round_half)
  also have "\<dots> = \<lfloor>?c + 1 / 2\<rfloor>" using close margin by (rule round_stable)
  also have "\<dots> = round ?c" by (simp add: round_def)
  finally have r: "c_round ?f = round ?c" .
  have "0 \<le> round ?c" using c0 by (simp add: round_def)
  then have "c_rem (c_round ?f) 36000 = round ?c mod 36000"
    unfolding r by (rule c_rem_nonneg)
  then show ?thesis by (simp only: claimed_azimuth_corrected_round [OF assms(1,5)])
qed

text \<open>
  What an entry of the VLP path does with its corrected azimuth: it yields a point only
  if the azimuth passes the field-of-view test, and the point's coordinates are computed
  from the rotation tables at that azimuth.
\<close>

lemma vlp_scan_point:
  assumes "vlp_scan hc rd pkt b az ad s l k = Inr (Some p)"
  shows "azimuth_in_window (config rd)
           (c_rem (c_round (vlp_azimuth_corrected_f (vlp_spec rd) az ad s l)) 36000)"
    and "0 \<le> c_rem (c_round (vlp_azimuth_corrected_f (vlp_spec rd) az ad s l)) 36000"
    and "\<exists>c. laser_corrections (calibration rd) l = Some c
          \<and> pointInRange rd (real (two_bytes_uint (data (blocks pkt b) k) (data (blocks pkt b) (k + 1)))
                                * distance_resolution (vlp_spec rd) + dist_correction c)
          \<and> (point_x p, point_y p, point_z p)
             = point_xyz c
                 (real (two_bytes_uint (data (blocks pkt b) k) (data (blocks pkt b) (k + 1)))
                    * distance_resolution (vlp_spec rd) + dist_correction c)
                 (cos_rot_table rd
                    (nat (c_rem (c_round (vlp_azimuth_corrected_f (vlp_spec rd) az ad s l)) 36000)))
                 (sin_rot_table rd
                    (nat (c_rem (c_round (vlp_azimuth_corrected_f (vlp_spec rd) az ad s l)) 36000)))"
  using assms
  by (auto simp: vlp_scan_def Let_def split: option.splits if_splits sum.splits)

lemma vlp_scan_yields:
  assumes c: "laser_corrections (calibration rd) l = Some c"
    and k: "k + 2 < BLOCK_DATA_SIZE"
    and g: "lasers_per_firing (vlp_spec rd) \<noteq> 0" "block_duration (vlp_spec rd) \<noteq> 0"
    and fit: "fits_int (c_round (vlp_azimuth_corrected_f (vlp_spec rd) az ad s l))"
    and idx: "0 \<le> c_rem (c_round (vlp_azimuth_corrected_f (vlp_spec rd) az ad s l)) 36000"
    and win: "azimuth_in_window (config rd)
                (c_rem (c_round (vlp_azimuth_corrected_f (vlp_spec rd) az ad s l)) 36000)"
    and rng: "pointInRange rd (real (two_bytes_uint (data (blocks pkt b) k) (data (blocks pkt b) (k + 1)))
                                * distance_resolution (vlp_spec rd) + dist_correction c)"
    and time: "vlp_point_time rd pkt b s = Inr t"
  shows "\<exists>p. vlp_scan hc rd pkt b az ad s l k = Inr (Some p)"
  using assms c_rem_range [of "c_round (vlp_azimuth_corrected_f (vlp_spec rd) az ad s l)"]
  by (simp add: vlp_scan_def Let_def ROTATION_MAX_UNITS_def)



lemma scaled_square: "(256::real) * (1 - v) * (1 - v) = 256 * (1 - v)\<^sup>2"
  by (simp add: power2_eq_square)

lemma clamp_min_max:
  "(if (if v < mn then mn else v) > mx then mx else (if v < mn then mn else v))
     = min mx (max mn (v::real))"
  by (auto simp: min_def max_def)

lemma legacy_intensity_claimed:
  "legacy_intensity c d raw_intensity = claimed_intensity c d raw_intensity"
  unfolding legacy_intensity_def claimed_intensity_def Let_def scaled_square clamp_min_max ..

lemma vlp_intensity_claimed:
  assumes "d < 65536"
  shows "vlp_intensity c d raw_intensity
     = claimed_intensity c (if d = 65535 then 65535 else 0) raw_intensity"
proof -
  have "real_of_int (256 * (1 - c_div (int d) 65535) * (1 - c_div (int d) 65535))
        = 256 * (1 - real (if d = 65535 then 65535 else 0) / 65535)\<^sup>2"
    using assms by (simp add: c_div_nonneg)
  then show ?thesis
    unfolding vlp_intensity_def claimed_intensity_def Let_def scaled_square clamp_min_max
    by (simp only:)
qed

section \<open>Lemmas: the example inputs\<close>

lemmas example_defs =
  example_rawdata_def example_calibration_def example_correction_def example_config_def
  example_vlp16_def example_vlp32_def example_consts_def example_block_def example_pc_def
  example_packet_def example_point_def

lemmas scan_defs =
  vlp_scan_def legacy_scan_def BLOCK_DATA_SIZE_def SCANS_PER_BLOCK_def RAW_SCAN_SIZE_def
  two_bytes_uint_def vlp_azimuth_corrected_f_def c_div_def c_round_def c_rem_def fits_int_def
  azimuth_in_window_def ROTATION_MAX_UNITS_def ROTATION_RESOLUTION_def from_degrees_def
  point_xyz_def vlp_intensity_def legacy_intensity_def pointInRange_def vlp_point_time_def Let_def
  to_float_def round_float_numeral round_half_even_def

lemma example_vlp_scan:
  "vlp_scan example_consts (example_rawdata 0 36000 16 True) (example_packet 0) 0 0 0 0 0 0
     = Inr (Some example_point)"
  by (simp add: example_defs scan_defs)

lemma example_legacy_scan:
  "legacy_scan example_consts (example_rawdata 0 36000 64 False) (example_packet 0) 0 0 0 0
     = Inr (Some example_point)"
  by (simp add: example_defs scan_defs)

lemma example_vlp16_stored:
  "distance_resolution example_vlp16 = to_float (distance_resolution nominal_vlp16)"
  "firing_duration example_vlp16 = to_float (firing_duration nominal_vlp16)"
  "firing_seq_duration example_vlp16 = to_float (firing_seq_duration nominal_vlp16)"
  "block_duration example_vlp16 = to_float (block_duration nominal_vlp16)"
  by (simp_all add: example_vlp16_def nominal_vlp16_def to_float_def round_float_numeral
      round_half_even_def Let_def)

lemma example_vlp16_plausible: "vlp_spec_plausible example_vlp16"
  by (simp add: vlp_spec_plausible_def example_vlp16_def RAW_SCAN_SIZE_def BLOCK_DATA_SIZE_def
      SCANS_PER_BLOCK_def)

lemma example_vlp32_plausible: "vlp_spec_plausible example_vlp32"
  by (simp add: vlp_spec_plausible_def example_vlp32_def RAW_SCAN_SIZE_def BLOCK_DATA_SIZE_def
      SCANS_PER_BLOCK_def)

lemma wrapped_diff: "azimuth_diff_of wrapped_packet 11 = - 29535"
  by (simp add: azimuth_diff_of_def inter_block_delta_def BLOCKS_PER_PACKET_def wrapped_packet_def
      example_block_def c_rem_def)

lemma wrapped_scan_0:
  "vlp_scan example_consts (example_rawdata 27000 9000 16 True) wrapped_packet 11 0 (- 29535) 0 0 0
     = Inr (Some example_point)"
  by (simp add: example_defs scan_defs wrapped_packet_def)

lemma wrapped_scan_1:
  "vlp_scan example_consts (example_rawdata 27000 9000 16 True) wrapped_packet 11 0 (- 29535) 0 (Suc 0) 3
     = Inl RotTableIndex"
  by (simp add: example_defs scan_defs wrapped_packet_def)

lemma wrapped_index:
  "c_rem (c_round (vlp_azimuth_corrected_f example_vlp16 0 (- 29535) 0 1)) 36000 = - 615"
  by (simp add: example_defs scan_defs)

lemma upt_16: "[0..<16] = 0 # 1 # [2..<16]"
  by (simp add: upt_rec)

lemma wrapped_block_11:
  "\<exists>rest. vlp_block_entries example_consts (example_rawdata 27000 9000 16 True) wrapped_packet 11
     = Inr (Some example_point) # Inl RotTableIndex # rest"
proof -
  have spec: "vlp_spec (example_rawdata 27000 9000 16 True) = example_vlp16"
    by (simp add: example_rawdata_def)
  have n: "nat (lasers_per_firing_seq example_vlp16) = 16" "nat (firing_seqs_per_block example_vlp16) = 2"
    by (simp_all add: example_vlp16_def)
  have az: "real (unat (rotation (blocks wrapped_packet 11))) = 0"
    by (simp add: wrapped_packet_def example_block_def)
  have two: "[0..<2] = [0, 1]" by (simp add: upt_rec)
  show ?thesis
    unfolding vlp_block_entries_def vlp_seq_entries_def spec n az wrapped_diff two upt_16
    by (simp add: wrapped_scan_0 wrapped_scan_1 RAW_SCAN_SIZE_def del: upt_Suc)
qed

lemma wrapped_prefix:
  "fst (append_scans (vlp_entries example_consts (example_rawdata 27000 9000 16 True) wrapped_packet 11)
          pc) = None"
proof (rule append_scans_no_error)
  fix e
  have "Inl e \<notin> set (vlp_block_entries example_consts (example_rawdata 27000 9000 16 True)
                        wrapped_packet b)" if "b < 11" for b
  proof (rule vlp_block_entries_no_error')
    show "vlp_spec_plausible (vlp_spec (example_rawdata 27000 9000 16 True))"
      by (simp add: example_rawdata_def example_vlp16_plausible)
    show "\<forall>l. int l < lasers_per_firing_seq (vlp_spec (example_rawdata 27000 9000 16 True)) \<longrightarrow>
            laser_corrections (calibration (example_rawdata 27000 9000 16 True)) l \<noteq> None"
      by (simp add: example_rawdata_def example_calibration_def example_vlp16_def)
    show "\<forall>fs. int fs < firing_seqs_per_block (vlp_spec (example_rawdata 27000 9000 16 True)) \<longrightarrow>
            (\<exists>t. vlp_point_time (example_rawdata 27000 9000 16 True) wrapped_packet b fs = Inr t)"
      by (simp add: example_rawdata_def vlp_point_time_def)
    show "b < BLOCKS_PER_PACKET" using that by (simp add: BLOCKS_PER_PACKET_def)
    show "b = BLOCKS_PER_PACKET - 1 \<longrightarrow> 0 \<le> inter_block_delta wrapped_packet (BLOCKS_PER_PACKET - 2)"
      using that by (simp add: BLOCKS_PER_PACKET_def)
  qed
  then show "Inl e \<notin> set (vlp_entries example_consts (example_rawdata 27000 9000 16 True)
                        wrapped_packet 11)"
    by (auto simp: vlp_entries_def)
qed

lemma example_rawdata_simps:
  "vlp_spec (example_rawdata lo hi n vlp) = example_vlp16"
  "timing_offsets (example_rawdata lo hi n vlp) = []"
  "is_vlp (example_rawdata lo hi n vlp) = vlp"
  "config (example_rawdata lo hi n vlp) = example_config lo hi"
  "laser_corrections (calibration (example_rawdata lo hi n vlp)) l
     = (if l < n then Some example_correction else None)"
  by (simp_all add: example_rawdata_def example_calibration_def)

lemma example_vlp16_simps:
  "lasers_per_firing example_vlp16 = 1"
  "lasers_per_firing_seq example_vlp16 = 16"
  "firing_seqs_per_block example_vlp16 = 2"
  by (simp_all add: example_vlp16_def)

lemma example_vlp_decodable:
  "0 \<le> inter_block_delta pkt (BLOCKS_PER_PACKET - 2) \<Longrightarrow>
   vlp_decodable (example_rawdata lo hi 16 True) pkt"
  by (simp add: vlp_decodable_def example_rawdata_simps example_vlp16_plausible
      example_vlp16_simps vlp_point_time_def)

lemma tampered_decodable: "vlp_decodable (example_rawdata lo hi 16 True) tampered_packet"
  by (rule example_vlp_decodable)
     (simp add: inter_block_delta_def BLOCKS_PER_PACKET_def tampered_packet_def example_block_def
        c_rem_def)

lemma sweep_rotation: "b < 12 \<Longrightarrow> uint (rotation (blocks sweep_packet b)) = 100 * int b"
  by (simp add: sweep_packet_def example_block_def uint_word_ariths unsigned_of_nat take_bit_eq_mod)

lemma sweep_delta: "b < 11 \<Longrightarrow> inter_block_delta sweep_packet b = 100"
  by (simp add: inter_block_delta_def sweep_rotation c_rem_def)

lemma sweep_decodable: "vlp_decodable (example_rawdata lo hi 16 True) sweep_packet"
  by (rule example_vlp_decodable) (simp add: BLOCKS_PER_PACKET_def sweep_delta)


lemma sweep_in_range: "\<forall>b<BLOCKS_PER_PACKET. uint (rotation (blocks sweep_packet b)) < 36000"
  by (simp add: BLOCKS_PER_PACKET_def sweep_rotation)


lemma tampered_decode:
  "fst (unpack_vlp example_consts (example_rawdata 0 36000 16 True) tampered_packet example_pc)
     = Inr (- 1)
   \<and> length (points (snd (unpack_vlp example_consts (example_rawdata 0 36000 16 True)
        tampered_packet example_pc))) = 32
   \<and> set (points (snd (unpack_vlp example_consts (example_rawdata 0 36000 16 True)
        tampered_packet example_pc))) = {example_point}"
  by (simp add: unpack_vlp_def vlp_blocks.simps vlp_firing_seqs.simps vlp_lasers.simps
      block_azimuth_diff_def BLOCKS_PER_PACKET_def push_back_def
      example_defs scan_defs tampered_packet_def)

lemma tampered_decode_filtered:
  "unpack_vlp example_consts (example_rawdata 9000 27000 16 True) tampered_packet example_pc
     = (Inr (- 1), example_pc)"
  by (simp add: unpack_vlp_def vlp_blocks.simps vlp_firing_seqs.simps vlp_lasers.simps
      block_azimuth_diff_def BLOCKS_PER_PACKET_def push_back_def
      example_defs scan_defs tampered_packet_def)

lemma example_pc_points: "points example_pc = []"
  by (simp add: example_pc_def)

lemma stepped_72: "real (unat (rotation (blocks (stepped_packet 72) 0))) = 0"
  "azimuth_diff_of (stepped_packet 72) 0 = 72"
  "uint (rotation (blocks (stepped_packet 72) 0)) = 0"
  "claimed_azimuth_diff (stepped_packet 72) 0 = 72"
  by (simp_all add: azimuth_diff_of_def inter_block_delta_def claimed_azimuth_diff_def
      BLOCKS_PER_PACKET_def stepped_packet_def example_block_def c_rem_def)

lemma stepped_40: "real (unat (rotation (blocks (stepped_packet 40) 0))) = 0"
  "azimuth_diff_of (stepped_packet 40) 0 = 40"
  "uint (rotation (blocks (stepped_packet 40) 0)) = 0"
  "claimed_azimuth_diff (stepped_packet 40) 0 = 40"
  by (simp_all add: azimuth_diff_of_def inter_block_delta_def claimed_azimuth_diff_def
      BLOCKS_PER_PACKET_def stepped_packet_def example_block_def c_rem_def)

lemma sweep_3: "real (unat (rotation (blocks sweep_packet 3))) = 300"
  "azimuth_diff_of sweep_packet 3 = 100"
  by (simp_all add: azimuth_diff_of_def inter_block_delta_def BLOCKS_PER_PACKET_def
      sweep_packet_def example_block_def c_rem_def)

lemmas float_eval = to_float_def round_float_numeral round_half_even_def Let_def

lemma stepped_72_azimuth:
  "entry_azimuth_corrected (example_rawdata 2 36000 16 True) (stepped_packet 72) 0 0 1 = 2"
  unfolding entry_azimuth_corrected_def stepped_72
  by (simp add: example_rawdata_def example_vlp16_def vlp_azimuth_corrected_f_def c_div_def
      c_round_def c_rem_def float_eval)

lemma stepped_72_claimed:
  "claimed_azimuth_corrected example_vlp16 (stepped_packet 72) 0 0 1 = 1"
  unfolding claimed_azimuth_corrected_def stepped_72
  by (simp add: example_vlp16_def round_def)

lemma stepped_72_scan:
  "vlp_scan example_consts (example_rawdata 2 36000 16 True) (stepped_packet 72) 0
     (real (unat (rotation (blocks (stepped_packet 72) 0)))) (azimuth_diff_of (stepped_packet 72) 0)
     0 1 3 = Inr (Some example_point)"
  unfolding stepped_72
  by (simp add: example_rawdata_def example_vlp16_def example_defs scan_defs stepped_packet_def)

lemma stepped_40_azimuth:
  "entry_azimuth_corrected (example_rawdata 0 36000 16 True) (stepped_packet 40) 0 1 9 = 27"
  unfolding entry_azimuth_corrected_def stepped_40
  by (simp add: example_rawdata_def example_vlp16_def vlp_azimuth_corrected_f_def c_div_def
      c_round_def c_rem_def float_eval)

lemma stepped_40_claimed:
  "claimed_azimuth_corrected nominal_vlp16 (stepped_packet 40) 0 1 9 = 28"
  unfolding claimed_azimuth_corrected_def stepped_40
  by (simp add: nominal_vlp16_def round_def)

lemma sweep_3_scan:
  "vlp_scan example_consts (example_rawdata 0 36000 16 True) sweep_packet 3
     (real (unat (rotation (blocks sweep_packet 3)))) (azimuth_diff_of sweep_packet 3) 1 5 63
     = Inr (Some example_point)"
  unfolding sweep_3
  by (simp add: example_defs scan_defs sweep_packet_def)

lemma sweep_3_azimuth:
  "entry_azimuth_corrected (example_rawdata 0 36000 16 True) sweep_packet 3 1 5 = 360"
  unfolding entry_azimuth_corrected_def sweep_3
  by (simp add: example_rawdata_def example_vlp16_def vlp_azimuth_corrected_f_def c_div_def
      c_round_def c_rem_def float_eval)

lemma sweep_3_exact:
  "claimed_azimuth_corrected_f (vlp_spec (example_rawdata 0 36000 16 True))
     (real (unat (rotation (blocks sweep_packet 3)))) (azimuth_diff_of sweep_packet 3) 1 5
   = 2089770075 / 5798206"
  unfolding sweep_3
  by (simp add: example_rawdata_def example_vlp16_def claimed_azimuth_corrected_f_def)

lemma sweep_0: "real (unat (rotation (blocks sweep_packet 0))) = 0"
  "azimuth_diff_of sweep_packet 0 = 100"
  "uint (rotation (blocks sweep_packet 0)) = 0"
  "claimed_azimuth_diff sweep_packet 0 = 100"
  by (simp_all add: azimuth_diff_of_def inter_block_delta_def claimed_azimuth_diff_def
      BLOCKS_PER_PACKET_def sweep_packet_def example_block_def c_rem_def)

lemma sweep_0_azimuth:
  "entry_azimuth_corrected (example_rawdata 0 36000 16 True) sweep_packet 0 0 6 = 12"
  unfolding entry_azimuth_corrected_def sweep_0
  by (simp add: example_rawdata_def example_vlp16_def vlp_azimuth_corrected_f_def c_div_def
      c_round_def c_rem_def float_eval)

lemma sweep_0_claimed:
  "claimed_azimuth_corrected nominal_vlp16 sweep_packet 0 0 6 = 13"
  unfolding claimed_azimuth_corrected_def sweep_0
  by (simp add: nominal_vlp16_def round_def)

lemma fill_rot_tables_example:
  "fill_rot_tables 0 (\<lambda>i. cos (from_degrees (ROTATION_RESOLUTION * real i)),
                      \<lambda>i. sin (from_degrees (ROTATION_RESOLUTION * real i)))
     = (\<lambda>i. cos (from_degrees (ROTATION_RESOLUTION * real i)),
        \<lambda>i. sin (from_degrees (ROTATION_RESOLUTION * real i)))"
  by (simp add: fill_rot_tables_eq fun_eq_iff)

lemma example_setup_16:
  "RawData_setup example_consts [] (\<lambda>f. example_calibration 16) (example_nh None)
     (example_rawdata 0 36000 64 False) = (0, example_rawdata 0 36000 16 True)"
  by (simp add: RawData_setup_def example_nh_def example_rawdata_def example_calibration_def
      example_config_def example_consts_def fill_rot_tables_example Let_def)

lemma example_setup_32:
  "RawData_setup example_consts [] (\<lambda>f. example_calibration 32) (example_nh (Some ''VLP32''))
     (example_rawdata 0 36000 64 False) = (0, example_rawdata32)"
  by (simp add: RawData_setup_def example_nh_def example_rawdata_def example_calibration_def
      example_config_def example_consts_def fill_rot_tables_example Let_def example_rawdata32_def)

lemma example_rawdata32_simps:
  "config example_rawdata32 = (example_config 0 36000)\<lparr>deviceModel := ''VLP32''\<rparr>"
  "calibration example_rawdata32 = example_calibration 32"
  "vlp_spec example_rawdata32 = example_vlp32"
  "is_vlp example_rawdata32"
  "timing_offsets example_rawdata32 = getVLP32TimingOffsets example_consts"
  "cos_rot_table example_rawdata32 = (\<lambda>i. cos (from_degrees (ROTATION_RESOLUTION * real i)))"
  "sin_rot_table example_rawdata32 = (\<lambda>i. sin (from_degrees (ROTATION_RESOLUTION * real i)))"
  by (simp_all add: example_rawdata32_def example_rawdata_def)

lemma example_timing_nonempty: "getVLP32TimingOffsets example_consts \<noteq> []"
  using timing_offsets_length [of example_consts] by auto

lemma tampered_appended:
  "example_point \<in> set (appended example_pc
      (snd (unpackAndAdd example_consts (example_rawdata 0 36000 16 True) tampered_packet example_pc)))"
  by (simp add: appended_def example_pc_points unpackAndAdd_def example_rawdata_simps tampered_decode)

lemma less_12_cases:
  "b < 12 \<Longrightarrow> b = 0 \<or> b = 1 \<or> b = 2 \<or> b = 3 \<or> b = 4 \<or> b = 5 \<or> b = 6 \<or> b = 7 \<or> b = 8
     \<or> b = 9 \<or> b = 10 \<or> b = (11::nat)"
  by arith

lemma example_timing_offset:
  assumes "b < 12"
  shows "timing_offset example_consts b 0 = \<lparr>d_sec = 0, d_nsec = 55296 * int b\<rparr>"
  using less_12_cases [OF assms]
  by (elim disjE)
     (simp_all add: timing_offset_def Duration_of_def example_consts_def example_vlp32_def
        round_def Let_def)

lemma example_point_time_32:
  assumes "b < 12" "stamp pkt = \<lparr>sec = 1, nsec = 0\<rparr>"
  shows "vlp_point_time example_rawdata32 pkt b 0 = Inr \<lparr>sec = 1, nsec = 55296 * b\<rparr>"
proof -
  have "time_plus \<lparr>sec = 1, nsec = 0\<rparr> \<lparr>d_sec = 0, d_nsec = 55296 * int b\<rparr>
          = Inr \<lparr>sec = 1, nsec = 55296 * b\<rparr>"
    using less_12_cases [OF assms(1)] by (elim disjE) (simp_all add: time_plus_def)
  then show ?thesis
    using assms
    by (simp add: vlp_point_time_def example_rawdata32_simps example_timing_nonempty
        timing_offsets_length timing_offsets_nth example_timing_offset)
qed

lemma example_packet_simps:
  "stamp (example_packet r) = \<lparr>sec = 1, nsec = 0\<rparr>"
  "header (blocks (example_packet r) b) = UPPER_BANK example_consts"
  "rotation (blocks (example_packet r) b) = r"
  by (simp_all add: example_packet_def example_block_def example_consts_def)

lemma example_decodable_32: "vlp_decodable example_rawdata32 (example_packet 0)"
proof -
  have "\<exists>t. vlp_point_time example_rawdata32 (example_packet 0) b fs = Inr t"
    if "b < BLOCKS_PER_PACKET" "int fs < firing_seqs_per_block example_vlp32" for b fs
  proof -
    from that(2) have "fs = 0" by (simp add: example_vlp32_def)
    with that(1) example_point_time_32 [of b "example_packet 0"] show ?thesis
      by (simp add: BLOCKS_PER_PACKET_def example_packet_simps)
  qed
  moreover have "0 \<le> inter_block_delta (example_packet 0) (BLOCKS_PER_PACKET - 2)"
    by (simp add: inter_block_delta_def example_packet_simps c_rem_def)
  moreover have "laser_corrections (calibration example_rawdata32) l \<noteq> None"
    if "int l < lasers_per_firing_seq example_vlp32" for l
    using that by (simp add: example_rawdata32_simps example_calibration_def example_vlp32_def)
  ultimately show ?thesis
    by (simp add: vlp_decodable_def example_rawdata32_simps example_vlp32_plausible)
qed

lemma example_decoded_blocks: "decoded_blocks example_consts (example_packet r) = BLOCKS_PER_PACKET"
  by (rule decoded_blocks_eq) (simp_all add: example_packet_simps)

lemma late_scan:
  "vlp_scan example_consts example_rawdata32 (example_packet 0) 5
     (real (unat (rotation (blocks (example_packet 0) 5)))) (azimuth_diff_of (example_packet 0) 5)
     0 0 0 = Inr (Some late_point)"
proof -
  have t: "vlp_point_time example_rawdata32 pkt 5 0 = Inr \<lparr>sec = 1, nsec = 276480\<rparr>"
    if "stamp pkt = \<lparr>sec = 1, nsec = 0\<rparr>" for pkt
    using example_point_time_32 [of 5 pkt] that by simp
  have a: "real (unat (rotation (blocks (example_packet 0) 5))) = 0"
    "azimuth_diff_of (example_packet 0) 5 = 0"
    by (simp_all add: example_packet_simps azimuth_diff_of_def inter_block_delta_def c_rem_def)
  show ?thesis
    unfolding a
    by (simp add: vlp_scan_def t example_rawdata32_simps late_point_def
        example_calibration_def example_correction_def example_config_def
        example_vlp32_def example_block_def example_packet_def example_point_def
        BLOCK_DATA_SIZE_def SCANS_PER_BLOCK_def RAW_SCAN_SIZE_def
        two_bytes_uint_def vlp_azimuth_corrected_f_def c_div_def c_round_def c_rem_def fits_int_def
        azimuth_in_window_def ROTATION_MAX_UNITS_def ROTATION_RESOLUTION_def from_degrees_def
        point_xyz_def vlp_intensity_def pointInRange_def Let_def
        to_float_def round_float_numeral round_half_even_def)
qed

lemma late_entry:
  "late_point \<in> set (entry_points (vlp_entries example_consts example_rawdata32 (example_packet 0)
                                    BLOCKS_PER_PACKET))"
proof (rule entry_points_mem)
  fix e
  show "Inl e \<notin> set (vlp_entries example_consts example_rawdata32 (example_packet 0)
                        BLOCKS_PER_PACKET)"
    by (rule vlp_entries_no_error [OF example_decodable_32 le_refl])
  have "vlp_scan example_consts example_rawdata32 (example_packet 0) 5
     (real (unat (rotation (blocks (example_packet 0) 5)))) (azimuth_diff_of (example_packet 0) 5)
     0 0 (RAW_SCAN_SIZE * (0 * nat (lasers_per_firing_seq (vlp_spec example_rawdata32)) + 0))
     \<in> set (vlp_entries example_consts example_rawdata32 (example_packet 0) BLOCKS_PER_PACKET)"
    by (rule vlp_entries_member)
       (simp_all add: BLOCKS_PER_PACKET_def example_rawdata32_simps example_vlp32_def)
  then show "Inr (Some late_point)
     \<in> set (vlp_entries example_consts example_rawdata32 (example_packet 0) BLOCKS_PER_PACKET)"
    by (simp only: mult_0 add_0_right mult_0_right late_scan)
qed


lemma example_window_wraps:
  "azimuth_in_window (config (example_rawdata 27000 9000 64 False))
     (uint (rotation (blocks (example_packet 40000) 0)))
   \<and> ROTATION_MAX_UNITS \<le> unat (rotation (blocks (example_packet 40000) 0))"
  by (simp add: example_defs azimuth_in_window_def ROTATION_MAX_UNITS_def)

section \<open>The claims\<close>

subsection \<open>C1: a block with an invalid header\<close>

text \<open>
  Claim C1. When block \<open>n\<close> is the first block of a VLP16/VLP32 packet whose header
  differs from the upper-bank marker, the decode call stops there: it returns the
  failure signal \<open>- 1\<close>, unless an entry of an earlier block has already raised an
  error, and the points it has appended are the points of the entries of the blocks
  \<open>0, \<dots>, n - 1\<close>, which stay in the cloud. So the cloud is left as it was before
  the call if and only if those entries yield no point: when the first block is the
  malformed one, or when the field-of-view window and the range test drop every entry
  of the blocks before it.
\<close>

theorem unpack_vlp_invalid_header:
  assumes "n < BLOCKS_PER_PACKET" and "\<forall>b<n. header (blocks pkt b) = UPPER_BANK hc"
    and "header (blocks pkt n) \<noteq> UPPER_BANK hc"
  shows "unpack_vlp hc rd pkt pc =
           (case append_scans (vlp_entries hc rd pkt n) pc of
              (Some e, pc') \<Rightarrow> (Inl e, pc')
            | (None, pc') \<Rightarrow> (Inr (- 1), pc'))
       \<and> (vlp_decodable rd pkt \<longrightarrow>
            unpack_vlp hc rd pkt pc = (Inr (- 1), snd (append_scans (vlp_entries hc rd pkt n) pc)))
       \<and> (n = 0 \<longrightarrow> unpack_vlp hc rd pkt pc = (Inr (- 1), pc))
       \<and> appended pc (snd (unpack_vlp hc rd pkt pc)) = entry_points (vlp_entries hc rd pkt n)
       \<and> (snd (unpack_vlp hc rd pkt pc) = pc \<longleftrightarrow> entry_points (vlp_entries hc rd pkt n) = [])"
proof (intro conjI impI)
  show E: "unpack_vlp hc rd pkt pc =
           (case append_scans (vlp_entries hc rd pkt n) pc of
              (Some e, pc') \<Rightarrow> (Inl e, pc')
            | (None, pc') \<Rightarrow> (Inr (- 1), pc'))"
    by (rule unpack_vlp_first_bad [OF assms])
  have S: "snd (unpack_vlp hc rd pkt pc) = snd (append_scans (vlp_entries hc rd pkt n) pc)"
    unfolding E by (simp split: prod.splits option.splits)
  show "appended pc (snd (unpack_vlp hc rd pkt pc)) = entry_points (vlp_entries hc rd pkt n)"
    unfolding S by (rule appended_entry_points)
  show "snd (unpack_vlp hc rd pkt pc) = pc \<longleftrightarrow> entry_points (vlp_entries hc rd pkt n) = []"
    unfolding S by (rule append_scans_unchanged)
  {
    assume "vlp_decodable rd pkt"
    then have "fst (append_scans (vlp_entries hc rd pkt n) pc) = None"
      using assms(1) by (intro append_scans_no_error vlp_entries_no_error) simp_all
    then show "unpack_vlp hc rd pkt pc = (Inr (- 1), snd (append_scans (vlp_entries hc rd pkt n) pc))"
      unfolding E by (cases "append_scans (vlp_entries hc rd pkt n) pc") auto
  }
  {
    assume "n = 0"
    then show "unpack_vlp hc rd pkt pc = (Inr (- 1), pc)"
      unfolding E by (simp add: vlp_entries_def)
  }
qed

theorem unpack_vlp_invalid_header_witness:
  "(1::nat) < BLOCKS_PER_PACKET
   \<and> header (blocks tampered_packet 0) = UPPER_BANK example_consts
   \<and> header (blocks tampered_packet 1) \<noteq> UPPER_BANK example_consts
   \<and> vlp_decodable (example_rawdata 0 36000 16 True) tampered_packet
   \<and> unpack_vlp example_consts (example_rawdata 0 36000 16 True) tampered_packet example_pc
       = (Inr (- 1),
          snd (append_scans (vlp_entries example_consts (example_rawdata 0 36000 16 True)
                              tampered_packet 1) example_pc))
   \<and> length (entry_points (vlp_entries example_consts (example_rawdata 0 36000 16 True)
                tampered_packet 1)) = 32
   \<and> snd (unpack_vlp example_consts (example_rawdata 0 36000 16 True) tampered_packet example_pc)
       \<noteq> example_pc
   \<and> entry_points (vlp_entries example_consts (example_rawdata 9000 27000 16 True)
        tampered_packet 1) = []
   \<and> snd (unpack_vlp example_consts (example_rawdata 9000 27000 16 True) tampered_packet
            example_pc) = example_pc
   \<and> header (blocks rejected_packet 0) \<noteq> UPPER_BANK example_consts
   \<and> unpack_vlp example_consts (example_rawdata 0 36000 16 True) rejected_packet example_pc
       = (Inr (- 1), example_pc)"
proof -
  have n: "(1::nat) < BLOCKS_PER_PACKET" "(0::nat) < BLOCKS_PER_PACKET"
    by (simp_all add: BLOCKS_PER_PACKET_def)
  have t: "\<forall>b<1. header (blocks tampered_packet b) = UPPER_BANK example_consts"
    "header (blocks tampered_packet 1) \<noteq> UPPER_BANK example_consts"
    by (simp_all add: tampered_packet_def example_block_def example_consts_def)
  have t0: "header (blocks tampered_packet 0) = UPPER_BANK example_consts"
    using t(1) by simp
  have r: "\<forall>b<0. header (blocks rejected_packet b) = UPPER_BANK example_consts"
    "header (blocks rejected_packet 0) \<noteq> UPPER_BANK example_consts"
    by (simp_all add: rejected_packet_def example_block_def example_consts_def)
  note a = unpack_vlp_invalid_header [OF n(1) t, of "example_rawdata 0 36000 16 True" example_pc]
  note f = unpack_vlp_invalid_header [OF n(1) t, of "example_rawdata 9000 27000 16 True" example_pc]
  note b = unpack_vlp_invalid_header [OF n(2) r, of "example_rawdata 0 36000 16 True" example_pc]
  note d = tampered_decodable [of 0 36000]
  from a d
  have x: "unpack_vlp example_consts (example_rawdata 0 36000 16 True) tampered_packet example_pc
       = (Inr (- 1),
          snd (append_scans (vlp_entries example_consts (example_rawdata 0 36000 16 True)
                              tampered_packet 1) example_pc))"
    by blast
  from a have "appended example_pc (snd (unpack_vlp example_consts (example_rawdata 0 36000 16 True)
        tampered_packet example_pc))
      = entry_points (vlp_entries example_consts (example_rawdata 0 36000 16 True) tampered_packet 1)"
    by blast
  then have "entry_points (vlp_entries example_consts (example_rawdata 0 36000 16 True)
        tampered_packet 1)
      = points (snd (unpack_vlp example_consts (example_rawdata 0 36000 16 True)
          tampered_packet example_pc))"
    by (simp add: appended_def example_pc_points)
  with tampered_decode
  have l: "length (entry_points (vlp_entries example_consts (example_rawdata 0 36000 16 True)
                tampered_packet 1)) = 32"
    by simp
  then have "entry_points (vlp_entries example_consts (example_rawdata 0 36000 16 True)
                tampered_packet 1) \<noteq> []"
    by auto
  with a
  have c: "snd (unpack_vlp example_consts (example_rawdata 0 36000 16 True) tampered_packet
      example_pc) \<noteq> example_pc"
    by blast
  have u: "snd (unpack_vlp example_consts (example_rawdata 9000 27000 16 True) tampered_packet
            example_pc) = example_pc"
    by (simp add: tampered_decode_filtered)
  with f
  have e: "entry_points (vlp_entries example_consts (example_rawdata 9000 27000 16 True)
        tampered_packet 1) = []"
    by blast
  from b
  have y: "unpack_vlp example_consts (example_rawdata 0 36000 16 True) rejected_packet example_pc
       = (Inr (- 1), example_pc)"
    by blast
  show ?thesis
    by (intro conjI) (fact n(1) t0 t(2) d x l c e u r(2) y)+
qed

text \<open>
  A packet whose first block is valid and whose second block is not: the call returns
  \<open>- 1\<close> and the cloud, empty before the call, holds the 32 points of the first
  block.
\<close>

theorem tampered_packet_keeps_points:
  "header (blocks tampered_packet 0) = UPPER_BANK example_consts
   \<and> header (blocks tampered_packet 1) \<noteq> UPPER_BANK example_consts
   \<and> points example_pc = []
   \<and> fst (unpack_vlp example_consts (example_rawdata 0 36000 16 True) tampered_packet example_pc)
       = Inr (- 1)
   \<and> length (points (snd (unpack_vlp example_consts (example_rawdata 0 36000 16 True)
        tampered_packet example_pc))) = 32
   \<and> set (points (snd (unpack_vlp example_consts (example_rawdata 0 36000 16 True)
        tampered_packet example_pc))) = {example_point}"
proof -
  have "header (blocks tampered_packet 0) = UPPER_BANK example_consts"
    "header (blocks tampered_packet 1) \<noteq> UPPER_BANK example_consts"
    by (simp_all add: tampered_packet_def example_block_def example_consts_def)
  with example_pc_points tampered_decode show ?thesis by blast
qed

subsection \<open>C2: the intensity\<close>

text \<open>
  Claim C2. In both decode paths the intensity of a point is
  \<open>raw_intensity + focal_slope * \<bar>focal_offset - 256 * (1 - d / 65535)\<^sup>2\<bar>\<close> with
  \<open>focal_offset = 256 * (1 - focal_distance / 13100)\<^sup>2\<close>, clamped to the laser's
  \<open>[min_intensity, max_intensity]\<close>. The legacy path computes this formula
  (\<open>legacy_intensity_claimed\<close>). The VLP path divides the 16-bit distance by 65535 as
  integers, so it computes the formula at distance 0 for every raw distance but 65535
  (\<open>vlp_intensity_claimed\<close>). For the channel entry with the distance bytes
  \<open>0x00 0x80\<close> (\<open>d = 32768\<close>) and the intensity byte 0, the VLP path yields the
  intensity 0, while the legacy path and the formula yield
  \<open>824616943616 / 4294836225\<close>, about 192.
\<close>

theorem vlp_intensity_ignores_distance:
  "two_bytes_uint (data (blocks far_packet 0) 0) (data (blocks far_packet 0) 1) = 32768
   \<and> map_sum id (map_option point_intensity)
        (vlp_scan example_consts (example_rawdata 0 36000 16 True) far_packet 0 0 0 0 0 0)
       = Inr (Some 0)
   \<and> map_sum id (map_option point_intensity)
        (legacy_scan example_consts (example_rawdata 0 36000 64 False) far_packet 0 0 0 0)
       = Inr (Some (824616943616 / 4294836225))
   \<and> claimed_intensity example_correction 32768 0 = 824616943616 / 4294836225"
  by (simp add: example_defs scan_defs far_packet_def claimed_intensity_def power2_eq_square)

subsection \<open>C3: the corrected azimuth\<close>

text \<open>
  Claim C3. \<^verbatim>\<open>unpack_vlp\<close> decodes the entries of the blocks before the first invalid
  header. The entry of laser \<open>l\<close> in firing sequence \<open>s\<close> of block \<open>b\<close> yields a
  point only if its corrected azimuth \<open>entry_azimuth_corrected\<close> passes the
  field-of-view test, and the point's coordinates are computed from the rotation
  tables at that azimuth; in a decodable packet the entry yields a point exactly when
  the corrected azimuth passes the test and the distance is in range. The corrected
  azimuth is \<open>rotation b + azimuth_diff b * (\<lfloor>l / lasers_per_firing\<rfloor> *
  firing_duration + s * firing_seq_duration) / block_duration\<close>, evaluated in single
  precision, rounded and reduced by 36000. The azimuth difference of a block other than
  the last is the remainder of \<open>36000 + rotation (b + 1) - rotation b\<close> by 36000, the
  one of the last block is the difference of the block before it; for rotations below
  36000 the remainder is the mathematical \<open>mod\<close>. For a plausible profile the value
  in single precision is within \<open>1/32\<close> of the exactly evaluated expression, so the
  corrected azimuth is the one of the specification's formula wherever the exact value
  is farther than \<open>1/32\<close> from a half-integer.
\<close>

theorem vlp_corrected_azimuth:
  fixes pkt :: VelodynePacket
  shows
  "unpack_vlp hc rd pkt pc =
     (case append_scans (vlp_entries hc rd pkt (decoded_blocks hc pkt)) pc of
        (Some e, pc') \<Rightarrow> (Inl e, pc')
      | (None, pc') \<Rightarrow>
          (Inr (if decoded_blocks hc pkt = BLOCKS_PER_PACKET
                then azimuth_sweep pkt BLOCKS_PER_PACKET else - 1), pc'))
   \<and> (vlp_scan hc rd pkt b (real (unat (rotation (blocks pkt b)))) (azimuth_diff_of pkt b) s l k
        = Inr (Some p) \<longrightarrow>
        azimuth_in_window (config rd) (entry_azimuth_corrected rd pkt b s l)
        \<and> 0 \<le> entry_azimuth_corrected rd pkt b s l
        \<and> entry_azimuth_corrected rd pkt b s l < 36000
        \<and> (\<exists>c. laser_corrections (calibration rd) l = Some c
              \<and> (point_x p, point_y p, point_z p)
                 = point_xyz c
                     (real (two_bytes_uint (data (blocks pkt b) k) (data (blocks pkt b) (k + 1)))
                        * distance_resolution (vlp_spec rd) + dist_correction c)
                     (cos_rot_table rd (nat (entry_azimuth_corrected rd pkt b s l)))
                     (sin_rot_table rd (nat (entry_azimuth_corrected rd pkt b s l)))))
   \<and> (vlp_decodable rd pkt \<and> b < BLOCKS_PER_PACKET \<and> int s < firing_seqs_per_block (vlp_spec rd)
        \<and> int l < lasers_per_firing_seq (vlp_spec rd)
        \<and> k = RAW_SCAN_SIZE * (s * nat (lasers_per_firing_seq (vlp_spec rd)) + l) \<longrightarrow>
        ((\<exists>p. vlp_scan hc rd pkt b (real (unat (rotation (blocks pkt b)))) (azimuth_diff_of pkt b)
                 s l k = Inr (Some p))
         \<longleftrightarrow> azimuth_in_window (config rd) (entry_azimuth_corrected rd pkt b s l)
             \<and> (\<exists>c. laser_corrections (calibration rd) l = Some c
                   \<and> pointInRange rd
                       (real (two_bytes_uint (data (blocks pkt b) k) (data (blocks pkt b) (k + 1)))
                          * distance_resolution (vlp_spec rd) + dist_correction c))))
   \<and> (b < BLOCKS_PER_PACKET - 1 \<longrightarrow>
        azimuth_diff_of pkt b
          = real_of_int (c_rem (36000 + uint (rotation (blocks pkt (b + 1)))
                                - uint (rotation (blocks pkt b))) 36000))
   \<and> (b = BLOCKS_PER_PACKET - 1 \<longrightarrow> azimuth_diff_of pkt b = azimuth_diff_of pkt (b - 1))
   \<and> (b < BLOCKS_PER_PACKET \<and> (\<forall>b'<BLOCKS_PER_PACKET. uint (rotation (blocks pkt b')) < 36000) \<longrightarrow>
        azimuth_diff_of pkt b = real_of_int (claimed_azimuth_diff pkt b))
   \<and> (vlp_spec_plausible (vlp_spec rd) \<and> int l < lasers_per_firing_seq (vlp_spec rd)
        \<and> int s < firing_seqs_per_block (vlp_spec rd) \<longrightarrow>
        \<bar>vlp_azimuth_corrected_f (vlp_spec rd) (real (unat (rotation (blocks pkt b))))
            (azimuth_diff_of pkt b) s l
          - claimed_azimuth_corrected_f (vlp_spec rd) (real (unat (rotation (blocks pkt b))))
              (azimuth_diff_of pkt b) s l\<bar> \<le> 1 / 32)
   \<and> (b < BLOCKS_PER_PACKET \<and> vlp_spec_plausible (vlp_spec rd)
        \<and> int l < lasers_per_firing_seq (vlp_spec rd)
        \<and> int s < firing_seqs_per_block (vlp_spec rd)
        \<and> (\<forall>b'<BLOCKS_PER_PACKET. uint (rotation (blocks pkt b')) < 36000)
        \<and> 1 / 32 < \<bar>claimed_azimuth_corrected_f (vlp_spec rd)
                       (real (unat (rotation (blocks pkt b)))) (azimuth_diff_of pkt b) s l
                     - of_int \<lfloor>claimed_azimuth_corrected_f (vlp_spec rd)
                                (real (unat (rotation (blocks pkt b)))) (azimuth_diff_of pkt b) s l\<rfloor>
                     - 1 / 2\<bar> \<longrightarrow>
        entry_azimuth_corrected rd pkt b s l = claimed_azimuth_corrected (vlp_spec rd) pkt b s l)"
proof (intro conjI impI)
  show "unpack_vlp hc rd pkt pc =
     (case append_scans (vlp_entries hc rd pkt (decoded_blocks hc pkt)) pc of
        (Some e, pc') \<Rightarrow> (Inl e, pc')
      | (None, pc') \<Rightarrow>
          (Inr (if decoded_blocks hc pkt = BLOCKS_PER_PACKET
                then azimuth_sweep pkt BLOCKS_PER_PACKET else - 1), pc'))"
    by (rule unpack_vlp_closed)
next
  assume sc: "vlp_scan hc rd pkt b (real (unat (rotation (blocks pkt b)))) (azimuth_diff_of pkt b) s l k
        = Inr (Some p)"
  from vlp_scan_point(1) [OF sc]
  show "azimuth_in_window (config rd) (entry_azimuth_corrected rd pkt b s l)"
    by (simp only: entry_azimuth_corrected_def)
  from vlp_scan_point(2) [OF sc]
  show "0 \<le> entry_azimuth_corrected rd pkt b s l"
    by (simp only: entry_azimuth_corrected_def)
  show "entry_azimuth_corrected rd pkt b s l < 36000"
    unfolding entry_azimuth_corrected_def using c_rem_range by simp
  from vlp_scan_point(3) [OF sc]
  show "\<exists>c. laser_corrections (calibration rd) l = Some c
              \<and> (point_x p, point_y p, point_z p)
                 = point_xyz c
                     (real (two_bytes_uint (data (blocks pkt b) k) (data (blocks pkt b) (k + 1)))
                        * distance_resolution (vlp_spec rd) + dist_correction c)
                     (cos_rot_table rd (nat (entry_azimuth_corrected rd pkt b s l)))
                     (sin_rot_table rd (nat (entry_azimuth_corrected rd pkt b s l)))"
    unfolding entry_azimuth_corrected_def by blast
next
  assume a: "vlp_decodable rd pkt \<and> b < BLOCKS_PER_PACKET \<and> int s < firing_seqs_per_block (vlp_spec rd)
        \<and> int l < lasers_per_firing_seq (vlp_spec rd)
        \<and> k = RAW_SCAN_SIZE * (s * nat (lasers_per_firing_seq (vlp_spec rd)) + l)"
  let ?az = "real (unat (rotation (blocks pkt b)))" and ?ad = "azimuth_diff_of pkt b"
  let ?d = "\<lambda>c. real (two_bytes_uint (data (blocks pkt b) k) (data (blocks pkt b) (k + 1)))
                  * distance_resolution (vlp_spec rd) + dist_correction c"
  from a have p: "vlp_spec_plausible (vlp_spec rd)"
    and last: "b = BLOCKS_PER_PACKET - 1 \<longrightarrow> 0 \<le> inter_block_delta pkt (BLOCKS_PER_PACKET - 2)"
    and time: "\<exists>t. vlp_point_time rd pkt b s = Inr t"
    and b: "b < BLOCKS_PER_PACKET" and s: "int s < firing_seqs_per_block (vlp_spec rd)"
    and l: "int l < lasers_per_firing_seq (vlp_spec rd)"
    and k: "k = RAW_SCAN_SIZE * (s * nat (lasers_per_firing_seq (vlp_spec rd)) + l)"
    by (simp_all add: vlp_decodable_def)
  show "(\<exists>p. vlp_scan hc rd pkt b ?az ?ad s l k = Inr (Some p))
         \<longleftrightarrow> azimuth_in_window (config rd) (entry_azimuth_corrected rd pkt b s l)
             \<and> (\<exists>c. laser_corrections (calibration rd) l = Some c \<and> pointInRange rd (?d c))"
  proof
    assume "\<exists>p. vlp_scan hc rd pkt b ?az ?ad s l k = Inr (Some p)"
    then obtain p where sc: "vlp_scan hc rd pkt b ?az ?ad s l k = Inr (Some p)" by blast
    from vlp_scan_point(1,3) [OF sc]
    show "azimuth_in_window (config rd) (entry_azimuth_corrected rd pkt b s l)
             \<and> (\<exists>c. laser_corrections (calibration rd) l = Some c \<and> pointInRange rd (?d c))"
      unfolding entry_azimuth_corrected_def by blast
  next
    assume r: "azimuth_in_window (config rd) (entry_azimuth_corrected rd pkt b s l)
             \<and> (\<exists>c. laser_corrections (calibration rd) l = Some c \<and> pointInRange rd (?d c))"
    then obtain c where c: "laser_corrections (calibration rd) l = Some c"
      and rng: "pointInRange rd (?d c)" by blast
    from time obtain t where t: "vlp_point_time rd pkt b s = Inr t" by blast
    have k2: "k + 2 < BLOCK_DATA_SIZE" unfolding k by (rule entry_index_fits [OF p l s])
    have g: "lasers_per_firing (vlp_spec rd) \<noteq> 0" "block_duration (vlp_spec rd) \<noteq> 0"
      using p by (auto simp: vlp_spec_plausible_def)
    have fit: "fits_int (c_round (vlp_azimuth_corrected_f (vlp_spec rd) ?az ?ad s l))"
      by (rule azimuth_corrected_f_fits [OF p l s])
    have "0 \<le> c_round (vlp_azimuth_corrected_f (vlp_spec rd) ?az ?ad s l)"
      by (rule azimuth_corrected_round_nonneg [OF p l s b last])
    then have idx: "0 \<le> c_rem (c_round (vlp_azimuth_corrected_f (vlp_spec rd) ?az ?ad s l)) 36000"
      by (simp add: c_rem_nonneg)
    from r have win: "azimuth_in_window (config rd)
        (c_rem (c_round (vlp_azimuth_corrected_f (vlp_spec rd) ?az ?ad s l)) 36000)"
      by (simp only: entry_azimuth_corrected_def)
    show "\<exists>p. vlp_scan hc rd pkt b ?az ?ad s l k = Inr (Some p)"
      by (rule vlp_scan_yields [OF c k2 g fit idx win rng t])
  qed
next
  assume "b < BLOCKS_PER_PACKET - 1"
  then show "azimuth_diff_of pkt b
          = real_of_int (c_rem (36000 + uint (rotation (blocks pkt (b + 1)))
                                - uint (rotation (blocks pkt b))) 36000)"
    by (simp add: azimuth_diff_of_def inter_block_delta_def)
next
  assume "b = BLOCKS_PER_PACKET - 1"
  then show "azimuth_diff_of pkt b = azimuth_diff_of pkt (b - 1)"
    by (simp add: azimuth_diff_of_def BLOCKS_PER_PACKET_def)
next
  assume "b < BLOCKS_PER_PACKET \<and> (\<forall>b'<BLOCKS_PER_PACKET. uint (rotation (blocks pkt b')) < 36000)"
  then show "azimuth_diff_of pkt b = real_of_int (claimed_azimuth_diff pkt b)"
    by (intro azimuth_diff_of_claimed) simp_all
next
  assume "vlp_spec_plausible (vlp_spec rd) \<and> int l < lasers_per_firing_seq (vlp_spec rd)
        \<and> int s < firing_seqs_per_block (vlp_spec rd)"
  then show "\<bar>vlp_azimuth_corrected_f (vlp_spec rd) (real (unat (rotation (blocks pkt b))))
            (azimuth_diff_of pkt b) s l
          - claimed_azimuth_corrected_f (vlp_spec rd) (real (unat (rotation (blocks pkt b))))
              (azimuth_diff_of pkt b) s l\<bar> \<le> 1 / 32"
    by (intro entry_azimuth_close) simp_all
next
  assume "b < BLOCKS_PER_PACKET \<and> vlp_spec_plausible (vlp_spec rd)
        \<and> int l < lasers_per_firing_seq (vlp_spec rd)
        \<and> int s < firing_seqs_per_block (vlp_spec rd)
        \<and> (\<forall>b'<BLOCKS_PER_PACKET. uint (rotation (blocks pkt b')) < 36000)
        \<and> 1 / 32 < \<bar>claimed_azimuth_corrected_f (vlp_spec rd)
                       (real (unat (rotation (blocks pkt b)))) (azimuth_diff_of pkt b) s l
                     - of_int \<lfloor>claimed_azimuth_corrected_f (vlp_spec rd)
                                (real (unat (rotation (blocks pkt b)))) (azimuth_diff_of pkt b) s l\<rfloor>
                     - 1 / 2\<bar>"
  then show "entry_azimuth_corrected rd pkt b s l = claimed_azimuth_corrected (vlp_spec rd) pkt b s l"
    unfolding entry_azimuth_corrected_def by (intro azimuth_corrected_agrees) simp_all
qed

theorem vlp_corrected_azimuth_witness:
  "vlp_scan example_consts (example_rawdata 0 36000 16 True) sweep_packet 3
     (real (unat (rotation (blocks sweep_packet 3)))) (azimuth_diff_of sweep_packet 3) 1 5 63
     = Inr (Some example_point)
   \<and> azimuth_in_window (config (example_rawdata 0 36000 16 True))
        (entry_azimuth_corrected (example_rawdata 0 36000 16 True) sweep_packet 3 1 5)
   \<and> vlp_decodable (example_rawdata 0 36000 16 True) sweep_packet
   \<and> (\<exists>c. laser_corrections (calibration (example_rawdata 0 36000 16 True)) 5 = Some c
         \<and> pointInRange (example_rawdata 0 36000 16 True)
              (real (two_bytes_uint (data (blocks sweep_packet 3) 63) (data (blocks sweep_packet 3) (63 + 1)))
                 * distance_resolution (vlp_spec (example_rawdata 0 36000 16 True))
               + dist_correction c))
   \<and> azimuth_diff_of sweep_packet 3
       = real_of_int (c_rem (36000 + uint (rotation (blocks sweep_packet (3 + 1)))
                             - uint (rotation (blocks sweep_packet 3))) 36000)
   \<and> azimuth_diff_of sweep_packet 3 = 100
   \<and> azimuth_diff_of sweep_packet 11 = azimuth_diff_of sweep_packet (11 - 1)
   \<and> azimuth_diff_of sweep_packet 3 = real_of_int (claimed_azimuth_diff sweep_packet 3)
   \<and> vlp_spec_plausible (vlp_spec (example_rawdata 0 36000 16 True))
   \<and> \<bar>vlp_azimuth_corrected_f (vlp_spec (example_rawdata 0 36000 16 True))
          (real (unat (rotation (blocks sweep_packet 3)))) (azimuth_diff_of sweep_packet 3) 1 5
        - claimed_azimuth_corrected_f (vlp_spec (example_rawdata 0 36000 16 True))
            (real (unat (rotation (blocks sweep_packet 3)))) (azimuth_diff_of sweep_packet 3) 1 5\<bar>
       \<le> 1 / 32
   \<and> entry_azimuth_corrected (example_rawdata 0 36000 16 True) sweep_packet 3 1 5
       = claimed_azimuth_corrected (vlp_spec (example_rawdata 0 36000 16 True)) sweep_packet 3 1 5
   \<and> entry_azimuth_corrected (example_rawdata 0 36000 16 True) sweep_packet 3 1 5 = 360"
proof -
  let ?rd = "example_rawdata 0 36000 16 True"
  note w = vlp_corrected_azimuth [where hc = example_consts and rd = ?rd and pkt = sweep_packet
      and pc = example_pc and s = 1 and l = 5 and k = 63 and p = example_point]
  note sc = sweep_3_scan
  note d = sweep_decodable [of 0 36000]
  have p: "vlp_spec_plausible (vlp_spec ?rd)"
    by (simp add: example_rawdata_simps example_vlp16_plausible)
  have r: "(3::nat) < BLOCKS_PER_PACKET" "(3::nat) < BLOCKS_PER_PACKET - 1"
    "(11::nat) = BLOCKS_PER_PACKET - 1"
    "int 5 < lasers_per_firing_seq (vlp_spec ?rd)"
    "int 1 < firing_seqs_per_block (vlp_spec ?rd)"
    "(63::nat) = RAW_SCAN_SIZE * (1 * nat (lasers_per_firing_seq (vlp_spec ?rd)) + 5)"
    by (simp_all add: BLOCKS_PER_PACKET_def RAW_SCAN_SIZE_def example_rawdata_simps
        example_vlp16_simps)
  note i = sweep_in_range
  have m: "1 / 32 < \<bar>claimed_azimuth_corrected_f (vlp_spec ?rd)
                       (real (unat (rotation (blocks sweep_packet 3))))
                       (azimuth_diff_of sweep_packet 3) 1 5
                     - of_int \<lfloor>claimed_azimuth_corrected_f (vlp_spec ?rd)
                                (real (unat (rotation (blocks sweep_packet 3))))
                                (azimuth_diff_of sweep_packet 3) 1 5\<rfloor>
                     - 1 / 2\<bar>"
    unfolding sweep_3_exact by simp
  from w [where b = 3] sc
  have win: "azimuth_in_window (config ?rd) (entry_azimuth_corrected ?rd sweep_packet 3 1 5)"
    by blast
  from w [where b = 3] sc d r
  have rng: "\<exists>c. laser_corrections (calibration ?rd) 5 = Some c
         \<and> pointInRange ?rd
              (real (two_bytes_uint (data (blocks sweep_packet 3) 63) (data (blocks sweep_packet 3) (63 + 1)))
                 * distance_resolution (vlp_spec ?rd) + dist_correction c)"
    by blast
  from w [where b = 3] r
  have d3: "azimuth_diff_of sweep_packet 3
       = real_of_int (c_rem (36000 + uint (rotation (blocks sweep_packet (3 + 1)))
                             - uint (rotation (blocks sweep_packet 3))) 36000)"
    by blast
  from w [where b = 11] r
  have d11: "azimuth_diff_of sweep_packet 11 = azimuth_diff_of sweep_packet (11 - 1)"
    by blast
  from w [where b = 3] r i
  have dc: "azimuth_diff_of sweep_packet 3 = real_of_int (claimed_azimuth_diff sweep_packet 3)"
    by blast
  from w [where b = 3] p r
  have cl: "\<bar>vlp_azimuth_corrected_f (vlp_spec ?rd)
          (real (unat (rotation (blocks sweep_packet 3)))) (azimuth_diff_of sweep_packet 3) 1 5
        - claimed_azimuth_corrected_f (vlp_spec ?rd)
            (real (unat (rotation (blocks sweep_packet 3)))) (azimuth_diff_of sweep_packet 3) 1 5\<bar>
       \<le> 1 / 32"
    by blast
  from w [where b = 3] p r i m
  have eq: "entry_azimuth_corrected ?rd sweep_packet 3 1 5
       = claimed_azimuth_corrected (vlp_spec ?rd) sweep_packet 3 1 5"
    by blast
  show ?thesis
    by (intro conjI) (fact sc win d rng d3 sweep_3(2) d11 dc p cl eq sweep_3_azimuth)+
qed

text \<open>
  Near a half-integer the two differ. With an azimuth difference of 72 the second laser
  of the first firing sequence has the corrected azimuth 2, and its entry yields a
  point through a window that begins at 2, where the formula of the specification,
  evaluated exactly on the same profile, gives 1. With the azimuth differences 40 and
  100 the decoder has the corrected azimuths 27 and 12 where the formula, evaluated at
  the nominal constants 2.304, 55.296 and 110.592, gives 28 and 13.
\<close>

theorem single_precision_azimuth_differs:
  "firing_duration example_vlp16 = to_float (firing_duration nominal_vlp16)
   \<and> firing_seq_duration example_vlp16 = to_float (firing_seq_duration nominal_vlp16)
   \<and> block_duration example_vlp16 = to_float (block_duration nominal_vlp16)
   \<and> vlp_spec (example_rawdata 2 36000 16 True) = example_vlp16
   \<and> entry_azimuth_corrected (example_rawdata 2 36000 16 True) (stepped_packet 72) 0 0 1 = 2
   \<and> claimed_azimuth_corrected example_vlp16 (stepped_packet 72) 0 0 1 = 1
   \<and> vlp_scan example_consts (example_rawdata 2 36000 16 True) (stepped_packet 72) 0
        (real (unat (rotation (blocks (stepped_packet 72) 0))))
        (azimuth_diff_of (stepped_packet 72) 0) 0 1 3 = Inr (Some example_point)
   \<and> \<not> azimuth_in_window (config (example_rawdata 2 36000 16 True)) 1
   \<and> entry_azimuth_corrected (example_rawdata 0 36000 16 True) (stepped_packet 40) 0 1 9 = 27
   \<and> claimed_azimuth_corrected nominal_vlp16 (stepped_packet 40) 0 1 9 = 28
   \<and> entry_azimuth_corrected (example_rawdata 0 36000 16 True) sweep_packet 0 0 6 = 12
   \<and> claimed_azimuth_corrected nominal_vlp16 sweep_packet 0 0 6 = 13"
proof -
  have s: "vlp_spec (example_rawdata 2 36000 16 True) = example_vlp16"
    by (simp add: example_rawdata_simps)
  have w: "\<not> azimuth_in_window (config (example_rawdata 2 36000 16 True)) 1"
    by (simp add: example_rawdata_simps example_config_def azimuth_in_window_def)
  show ?thesis
    by (intro conjI)
       (fact example_vlp16_stored s stepped_72_azimuth stepped_72_claimed stepped_72_scan w
          stepped_40_azimuth stepped_40_claimed sweep_0_azimuth sweep_0_claimed)+
qed

subsection \<open>C4: the returned number\<close>



subsection \<open>C5: the azimuth window\<close>

text \<open>
  Claim C5. In both decode paths the azimuth test accepts \<open>a\<close>, for a window with
  \<open>min_angle < max_angle\<close>, exactly when \<open>min_angle \<le> a \<le> max_angle\<close>, and for a
  window with \<open>min_angle > max_angle\<close> exactly when \<open>a \<le> max_angle\<close> or
  \<open>a \<ge> min_angle\<close>. The test is \<open>azimuth_in_window\<close>; an entry of the legacy path
  yields a point only if the block's rotation passes it, an entry of the VLP path only
  if the corrected azimuth passes it. The equivalences hold for every integer \<open>a\<close>,
  so for every azimuth in \<open>[0, 36000)\<close>.
\<close>

theorem azimuth_window_acceptance:
  "(min_angle c < max_angle c \<longrightarrow>
      (azimuth_in_window c a \<longleftrightarrow> min_angle c \<le> a \<and> a \<le> max_angle c))
   \<and> (min_angle c > max_angle c \<longrightarrow>
      (azimuth_in_window c a \<longleftrightarrow> a \<le> max_angle c \<or> a \<ge> min_angle c))
   \<and> (legacy_scan hc rd pkt i bo j k = Inr (Some p) \<longrightarrow>
        azimuth_in_window (config rd) (uint (rotation (blocks pkt i))))
   \<and> (vlp_scan hc rd pkt i az ad fs l k = Inr (Some p) \<longrightarrow>
        azimuth_in_window (config rd)
          (c_rem (c_round (vlp_azimuth_corrected_f (vlp_spec rd) az ad fs l)) 36000))"
  by (auto simp: azimuth_in_window_def legacy_scan_def vlp_scan_def Let_def
      split: option.splits if_splits sum.splits)

theorem azimuth_window_acceptance_witness:
  "min_angle (example_config 9000 27000) < max_angle (example_config 9000 27000)
   \<and> azimuth_in_window (example_config 9000 27000) 9000
   \<and> azimuth_in_window (example_config 9000 27000) 27000
   \<and> \<not> azimuth_in_window (example_config 9000 27000) 27001
   \<and> min_angle (example_config 27000 9000) > max_angle (example_config 27000 9000)
   \<and> azimuth_in_window (example_config 27000 9000) 0
   \<and> azimuth_in_window (example_config 27000 9000) 35999
   \<and> \<not> azimuth_in_window (example_config 27000 9000) 18000
   \<and> legacy_scan example_consts (example_rawdata 0 36000 64 False) (example_packet 0) 0 0 0 0
       = Inr (Some example_point)
   \<and> azimuth_in_window (config (example_rawdata 0 36000 64 False))
        (uint (rotation (blocks (example_packet 0) 0)))
   \<and> vlp_scan example_consts (example_rawdata 0 36000 16 True) (example_packet 0) 0 0 0 0 0 0
       = Inr (Some example_point)
   \<and> azimuth_in_window (config (example_rawdata 0 36000 16 True))
        (c_rem (c_round (vlp_azimuth_corrected_f (vlp_spec (example_rawdata 0 36000 16 True))
                          0 0 0 0)) 36000)"
proof -
  have lo_hi: "min_angle (example_config 9000 27000) < max_angle (example_config 9000 27000)"
    and hi_lo: "min_angle (example_config 27000 9000) > max_angle (example_config 27000 9000)"
    by (simp_all add: example_config_def)
  note w = azimuth_window_acceptance [where c = "example_config 9000 27000"
      and hc = example_consts and rd = "example_rawdata 0 36000 64 False"
      and pkt = "example_packet 0" and i = 0 and bo = 0 and j = 0 and k = 0 and p = example_point
      and az = 0 and ad = 0 and fs = 0 and l = 0]
  note v = azimuth_window_acceptance [where c = "example_config 27000 9000"
      and hc = example_consts and rd = "example_rawdata 0 36000 16 True"
      and pkt = "example_packet 0" and i = 0 and bo = 0 and j = 0 and k = 0 and p = example_point
      and az = 0 and ad = 0 and fs = 0 and l = 0]
  from w [where a = 9000] w [where a = 27000] w [where a = 27001]
    v [where a = 0] v [where a = 35999] v [where a = 18000]
    lo_hi hi_lo example_legacy_scan example_vlp_scan
  show ?thesis by (simp add: example_config_def)
qed

subsection \<open>C6: the collapsed window\<close>

text \<open>
  Claim C6. Whenever the two integer bounds that \<^verbatim>\<open>setParameters\<close> derives from
  \<open>view_direction\<close> and \<open>view_width\<close> come out equal, the window is widened to the
  full circle, \<open>min_angle = 0\<close> and \<open>max_angle = 36000\<close>; this is the case for
  \<open>view_direction = 0\<close> and \<open>view_width = 0\<close>, where both derived bounds are 36000.
\<close>

lemma positive_modulo_0: "positive_modulo 0 = 0"
  by (simp add: positive_modulo_def fmod_def c_trunc_def)

lemma hardware_angle_0: "hardware_angle 0 = 36000"
  by (simp add: hardware_angle_def c_trunc_def)

theorem setParameters_collapsed_window:
  "(hardware_angle (positive_modulo (view_direction + view_width / 2))
      = hardware_angle (positive_modulo (view_direction - view_width / 2)) \<longrightarrow>
      min_angle (config (setParameters mn mx view_direction view_width rd)) = 0
      \<and> max_angle (config (setParameters mn mx view_direction view_width rd)) = 36000)
   \<and> hardware_angle (positive_modulo (0 + 0 / 2)) = 36000
   \<and> hardware_angle (positive_modulo (0 - 0 / 2)) = 36000
   \<and> min_angle (config (setParameters mn mx 0 0 rd)) = 0
   \<and> max_angle (config (setParameters mn mx 0 0 rd)) = 36000"
  by (simp add: setParameters_def Let_def positive_modulo_0 hardware_angle_0)

theorem setParameters_collapsed_window_witness:
  "hardware_angle (positive_modulo (0 + 0 / 2)) = hardware_angle (positive_modulo (0 - 0 / 2))
   \<and> min_angle (config (setParameters 0.4 130 0 0 (example_rawdata 9000 27000 64 False))) = 0
   \<and> max_angle (config (setParameters 0.4 130 0 0 (example_rawdata 9000 27000 64 False))) = 36000"
  using setParameters_collapsed_window [of 0 0 "0.4" 130 "example_rawdata 9000 27000 64 False"]
  by simp

subsection \<open>C7: the VLP32 timing table\<close>

text \<open>
  Claim C7. \<^verbatim>\<open>getVLP32TimingOffsets\<close> returns a table of 12 rows of 32 entries; the
  entry at row \<open>i\<close> and slot \<open>j\<close> is the duration of
  \<open>firing_seq_duration * i + firing_duration * (j div 2)\<close> seconds, the two
  durations being the microsecond constants of the VLP32 profile times \<open>10\<^sup>-\<^sup>6\<close>.
\<close>

theorem timing_offsets_table:
  "length (getVLP32TimingOffsets hc) = 12
   \<and> (\<forall>i<12. length (getVLP32TimingOffsets hc ! i) = 32)
   \<and> (\<forall>i<12. \<forall>j<32. getVLP32TimingOffsets hc ! i ! j =
         Duration_of (firing_seq_duration (VLP_32_SPEC hc) * 0.000001 * real i
                      + firing_duration (VLP_32_SPEC hc) * 0.000001 * real (j div 2)))"
  by (simp add: timing_offsets_length timing_offsets_nth timing_offset_def)

theorem timing_offsets_table_witness:
  "length (getVLP32TimingOffsets example_consts ! 3) = 32
   \<and> getVLP32TimingOffsets example_consts ! 3 ! 5 = \<lparr>d_sec = 0, d_nsec = 170496\<rparr>"
proof -
  from timing_offsets_table [of example_consts]
  have l: "\<And>i. i < 12 \<Longrightarrow> length (getVLP32TimingOffsets example_consts ! i) = 32"
    and q: "\<And>i j. i < 12 \<Longrightarrow> j < 32 \<Longrightarrow>
      getVLP32TimingOffsets example_consts ! i ! j =
        Duration_of (firing_seq_duration (VLP_32_SPEC example_consts) * 0.000001 * real i
                     + firing_duration (VLP_32_SPEC example_consts) * 0.000001 * real (j div 2))"
    by blast+
  have "getVLP32TimingOffsets example_consts ! 3 ! 5 =
        Duration_of (firing_seq_duration (VLP_32_SPEC example_consts) * 0.000001 * real (3::nat)
                     + firing_duration (VLP_32_SPEC example_consts) * 0.000001 * real ((5::nat) div 2))"
    by (rule q) simp_all
  also have "\<dots> = \<lparr>d_sec = 0, d_nsec = 170496\<rparr>"
    by (simp add: example_consts_def example_vlp32_def Duration_of_def round_def Let_def)
  finally show ?thesis using l [of 3] by simp
qed

subsection \<open>C8: the time of a point\<close>

text \<open>
  Claim C8. After a successful \<open>RawData_setup\<close> with a calibration of exactly 16
  lasers the timing-offset table is empty and every point that a decode appends
  carries the packet's time stamp. After a successful \<open>RawData_setup\<close> with the
  device-model hint \<open>VLP32\<close> and a number of lasers other than 16 the table is the
  one \<open>getVLP32TimingOffsets\<close> builds, which is not empty; the points a decode
  appends are, in their order, the points of the entries of the decoded blocks; and
  every entry that yields a point, in whichever block and firing sequence, gives it the
  packet's time stamp plus the table's entry at that block and that firing sequence:
  counted in nanoseconds, the point's time is the sum of the stamp and of the offset
  \<open>timing_offset\<close> of that block and firing sequence.
\<close>

theorem setup_timing_offsets:
  assumes "RawData_setup hc pkgPath read_calibration private_nh rd = (0, rd')"
  shows "(num_lasers (calibration rd') = 16 \<longrightarrow>
            timing_offsets rd' = [] \<and> is_vlp rd'
            \<and> (\<forall>p\<in>set (appended pc (snd (unpackAndAdd hc rd' pkt pc))).
                  time_sec p = sec (stamp pkt) \<and> time_nsec p = nsec (stamp pkt)))
       \<and> (num_lasers (calibration rd') \<noteq> 16 \<and> device_model_param private_nh = Some ''VLP32'' \<longrightarrow>
            timing_offsets rd' = getVLP32TimingOffsets hc \<and> timing_offsets rd' \<noteq> [] \<and> is_vlp rd'
            \<and> appended pc (snd (unpackAndAdd hc rd' pkt pc))
                = entry_points (vlp_entries hc rd' pkt (decoded_blocks hc pkt))
            \<and> (\<forall>block firing_seq laser k azimuth azimuth_diff p.
                  vlp_scan hc rd' pkt block azimuth azimuth_diff firing_seq laser k = Inr (Some p) \<longrightarrow>
                  block < 12 \<and> firing_seq < 32
                  \<and> timing_offsets rd' ! block ! firing_seq = timing_offset hc block firing_seq
                  \<and> time_plus (stamp pkt) (timing_offsets rd' ! block ! firing_seq)
                      = Inr \<lparr>sec = time_sec p, nsec = time_nsec p\<rparr>
                  \<and> int (time_sec p) * 10 ^ 9 + int (time_nsec p)
                      = (int (sec (stamp pkt)) + d_sec (timing_offset hc block firing_seq)) * 10 ^ 9
                        + (int (nsec (stamp pkt)) + d_nsec (timing_offset hc block firing_seq))
                  \<and> time_nsec p < 10 ^ 9))"
proof (intro conjI impI allI)
  assume n16: "num_lasers (calibration rd') = 16"
  from assms n16 show e: "timing_offsets rd' = []" and v: "is_vlp rd'"
    by (auto simp: RawData_setup_def Let_def split: if_splits option.splits)
  show "\<forall>p\<in>set (appended pc (snd (unpackAndAdd hc rd' pkt pc))).
           time_sec p = sec (stamp pkt) \<and> time_nsec p = nsec (stamp pkt)"
  proof
    fix p assume "p \<in> set (appended pc (snd (unpackAndAdd hc rd' pkt pc)))"
    then have "p \<in> set (appended pc (snd (unpack_vlp hc rd' pkt pc)))"
      using v by (simp add: unpackAndAdd_def)
    from unpack_vlp_appended [OF this] obtain b fs l k where
      "vlp_scan hc rd' pkt b (real (unat (rotation (blocks pkt b)))) (azimuth_diff_of pkt b) fs l k
         = Inr (Some p)" by blast
    from vlp_scan_time [OF this] e show "time_sec p = sec (stamp pkt) \<and> time_nsec p = nsec (stamp pkt)"
      by (auto simp: vlp_point_time_def)
  qed
next
  assume a: "num_lasers (calibration rd') \<noteq> 16 \<and> device_model_param private_nh = Some ''VLP32''"
  from assms a show t: "timing_offsets rd' = getVLP32TimingOffsets hc" and v: "is_vlp rd'"
    and s: "timing_offsets rd' \<noteq> []"
    using timing_offsets_length [of hc]
    by (auto simp: RawData_setup_def Let_def split: if_splits option.splits)
  show "appended pc (snd (unpackAndAdd hc rd' pkt pc))
          = entry_points (vlp_entries hc rd' pkt (decoded_blocks hc pkt))"
    using v by (simp add: unpackAndAdd_def unpack_vlp_appended_eq)
  fix block firing_seq laser k azimuth azimuth_diff p
  assume sc: "vlp_scan hc rd' pkt block azimuth azimuth_diff firing_seq laser k = Inr (Some p)"
  from vlp_scan_time [OF sc] s
  have b: "block < length (timing_offsets rd')"
    and f: "firing_seq < length (timing_offsets rd' ! block)"
    and p: "time_plus (stamp pkt) (timing_offsets rd' ! block ! firing_seq)
              = Inr \<lparr>sec = time_sec p, nsec = time_nsec p\<rparr>"
    by (auto simp: vlp_point_time_def split: if_splits)
  from b show b12: "block < 12" by (simp add: t timing_offsets_length)
  from f b12 show f32: "firing_seq < 32" by (simp add: t timing_offsets_nth)
  from b12 f32 show e: "timing_offsets rd' ! block ! firing_seq = timing_offset hc block firing_seq"
    by (simp add: t timing_offsets_nth)
  from p show "time_plus (stamp pkt) (timing_offsets rd' ! block ! firing_seq)
              = Inr \<lparr>sec = time_sec p, nsec = time_nsec p\<rparr>" .
  from time_plus_total [OF p]
  show "int (time_sec p) * 10 ^ 9 + int (time_nsec p)
          = (int (sec (stamp pkt)) + d_sec (timing_offset hc block firing_seq)) * 10 ^ 9
            + (int (nsec (stamp pkt)) + d_nsec (timing_offset hc block firing_seq))"
    and "time_nsec p < 10 ^ 9"
    by (simp_all add: e)
qed

theorem setup_timing_offsets_witness:
  "RawData_setup example_consts [] (\<lambda>f. example_calibration 16) (example_nh None)
     (example_rawdata 0 36000 64 False) = (0, example_rawdata 0 36000 16 True)
   \<and> num_lasers (calibration (example_rawdata 0 36000 16 True)) = 16
   \<and> timing_offsets (example_rawdata 0 36000 16 True) = []
   \<and> example_point \<in> set (appended example_pc
        (snd (unpackAndAdd example_consts (example_rawdata 0 36000 16 True) tampered_packet
               example_pc)))
   \<and> time_sec example_point = sec (stamp tampered_packet)
   \<and> time_nsec example_point = nsec (stamp tampered_packet)
   \<and> RawData_setup example_consts [] (\<lambda>f. example_calibration 32) (example_nh (Some ''VLP32''))
       (example_rawdata 0 36000 64 False) = (0, example_rawdata32)
   \<and> num_lasers (calibration example_rawdata32) \<noteq> 16
   \<and> device_model_param (example_nh (Some ''VLP32'')) = Some ''VLP32''
   \<and> timing_offsets example_rawdata32 = getVLP32TimingOffsets example_consts
   \<and> timing_offsets example_rawdata32 \<noteq> []
   \<and> vlp_scan example_consts example_rawdata32 (example_packet 0) 5
        (real (unat (rotation (blocks (example_packet 0) 5))))
        (azimuth_diff_of (example_packet 0) 5) 0 0 0 = Inr (Some late_point)
   \<and> late_point \<in> set (appended example_pc
        (snd (unpackAndAdd example_consts example_rawdata32 (example_packet 0) example_pc)))
   \<and> timing_offsets example_rawdata32 ! 5 ! 0 = timing_offset example_consts 5 0
   \<and> timing_offset example_consts 5 0 = \<lparr>d_sec = 0, d_nsec = 276480\<rparr>
   \<and> time_plus (stamp (example_packet 0)) (timing_offsets example_rawdata32 ! 5 ! 0)
       = Inr \<lparr>sec = time_sec late_point, nsec = time_nsec late_point\<rparr>
   \<and> time_sec late_point = 1 \<and> time_nsec late_point = 276480"
proof -
  note a = setup_timing_offsets [OF example_setup_16, of example_pc tampered_packet]
  note b = setup_timing_offsets [OF example_setup_32, of example_pc "example_packet 0"]
  have n16: "num_lasers (calibration (example_rawdata 0 36000 16 True)) = 16"
    by (simp add: example_rawdata_def example_calibration_def)
  have n32: "num_lasers (calibration example_rawdata32) \<noteq> 16"
    by (simp add: example_rawdata32_simps example_calibration_def)
  have m: "device_model_param (example_nh (Some ''VLP32'')) = Some ''VLP32''"
    by (simp add: example_nh_def)
  note p16 = tampered_appended and sc = late_scan
  from a n16 have e: "timing_offsets (example_rawdata 0 36000 16 True) = []"
    by blast
  from a n16 p16 have t: "time_sec example_point = sec (stamp tampered_packet)"
    "time_nsec example_point = nsec (stamp tampered_packet)"
    by blast+
  from b n32 m have o: "timing_offsets example_rawdata32 = getVLP32TimingOffsets example_consts"
    "timing_offsets example_rawdata32 \<noteq> []"
    by blast+
  from b n32 m
  have "appended example_pc
          (snd (unpackAndAdd example_consts example_rawdata32 (example_packet 0) example_pc))
        = entry_points (vlp_entries example_consts example_rawdata32 (example_packet 0)
            (decoded_blocks example_consts (example_packet 0)))"
    by blast
  with late_entry
  have p32: "late_point \<in> set (appended example_pc
        (snd (unpackAndAdd example_consts example_rawdata32 (example_packet 0) example_pc)))"
    by (simp add: example_decoded_blocks)
  from b n32 m sc
  have x: "timing_offsets example_rawdata32 ! 5 ! 0 = timing_offset example_consts 5 0"
    and y: "time_plus (stamp (example_packet 0)) (timing_offsets example_rawdata32 ! 5 ! 0)
       = Inr \<lparr>sec = time_sec late_point, nsec = time_nsec late_point\<rparr>"
    by blast+
  have z: "timing_offset example_consts 5 0 = \<lparr>d_sec = 0, d_nsec = 276480\<rparr>"
    using example_timing_offset [of 5] by simp
  have lp: "time_sec late_point = 1" "time_nsec late_point = 276480"
    by (simp_all add: late_point_def example_point_def)
  show ?thesis
    by (intro conjI) (fact example_setup_16 n16 e p16 t example_setup_32 n32 m o sc p32 x z y lp)+
qed

subsection \<open>C9: the two-point correction flag\<close>

text \<open>
  Claim C9. For every packet and every calibration, a decode with the flag
  \<open>two_pt_correction_available\<close> of the lasers cleared gives the same result and the
  same point cloud, so the same coordinates, intensities, times and rings, as a decode
  with the flag set and \<open>dist_correction_x\<close> and \<open>dist_correction_y\<close> both equal to
  \<open>dist_correction\<close>, in both decode paths.
\<close>

theorem two_pt_unavailable_same_as_zero_deltas:
  "unpackAndAdd hc (map_corrections without_two_pt rd) pkt pc
     = unpackAndAdd hc (map_corrections with_zero_deltas rd) pkt pc"
  by (rule unpackAndAdd_cong)
     (simp_all add: map_corrections_simps vlp_entries_def legacy_entries_def
        vlp_block_entries_two_pt legacy_block_entries_two_pt)

theorem two_pt_unavailable_same_as_zero_deltas_witness:
  "without_two_pt example_correction \<noteq> with_zero_deltas example_correction
   \<and> unpackAndAdd example_consts (map_corrections without_two_pt (example_rawdata 0 36000 16 True))
        (example_packet 0) example_pc
     = unpackAndAdd example_consts (map_corrections with_zero_deltas (example_rawdata 0 36000 16 True))
        (example_packet 0) example_pc"
proof -
  have "two_pt_correction_available (without_two_pt example_correction)
          \<noteq> two_pt_correction_available (with_zero_deltas example_correction)"
    by (simp add: without_two_pt_def with_zero_deltas_def)
  then have "without_two_pt example_correction \<noteq> with_zero_deltas example_correction"
    by metis
  with two_pt_unavailable_same_as_zero_deltas
    [of example_consts "example_rawdata 0 36000 16 True" "example_packet 0" example_pc]
  show ?thesis by blast
qed

subsection \<open>C10: the index into the rotation tables\<close>

text \<open>
  Claim C10. In the VLP16/VLP32 path the index into the rotation tables, the corrected
  azimuth reduced by 36000, lies strictly between \<open>- 36000\<close> and 36000 for every
  packet. It is not negative, so the lookup is in bounds, when the profile is plausible
  and the rotation does not run backwards between the last two blocks of the packet
  (\<open>inter_block_delta\<close> of the last pair of blocks is not negative); then no decode
  reports an index out of bounds. In the legacy path, with all 64 lasers calibrated, a
  decode reports an index out of bounds exactly when some block passes the
  field-of-view test with a rotation of \<open>ROTATION_MAX_UNITS\<close> or more.
\<close>

theorem rot_table_index_bounds:
  "- 36000 < c_rem (c_round (vlp_azimuth_corrected_f (vlp_spec rd) az ad fs l)) 36000
   \<and> c_rem (c_round (vlp_azimuth_corrected_f (vlp_spec rd) az ad fs l)) 36000 < 36000
   \<and> (vlp_spec_plausible (vlp_spec rd) \<and> 0 \<le> inter_block_delta pkt (BLOCKS_PER_PACKET - 2) \<longrightarrow>
        (\<forall>b<BLOCKS_PER_PACKET. \<forall>fs l.
           int fs < firing_seqs_per_block (vlp_spec rd) \<longrightarrow>
           int l < lasers_per_firing_seq (vlp_spec rd) \<longrightarrow>
           0 \<le> c_rem (c_round (vlp_azimuth_corrected_f (vlp_spec rd)
                                 (real (unat (rotation (blocks pkt b)))) (azimuth_diff_of pkt b) fs l))
                     36000)
        \<and> fst (unpack_vlp hc rd pkt pc) \<noteq> Inl RotTableIndex)
   \<and> ((\<forall>l<64. laser_corrections (calibration rd) l \<noteq> None) \<longrightarrow>
        (fst (legacy_blocks hc rd pkt 0 pc) = Inl RotTableIndex \<longleftrightarrow>
         (\<exists>i<BLOCKS_PER_PACKET. azimuth_in_window (config rd) (uint (rotation (blocks pkt i)))
            \<and> ROTATION_MAX_UNITS \<le> unat (rotation (blocks pkt i)))))"
proof (intro conjI impI allI)
  show "- 36000 < c_rem (c_round (vlp_azimuth_corrected_f (vlp_spec rd) az ad fs l)) 36000"
    and "c_rem (c_round (vlp_azimuth_corrected_f (vlp_spec rd) az ad fs l)) 36000 < 36000"
    using c_rem_range by simp_all
next
  fix b fs l
  assume a: "vlp_spec_plausible (vlp_spec rd) \<and> 0 \<le> inter_block_delta pkt (BLOCKS_PER_PACKET - 2)"
    and b: "b < BLOCKS_PER_PACKET" and fs: "int fs < firing_seqs_per_block (vlp_spec rd)"
    and l: "int l < lasers_per_firing_seq (vlp_spec rd)"
  have "0 \<le> c_round (vlp_azimuth_corrected_f (vlp_spec rd) (real (unat (rotation (blocks pkt b))))
               (azimuth_diff_of pkt b) fs l)"
    using a by (intro azimuth_corrected_round_nonneg [OF _ l fs b]) simp_all
  then
  show "0 \<le> c_rem (c_round (vlp_azimuth_corrected_f (vlp_spec rd)
                                 (real (unat (rotation (blocks pkt b)))) (azimuth_diff_of pkt b) fs l))
                     36000"
    by (simp add: c_rem_nonneg)
next
  assume "vlp_spec_plausible (vlp_spec rd) \<and> 0 \<le> inter_block_delta pkt (BLOCKS_PER_PACKET - 2)"
  then show "fst (unpack_vlp hc rd pkt pc) \<noteq> Inl RotTableIndex"
    by (intro unpack_vlp_no_rot_index) simp_all
next
  assume "\<forall>l<64. laser_corrections (calibration rd) l \<noteq> None"
  then show "fst (legacy_blocks hc rd pkt 0 pc) = Inl RotTableIndex \<longleftrightarrow>
         (\<exists>i<BLOCKS_PER_PACKET. azimuth_in_window (config rd) (uint (rotation (blocks pkt i)))
            \<and> ROTATION_MAX_UNITS \<le> unat (rotation (blocks pkt i)))"
    by (rule legacy_rot_index_iff)
qed

theorem rot_table_index_bounds_witness:
  "vlp_spec_plausible (vlp_spec (example_rawdata 0 36000 16 True))
   \<and> 0 \<le> inter_block_delta sweep_packet (BLOCKS_PER_PACKET - 2)
   \<and> 0 \<le> c_rem (c_round (vlp_azimuth_corrected_f (vlp_spec (example_rawdata 0 36000 16 True))
                (real (unat (rotation (blocks sweep_packet 3)))) (azimuth_diff_of sweep_packet 3) 1 5))
             36000
   \<and> fst (unpack_vlp example_consts (example_rawdata 0 36000 16 True) sweep_packet example_pc)
       \<noteq> Inl RotTableIndex
   \<and> azimuth_in_window (config (example_rawdata 27000 9000 64 False))
       (uint (rotation (blocks (example_packet 40000) 0)))
   \<and> ROTATION_MAX_UNITS \<le> unat (rotation (blocks (example_packet 40000) 0))
   \<and> fst (legacy_blocks example_consts (example_rawdata 27000 9000 64 False) (example_packet 40000)
            0 example_pc) = Inl RotTableIndex"
proof -
  note w = rot_table_index_bounds [where hc = example_consts and pc = example_pc]
  have p: "vlp_spec_plausible (vlp_spec (example_rawdata 0 36000 16 True))"
    by (simp add: example_rawdata_simps example_vlp16_plausible)
  have d: "0 \<le> inter_block_delta sweep_packet (BLOCKS_PER_PACKET - 2)"
    by (simp add: BLOCKS_PER_PACKET_def sweep_delta)
  have r: "(3::nat) < BLOCKS_PER_PACKET"
    "int 1 < firing_seqs_per_block (vlp_spec (example_rawdata 0 36000 16 True))"
    "int 5 < lasers_per_firing_seq (vlp_spec (example_rawdata 0 36000 16 True))"
    by (simp_all add: BLOCKS_PER_PACKET_def example_rawdata_simps example_vlp16_simps)
  from w [where rd = "example_rawdata 0 36000 16 True" and pkt = sweep_packet] p d r
  have i: "0 \<le> c_rem (c_round (vlp_azimuth_corrected_f (vlp_spec (example_rawdata 0 36000 16 True))
                (real (unat (rotation (blocks sweep_packet 3)))) (azimuth_diff_of sweep_packet 3) 1 5))
             36000"
    by blast
  from w [where rd = "example_rawdata 0 36000 16 True" and pkt = sweep_packet] p d
  have u: "fst (unpack_vlp example_consts (example_rawdata 0 36000 16 True) sweep_packet example_pc)
       \<noteq> Inl RotTableIndex"
    by blast
  have c: "\<forall>l<64. laser_corrections (calibration (example_rawdata 27000 9000 64 False)) l \<noteq> None"
    by (simp add: example_rawdata_simps)
  have z: "(0::nat) < BLOCKS_PER_PACKET" by (simp add: BLOCKS_PER_PACKET_def)
  note x = example_window_wraps
  from w [where rd = "example_rawdata 27000 9000 64 False" and pkt = "example_packet 40000"] c z x
  have l: "fst (legacy_blocks example_consts (example_rawdata 27000 9000 64 False)
      (example_packet 40000) 0 example_pc) = Inl RotTableIndex"
    by blast
  from p d i u x l show ?thesis by blast
qed

text \<open>
  A packet whose headers are all valid and whose rotation falls from 65535 to 0
  between the last two blocks: the second laser of the last block has the index
  \<open>- 615\<close>, and the decode reports the index out of bounds.
\<close>

theorem wrapped_packet_index_out_of_bounds:
  "fst (unpackAndAdd example_consts (example_rawdata 27000 9000 16 True) wrapped_packet example_pc)
     = Inl RotTableIndex
   \<and> c_rem (c_round (vlp_azimuth_corrected_f (vlp_spec (example_rawdata 27000 9000 16 True))
              (real (unat (rotation (blocks wrapped_packet 11)))) (azimuth_diff_of wrapped_packet 11)
              0 1)) 36000 = - 615"
proof
  let ?rd = "example_rawdata 27000 9000 16 True"
  have v: "\<forall>b<BLOCKS_PER_PACKET. header (blocks wrapped_packet b) = UPPER_BANK example_consts"
    by (simp add: wrapped_packet_def example_block_def example_consts_def)
  obtain rest where r: "vlp_block_entries example_consts ?rd wrapped_packet 11
     = Inr (Some example_point) # Inl RotTableIndex # rest"
    using wrapped_block_11 by blast
  obtain pc1 where p: "append_scans (vlp_entries example_consts ?rd wrapped_packet 11) example_pc
     = (None, pc1)"
    using wrapped_prefix [of example_pc]
    by (cases "append_scans (vlp_entries example_consts ?rd wrapped_packet 11) example_pc") auto
  have "vlp_entries example_consts ?rd wrapped_packet BLOCKS_PER_PACKET
      = vlp_entries example_consts ?rd wrapped_packet 11
        @ vlp_block_entries example_consts ?rd wrapped_packet 11"
    using vlp_entries_Suc [of example_consts ?rd wrapped_packet 11]
    by (simp add: BLOCKS_PER_PACKET_def)
  then have "fst (append_scans (vlp_entries example_consts ?rd wrapped_packet BLOCKS_PER_PACKET)
               example_pc) = Some RotTableIndex"
    by (simp add: append_scans_append p r)
  then have "fst (unpack_vlp example_consts ?rd wrapped_packet example_pc) = Inl RotTableIndex"
    unfolding unpack_vlp_all_valid [OF v]
    by (cases "append_scans (vlp_entries example_consts ?rd wrapped_packet BLOCKS_PER_PACKET)
               example_pc") auto
  then show "fst (unpackAndAdd example_consts ?rd wrapped_packet example_pc) = Inl RotTableIndex"
    by (simp add: unpackAndAdd_def example_rawdata_def)
  show "c_rem (c_round (vlp_azimuth_corrected_f (vlp_spec ?rd)
              (real (unat (rotation (blocks wrapped_packet 11)))) (azimuth_diff_of wrapped_packet 11)
              0 1)) 36000 = - 615"
  proof -
    have spec: "vlp_spec ?rd = example_vlp16" by (simp add: example_rawdata_def)
    have az: "real (unat (rotation (blocks wrapped_packet 11))) = 0"
      by (simp add: wrapped_packet_def example_block_def)
    show ?thesis unfolding spec az wrapped_diff by (rule wrapped_index)
  qed
qed

end
